theory Spec2Isabelle
  imports Complex_Main "HOL-Library.Sublist"
begin

section \<open>Errors, promises and the instrumented world\<close>

text \<open>
  The plugin is a typed client over the GitHub REST API. Every method of
  \<^verbatim>\<open>PluginApiClient\<close> is an \<^verbatim>\<open>async\<close> function: it either resolves with a value or
  rejects with an error, and on the way it talks to GitHub. The embedding makes both
  explicit. An error is a value; the two kinds the sources distinguish are the error
  objects thrown by Octokit (of which the code reads \<^verbatim>\<open>error.status\<close>,
  \<^verbatim>\<open>error.body.message\<close> and \<^verbatim>\<open>error.message\<close>) and the plugin's own
  \<^verbatim>\<open>GitHubReleaseManagerError\<close>, constructed from a message. The third kind is the
  \<^verbatim>\<open>TypeError\<close> that the runtime throws when a property of \<^verbatim>\<open>undefined\<close> is
  read; it carries the name of the property (the wording of its message is that of V8).
\<close>

datatype error =
    RequestError "int option" "string option" string
  | GitHubReleaseManagerError string
  | TypeError string

fun error_status :: "error \<Rightarrow> int option" where
  "error_status (RequestError st bm m) = st"
| "error_status (GitHubReleaseManagerError m) = None"
| "error_status (TypeError p) = None"

fun error_body_message :: "error \<Rightarrow> string option" where
  "error_body_message (RequestError st bm m) = bm"
| "error_body_message (GitHubReleaseManagerError m) = None"
| "error_body_message (TypeError p) = None"

fun error_message :: "error \<Rightarrow> string" where
  "error_message (RequestError st bm m) = m"
| "error_message (GitHubReleaseManagerError m) = m"
| "error_message (TypeError p) =
     ''Cannot read properties of undefined (reading '' @ [CHR 0x27] @ p @ [CHR 0x27] @ '')''"

text \<open>
  The requests the client sends, one constructor per Octokit endpoint, with the
  parameters in the order the comment gives. The spread \<^verbatim>\<open>...DISABLE_CACHE\<close> is
  carried as a list of extra parameters (the empty list where the source does not spread it).
\<close>

type_synonym params = "(string \<times> string) list"

datatype request =
    ReposListForOrg string nat
      \<comment> \<open>org, per_page (through \<^verbatim>\<open>octokit.paginate\<close>)\<close>
  | ReposListForUser string nat
      \<comment> \<open>username, per_page (through \<^verbatim>\<open>octokit.paginate\<close>)\<close>
  | ReposListReleases string string nat params
      \<comment> \<open>owner, repo, per_page, extra\<close>
  | ReposGetCommit string string string params
      \<comment> \<open>owner, repo, ref, extra\<close>
  | GitCreateRef string string string string
      \<comment> \<open>owner, repo, ref, sha\<close>
  | GitCreateTag string string string string string string string "string option" "string option"
      \<comment> \<open>owner, repo, tag, message, object, type, tagger.date, tagger.name, tagger.email\<close>
  | GitUpdateRef string string string string bool
      \<comment> \<open>owner, repo, ref, sha, force\<close>
  | GitCreateCommit string string string string "string list"
      \<comment> \<open>owner, repo, message, tree, parents\<close>
  | ReposMerge string string string string
      \<comment> \<open>owner, repo, base, head\<close>
  | ReposCompareCommits string string string string
      \<comment> \<open>owner, repo, base, head\<close>
  | ReposCreateRelease string string string string string string bool
      \<comment> \<open>owner, repo, tag_name, name, target_commitish, body, prerelease\<close>
  | ReposUpdateRelease string string nat string "string option" "bool option"
      \<comment> \<open>owner, repo, release_id, tag_name, body (when given), prerelease (when given)\<close>
  | GitGetTag string string string
      \<comment> \<open>owner, repo, tag_sha\<close>

text \<open>The parts of the response payloads that the client reads.\<close>

datatype nullable_string = Undefined | Null | Str string

record repository_data =
  repo_name :: string

record release_data =
  rel_id :: nat
  rel_name :: "string option"
  rel_tag_name :: string
  rel_html_url :: string
  rel_target_commitish :: string
  rel_prerelease :: bool
  rel_body :: nullable_string
  rel_published_at :: "string option"

record repo_commit_data =
  rc_sha :: string
  rc_html_url :: string
  rc_commit_message :: string
  rc_commit_author_date :: "string option"
  rc_commit_committer_date :: "string option"

record git_ref_data =
  ref_ref :: string
  ref_object_sha :: string

record git_tag_data =
  tag_tag :: string
  tag_sha :: string
  tag_tagger_date :: string
  tag_tagger_name :: string
  tag_tagger_email :: string

record git_commit_data =
  gc_message :: string
  gc_sha :: string

record merge_data =
  merge_html_url :: string
  merge_commit_message :: string
  merge_commit_tree_sha :: string

record comparison_data =
  cmp_html_url :: string
  cmp_ahead_by :: nat

text \<open>
  GitHub itself is not part of the repository: it is an arbitrary deterministic server
  with a state of type \<open>'g\<close>. An endpoint takes the request and the server state and
  returns the response (or the error it throws) with the new server state. An Octokit
  instance is the collection of the endpoints the client uses.
\<close>

type_synonym ('g, 'a) endpoint = "request \<Rightarrow> 'g \<Rightarrow> (error + 'a) \<times> 'g"

record 'g octokit =
  paginate_repos_listForOrg :: "('g, repository_data list) endpoint"
  paginate_repos_listForUser :: "('g, repository_data list) endpoint"
  repos_listReleases :: "('g, release_data list) endpoint"
  repos_getCommit :: "('g, repo_commit_data) endpoint"
  git_createRef :: "('g, git_ref_data) endpoint"
  git_createTag :: "('g, git_tag_data) endpoint"
  git_updateRef :: "('g, git_ref_data) endpoint"
  git_createCommit :: "('g, git_commit_data) endpoint"
  repos_merge :: "('g, merge_data) endpoint"
  repos_compareCommits :: "('g, comparison_data) endpoint"
  repos_createRelease :: "('g, release_data) endpoint"
  repos_updateRelease :: "('g, release_data) endpoint"
  git_getTag :: "('g, git_tag_data) endpoint"

text \<open>
  What the module imports and does not define: the \<^verbatim>\<open>Octokit\<close> constructor (from the
  token and the base URL), the constant \<^verbatim>\<open>DISABLE_CACHE\<close>, and the clock read by
  \<^verbatim>\<open>new Date().toISOString()\<close>. They are parameters of the embedding.
\<close>

record 'g module_imports =
  Octokit :: "string \<Rightarrow> string \<Rightarrow> 'g octokit"
  DISABLE_CACHE :: params
  Date_toISOString :: "'g \<Rightarrow> string"

text \<open>
  The payloads handed to the caller-supplied success callbacks, and the events the
  embedding records: every request sent through Octokit and every invocation of a
  success callback, in the order they happen.
\<close>

record createRc_payload =
  comparisonUrl :: string
  createdTag :: string
  gitHubReleaseName :: "string option"
  gitHubReleaseUrl :: string
  previousTag :: "string option"

record promoteRc_payload =
  p_gitHubReleaseUrl :: string
  p_gitHubReleaseName :: "string option"
  p_previousTagUrl :: string
  p_previousTag :: string
  p_updatedTagUrl :: string
  p_updatedTag :: string

datatype event =
    Req request
  | CreateRcSuccessCb createRc_payload
  | PromoteRcSuccessCb promoteRc_payload

text \<open>
  A \<^verbatim>\<open>ResponseStep\<close> is \<^verbatim>\<open>{message, secondaryMessage?, link?, icon?}\<close>.
\<close>

record ResponseStep =
  message :: string
  secondaryMessage :: "string option"
  link :: "string option"
  icon :: "string option"

record 'g state =
  world :: 'g
  trace :: "event list"
  responseSteps :: "ResponseStep list"

text \<open>
  A promise is a state transformer that returns \<open>Inl\<close> the error it rejects with or
  \<open>Inr\<close> the value it resolves with. \<open>await\<close> is sequencing (a rejection skips the
  continuation, as a thrown exception does) and \<open>promise_catch\<close> is \<^verbatim>\<open>.catch\<close>.
\<close>

type_synonym ('g, 'a) promise = "'g state \<Rightarrow> (error + 'a) \<times> 'g state"

definition resolve :: "'a \<Rightarrow> ('g, 'a) promise" where
  "resolve a s = (Inr a, s)"

definition reject :: "error \<Rightarrow> ('g, 'a) promise" where
  "reject e s = (Inl e, s)"

definition await :: "('g, 'a) promise \<Rightarrow> ('a \<Rightarrow> ('g, 'b) promise) \<Rightarrow> ('g, 'b) promise" where
  "await m f s = (case m s of (Inl e, s') \<Rightarrow> (Inl e, s') | (Inr a, s') \<Rightarrow> f a s')"

definition promise_catch :: "('g, 'a) promise \<Rightarrow> (error \<Rightarrow> ('g, 'a) promise) \<Rightarrow> ('g, 'a) promise" where
  "promise_catch m h s = (case m s of (Inl e, s') \<Rightarrow> h e s' | (Inr a, s') \<Rightarrow> (Inr a, s'))"

text \<open>Sending a request: the endpoint runs on the server state and the request is recorded.\<close>

definition send :: "('g, 'a) endpoint \<Rightarrow> request \<Rightarrow> ('g, 'a) promise" where
  "send ep r s =
     (case ep r (world s) of
        (res, g') \<Rightarrow> (res, s\<lparr>world := g', trace := trace s @ [Req r]\<rparr>))"

section \<open>PluginApiClient\<close>

subsection \<open>Construction and the integration configuration\<close>

text \<open>
  \<^verbatim>\<open>readGitHubIntegrationConfigs\<close> belongs to another package; its result, the list
  \<open>configs\<close>, is the input. Of a configuration the client reads \<^verbatim>\<open>host\<close> and the
  optional \<^verbatim>\<open>apiBaseUrl\<close>.
\<close>

record GitHubIntegrationConfig =
  cfg_host :: string
  cfg_apiBaseUrl :: "string option"

record 'g PluginApiClient =
  githubAuthApi :: "string list \<Rightarrow> 'g \<Rightarrow> (error + string) \<times> 'g"
  baseUrl :: string
  host :: string

definition getGithubIntegrationConfig ::
  "GitHubIntegrationConfig list \<Rightarrow> GitHubIntegrationConfig option" where
  "getGithubIntegrationConfig configs =
     (let githubIntegrationEnterpriseConfig = find (\<lambda>v. prefix ''ghe.'' (cfg_host v)) configs;
          githubIntegrationConfig = find (\<lambda>v. cfg_host v = ''github.com'') configs
      in case githubIntegrationEnterpriseConfig of
           Some c \<Rightarrow> Some c
         | None \<Rightarrow> githubIntegrationConfig)"

definition new_PluginApiClient ::
  "GitHubIntegrationConfig list \<Rightarrow> (string list \<Rightarrow> 'g \<Rightarrow> (error + string) \<times> 'g) \<Rightarrow> 'g PluginApiClient" where
  "new_PluginApiClient configs auth =
     (let githubIntegrationConfig = getGithubIntegrationConfig configs
      in \<lparr> githubAuthApi = auth,
           baseUrl = (case githubIntegrationConfig of
                        None \<Rightarrow> ''https://api.github.com''
                      | Some c \<Rightarrow> (case cfg_apiBaseUrl c of
                                    None \<Rightarrow> ''https://api.github.com''
                                  | Some u \<Rightarrow> u)),
           host = (case githubIntegrationConfig of
                     None \<Rightarrow> ''github.com''
                   | Some c \<Rightarrow> cfg_host c) \<rparr>)"

text \<open>
  \<^verbatim>\<open>getOctokit\<close> asks the auth API for a token with scope \<^verbatim>\<open>repo\<close> and builds the
  Octokit instance from it. Asking for the token is not a GitHub request and is not
  recorded, but it may reject, and then the method that called it sends nothing.
\<close>

definition getOctokit :: "'g module_imports \<Rightarrow> 'g PluginApiClient \<Rightarrow> ('g, 'g octokit) promise" where
  "getOctokit imp this s =
     (case githubAuthApi this [''repo''] (world s) of
        (Inl e, g') \<Rightarrow> (Inl e, s\<lparr>world := g'\<rparr>)
      | (Inr token, g') \<Rightarrow> (Inr (Octokit imp token (baseUrl this)), s\<lparr>world := g'\<rparr>))"

subsection \<open>Reading methods\<close>

definition getRepositories ::
  "'g module_imports \<Rightarrow> 'g PluginApiClient \<Rightarrow> string \<Rightarrow> ('g, string list) promise" where
  "getRepositories imp this owner =
     await (getOctokit imp this) (\<lambda>octokit.
     await (promise_catch
              (send (paginate_repos_listForOrg octokit) (ReposListForOrg owner 100))
              (\<lambda>error.
                 if error_status error = Some 404 then
                   await (send (paginate_repos_listForUser octokit) (ReposListForUser owner 100))
                     (\<lambda>userRepositoryResponse. resolve userRepositoryResponse)
                 else reject error))
       (\<lambda>repositoryResponse. resolve (map repo_name repositoryResponse)))"

text \<open>
  The reduced release that \<^verbatim>\<open>getLatestRelease\<close> returns; \<open>None\<close> is \<^verbatim>\<open>null\<close>.
\<close>

record LatestRelease =
  targetCommitish :: string
  tagName :: string
  prerelease :: bool
  id' :: nat
  htmlUrl :: string
  body :: nullable_string

definition getLatestRelease ::
  "'g module_imports \<Rightarrow> 'g PluginApiClient \<Rightarrow> string \<Rightarrow> string \<Rightarrow> ('g, LatestRelease option) promise" where
  "getLatestRelease imp this owner repo =
     await (getOctokit imp this) (\<lambda>octokit.
     await (send (repos_listReleases octokit) (ReposListReleases owner repo 1 (DISABLE_CACHE imp)))
       (\<lambda>latestReleases.
          case latestReleases of
            [] \<Rightarrow> resolve None
          | latestRelease # _ \<Rightarrow>
              resolve (Some \<lparr> targetCommitish = rel_target_commitish latestRelease,
                              tagName = rel_tag_name latestRelease,
                              prerelease = rel_prerelease latestRelease,
                              id' = rel_id latestRelease,
                              htmlUrl = rel_html_url latestRelease,
                              body = rel_body latestRelease \<rparr>)))"

subsection \<open>Rendering values inside template literals\<close>

text \<open>
  A template literal turns a number into its decimal digits, \<^verbatim>\<open>null\<close> into
  \<^verbatim>\<open>null\<close> and \<^verbatim>\<open>undefined\<close> into \<^verbatim>\<open>undefined\<close>.
\<close>

definition quote :: string where
  "quote = [CHR 0x22]"

definition newline :: string where
  "newline = [CHR 0x0A]"

function string_of_nat :: "nat \<Rightarrow> string" where
  "string_of_nat n =
     (if n < 10 then [char_of (48 + n)]
      else string_of_nat (n div 10) @ [char_of (48 + n mod 10)])"
  by pat_completeness auto
termination
  by (relation "measure (\<lambda>n. n)") auto

fun string_of_nullable :: "string option \<Rightarrow> string" where
  "string_of_nullable None = ''null''"
| "string_of_nullable (Some s) = s"

fun string_of_nullable_string :: "nullable_string \<Rightarrow> string" where
  "string_of_nullable_string Undefined = ''undefined''"
| "string_of_nullable_string Null = ''null''"
| "string_of_nullable_string (Str s) = s"

subsection \<open>Methods shared by the features\<close>

record GetLatestCommitResult =
  lc_sha :: string
  lc_htmlUrl :: string
  lc_commit_message :: string

definition getLatestCommit ::
  "'g module_imports \<Rightarrow> 'g PluginApiClient \<Rightarrow> string \<Rightarrow> string \<Rightarrow> string \<Rightarrow>
     ('g, GetLatestCommitResult) promise" where
  "getLatestCommit imp this owner repo branch =
     await (getOctokit imp this) (\<lambda>octokit.
     await (send (repos_getCommit octokit) (ReposGetCommit owner repo branch (DISABLE_CACHE imp)))
       (\<lambda>latestCommit.
          resolve \<lparr> lc_sha = rc_sha latestCommit,
                    lc_htmlUrl = rc_html_url latestCommit,
                    lc_commit_message = rc_commit_message latestCommit \<rparr>))"

definition tag_message :: string where
  "tag_message = ''Tag generated by your friendly neighborhood Backstage Release Manager''"

record CreateTagObjectResult =
  cto_tagName :: string
  cto_tagSha :: string

definition createTagObject ::
  "'g module_imports \<Rightarrow> 'g PluginApiClient \<Rightarrow> string \<Rightarrow> string \<Rightarrow> string \<Rightarrow> string \<Rightarrow>
     string option \<Rightarrow> string option \<Rightarrow> ('g, CreateTagObjectResult) promise" where
  "createTagObject imp this owner repo object tag taggerName taggerEmail =
     await (getOctokit imp this) (\<lambda>octokit. (\<lambda>s.
       await (send (git_createTag octokit)
                (GitCreateTag owner repo tag tag_message object ''commit''
                   (Date_toISOString imp (world s)) taggerName taggerEmail))
         (\<lambda>createTagResponse.
            resolve \<lparr> cto_tagName = tag_tag createTagResponse,
                      cto_tagSha = tag_sha createTagResponse \<rparr>) s))"

definition createReference ::
  "'g module_imports \<Rightarrow> 'g PluginApiClient \<Rightarrow> string \<Rightarrow> string \<Rightarrow> string \<Rightarrow> string \<Rightarrow>
     ('g, string) promise" where
  \<comment> \<open>resolves with \<^verbatim>\<open>{ref}\<close>, here the string itself\<close>
  "createReference imp this owner repo tagName' tagSha =
     await (getOctokit imp this) (\<lambda>octokit.
     await (send (git_createRef octokit) (GitCreateRef owner repo (''refs/tags/'' @ tagName') tagSha))
       (\<lambda>createRefResponse. resolve (ref_ref createRefResponse)))"

subsection \<open>The methods of \<^verbatim>\<open>createRc\<close>\<close>

definition createReleaseBranch ::
  "'g module_imports \<Rightarrow> 'g PluginApiClient \<Rightarrow> string \<Rightarrow> string \<Rightarrow> string \<Rightarrow> string \<Rightarrow>
     ('g, string) promise" where
  \<comment> \<open>resolves with \<^verbatim>\<open>{releaseBranchObjectSha}\<close>, here the string itself\<close>
  "createReleaseBranch imp this owner repo mostRecentSha targetBranch =
     await (getOctokit imp this) (\<lambda>octokit.
     await (send (git_createRef octokit)
              (GitCreateRef owner repo (''refs/heads/'' @ targetBranch) mostRecentSha))
       (\<lambda>newReleaseBranch. resolve (ref_object_sha newReleaseBranch)))"

record GetComparisonResult =
  cmp_htmlUrl :: string
  cmp_aheadBy :: nat

definition getComparison ::
  "'g module_imports \<Rightarrow> 'g PluginApiClient \<Rightarrow> string \<Rightarrow> string \<Rightarrow> string \<Rightarrow> string \<Rightarrow>
     ('g, GetComparisonResult) promise" where
  "getComparison imp this owner repo previousReleaseBranch nextReleaseBranch =
     await (getOctokit imp this) (\<lambda>octokit.
     await (send (repos_compareCommits octokit)
              (ReposCompareCommits owner repo previousReleaseBranch nextReleaseBranch))
       (\<lambda>compareCommitsResponse.
          resolve \<lparr> cmp_htmlUrl = cmp_html_url compareCommitsResponse,
                    cmp_aheadBy = cmp_ahead_by compareCommitsResponse \<rparr>))"

text \<open>
  \<^verbatim>\<open>createRelease\<close>, \<^verbatim>\<open>patch.updateRelease\<close> and \<^verbatim>\<open>promoteRelease\<close> all resolve
  with \<^verbatim>\<open>{name, htmlUrl, tagName}\<close>.
\<close>

record ReleaseResult =
  r_name :: "string option"
  r_htmlUrl :: string
  r_tagName :: string

definition release_result :: "release_data \<Rightarrow> ReleaseResult" where
  "release_result d = \<lparr> r_name = rel_name d, r_htmlUrl = rel_html_url d, r_tagName = rel_tag_name d \<rparr>"

definition createRelease ::
  "'g module_imports \<Rightarrow> 'g PluginApiClient \<Rightarrow> string \<Rightarrow> string \<Rightarrow> string \<Rightarrow> string \<Rightarrow> string \<Rightarrow>
     string \<Rightarrow> ('g, ReleaseResult) promise" where
  "createRelease imp this owner repo rcReleaseTag releaseName rcBranch releaseBody =
     await (getOctokit imp this) (\<lambda>octokit.
     await (send (repos_createRelease octokit)
              (ReposCreateRelease owner repo rcReleaseTag releaseName rcBranch releaseBody True))
       (\<lambda>createReleaseResponse. resolve (release_result createReleaseResponse)))"

subsection \<open>The methods of \<^verbatim>\<open>patch\<close>\<close>

text \<open>
  Of the tag parts the client reads \<^verbatim>\<open>patch\<close> only (their other components are
  the rest of the record, of type \<open>'t\<close>); of the selected commit it reads
  \<^verbatim>\<open>htmlUrl\<close>, \<^verbatim>\<open>sha\<close>, \<^verbatim>\<open>commit.message\<close> and the optional
  \<^verbatim>\<open>firstParentSha\<close>.
\<close>

record TagParts =
  patch :: nat

record RecentCommit =
  commit_htmlUrl :: string
  commit_sha :: string
  commit_message :: string
  firstParentSha :: "string option"

record CommitResult =
  c_message :: string
  c_sha :: string

definition createTempCommit ::
  "'g module_imports \<Rightarrow> 'g PluginApiClient \<Rightarrow> string \<Rightarrow> string \<Rightarrow> 't TagParts_scheme \<Rightarrow>
     string \<Rightarrow> RecentCommit \<Rightarrow> ('g, CommitResult) promise" where
  "createTempCommit imp this owner repo tagParts releaseBranchTree selectedPatchCommit =
     await (getOctokit imp this) (\<lambda>octokit.
     await (send (git_createCommit octokit)
              (GitCreateCommit owner repo
                 (''Temporary commit for patch '' @ string_of_nat (patch tagParts))
                 releaseBranchTree
                 [case firstParentSha selectedPatchCommit of Some p \<Rightarrow> p | None \<Rightarrow> []]))
       (\<lambda>tempCommit.
          resolve \<lparr> c_message = gc_message tempCommit, c_sha = gc_sha tempCommit \<rparr>))"

definition forceBranchHeadToTempCommit ::
  "'g module_imports \<Rightarrow> 'g PluginApiClient \<Rightarrow> string \<Rightarrow> string \<Rightarrow> string \<Rightarrow> CommitResult \<Rightarrow>
     ('g, unit) promise" where
  "forceBranchHeadToTempCommit imp this owner repo releaseBranchName tempCommit =
     await (getOctokit imp this) (\<lambda>octokit.
     await (send (git_updateRef octokit)
              (GitUpdateRef owner repo (''heads/'' @ releaseBranchName) (c_sha tempCommit) True))
       (\<lambda>_. resolve ()))"

record MergeResult =
  m_htmlUrl :: string
  m_commit_message :: string
  m_commit_tree_sha :: string

definition merge ::
  "'g module_imports \<Rightarrow> 'g PluginApiClient \<Rightarrow> string \<Rightarrow> string \<Rightarrow> string \<Rightarrow> string \<Rightarrow>
     ('g, MergeResult) promise" where
  "merge imp this owner repo base head =
     await (getOctokit imp this) (\<lambda>octokit.
     await (send (repos_merge octokit) (ReposMerge owner repo base head))
       (\<lambda>merge'.
          resolve \<lparr> m_htmlUrl = merge_html_url merge',
                    m_commit_message = merge_commit_message merge',
                    m_commit_tree_sha = merge_commit_tree_sha merge' \<rparr>))"

definition cherryPickMessage :: "string \<Rightarrow> RecentCommit \<Rightarrow> string \<Rightarrow> string" where
  "cherryPickMessage bumpedTag selectedPatchCommit messageSuffix =
     ''[patch '' @ bumpedTag @ ''] '' @ commit_message selectedPatchCommit
       @ newline @ newline @ messageSuffix"

definition createCherryPickCommit ::
  "'g module_imports \<Rightarrow> 'g PluginApiClient \<Rightarrow> string \<Rightarrow> string \<Rightarrow> string \<Rightarrow> RecentCommit \<Rightarrow>
     string \<Rightarrow> string \<Rightarrow> string \<Rightarrow> ('g, CommitResult) promise" where
  "createCherryPickCommit imp this owner repo bumpedTag selectedPatchCommit mergeTree
       releaseBranchSha messageSuffix =
     await (getOctokit imp this) (\<lambda>octokit.
     await (send (git_createCommit octokit)
              (GitCreateCommit owner repo
                 (cherryPickMessage bumpedTag selectedPatchCommit messageSuffix)
                 mergeTree [releaseBranchSha]))
       (\<lambda>cherryPickCommit.
          resolve \<lparr> c_message = gc_message cherryPickCommit, c_sha = gc_sha cherryPickCommit \<rparr>))"

record ReplaceTempCommitResult =
  u_ref :: string
  u_object_sha :: string

definition replaceTempCommit ::
  "'g module_imports \<Rightarrow> 'g PluginApiClient \<Rightarrow> string \<Rightarrow> string \<Rightarrow> string \<Rightarrow> CommitResult \<Rightarrow>
     ('g, ReplaceTempCommitResult) promise" where
  "replaceTempCommit imp this owner repo releaseBranchName cherryPickCommit =
     await (getOctokit imp this) (\<lambda>octokit.
     await (send (git_updateRef octokit)
              (GitUpdateRef owner repo (''heads/'' @ releaseBranchName) (c_sha cherryPickCommit) True))
       (\<lambda>updatedReference.
          resolve \<lparr> u_ref = ref_ref updatedReference,
                    u_object_sha = ref_object_sha updatedReference \<rparr>))"

definition patchReleaseBody ::
  "LatestRelease \<Rightarrow> 't TagParts_scheme \<Rightarrow> RecentCommit \<Rightarrow> string" where
  "patchReleaseBody latestRelease tagParts selectedPatchCommit =
     string_of_nullable_string (body latestRelease) @ newline @ newline
       @ ''#### [Patch '' @ string_of_nat (patch tagParts) @ '']('' @ commit_htmlUrl selectedPatchCommit @ '')''
       @ newline @ ''  '' @ newline
       @ commit_message selectedPatchCommit"

definition updateRelease ::
  "'g module_imports \<Rightarrow> 'g PluginApiClient \<Rightarrow> string \<Rightarrow> string \<Rightarrow> string \<Rightarrow> LatestRelease \<Rightarrow>
     't TagParts_scheme \<Rightarrow> RecentCommit \<Rightarrow> ('g, ReleaseResult) promise" where
  "updateRelease imp this owner repo bumpedTag latestRelease tagParts selectedPatchCommit =
     await (getOctokit imp this) (\<lambda>octokit.
     await (send (repos_updateRelease octokit)
              (ReposUpdateRelease owner repo (id' latestRelease) bumpedTag
                 (Some (patchReleaseBody latestRelease tagParts selectedPatchCommit)) None))
       (\<lambda>updatedRelease. resolve (release_result updatedRelease)))"

subsection \<open>The method of \<^verbatim>\<open>promoteRc\<close>\<close>


subsection \<open>The methods of \<^verbatim>\<open>stats\<close> that \<^verbatim>\<open>getTagDate\<close> calls\<close>

record GetSingleTagResult =
  st_date :: string
  st_username :: string
  st_userEmail :: string

definition getSingleTag ::
  "'g module_imports \<Rightarrow> 'g PluginApiClient \<Rightarrow> string \<Rightarrow> string \<Rightarrow> string \<Rightarrow>
     ('g, GetSingleTagResult) promise" where
  "getSingleTag imp this owner repo tagSha =
     await (getOctokit imp this) (\<lambda>octokit.
     await (send (git_getTag octokit) (GitGetTag owner repo tagSha))
       (\<lambda>singleTag.
          resolve \<lparr> st_date = tag_tagger_date singleTag,
                    st_username = tag_tagger_name singleTag,
                    st_userEmail = tag_tagger_email singleTag \<rparr>))"

definition stats_getCommit ::
  "'g module_imports \<Rightarrow> 'g PluginApiClient \<Rightarrow> string \<Rightarrow> string \<Rightarrow> string \<Rightarrow>
     ('g, string option) promise" where
  \<comment> \<open>resolves with \<^verbatim>\<open>{createdAt}\<close>, here the optional string itself\<close>
  "stats_getCommit imp this owner repo ref =
     await (getOctokit imp this) (\<lambda>octokit.
     await (send (repos_getCommit octokit) (ReposGetCommit owner repo ref []))
       (\<lambda>commit. resolve (rc_commit_committer_date commit)))"

section \<open>Hooks and helpers\<close>

subsection \<open>The response-step log\<close>

text \<open>
  Modelled from the spec: \<^verbatim>\<open>addStepToResponseSteps\<close> of the hook
  \<^verbatim>\<open>useResponseSteps\<close> (file \<^verbatim>\<open>hooks/useResponseSteps\<close>), which is not among the
  sources. The spec (3, 4.1): the log is ordered and append-only, and a step that
  succeeded appends one entry.
\<close>

definition addStepToResponseSteps :: "ResponseStep \<Rightarrow> ('g, unit) promise" where
  "addStepToResponseSteps responseStep s =
     (Inr (), s\<lparr>responseSteps := responseSteps s @ [responseStep]\<rparr>)"

text \<open>
  Modelled from the spec: \<^verbatim>\<open>asyncCatcher\<close> of the same missing hook. The callers
  read the awaited value right after \<^verbatim>\<open>.catch(asyncCatcher)\<close>, so it never returns;
  the spec (4.1): the first failure is surfaced verbatim.
\<close>

definition asyncCatcher :: "error \<Rightarrow> ('g, 'a) promise" where
  "asyncCatcher error = reject error"

text \<open>
  Modelled from the spec: \<^verbatim>\<open>abortIfError\<close> of the same missing hook. The spec (7):
  when a prior step of the chain errored, the later steps short-circuit.
\<close>

definition abortIfError :: "error option \<Rightarrow> ('g, unit) promise" where
  "abortIfError error = (case error of Some e \<Rightarrow> reject e | None \<Rightarrow> resolve ())"

subsection \<open>The state of an asynchronous hook\<close>

text \<open>
  A later step of a chain reads \<^verbatim>\<open>.value\<close> and \<^verbatim>\<open>.error\<close> of the state that
  \<^verbatim>\<open>useAsync\<close> (or \<^verbatim>\<open>useAsyncFn\<close>) keeps for the step before it: a rejection
  sets \<^verbatim>\<open>error\<close>, a resolution sets \<^verbatim>\<open>value\<close>, and a callback that returns
  \<^verbatim>\<open>undefined\<close> leaves both unset.
\<close>

datatype 'a AsyncState = NoValue | Value 'a | Error error

fun state_value :: "'a AsyncState \<Rightarrow> 'a option" where
  "state_value (Value v) = Some v"
| "state_value _ = None"

fun state_error :: "'a AsyncState \<Rightarrow> error option" where
  "state_error (Error e) = Some e"
| "state_error _ = None"

definition useAsync :: "('g, 'a option) promise \<Rightarrow> 'g state \<Rightarrow> 'a AsyncState \<times> 'g state" where
  "useAsync callback s =
     (case callback s of
        (Inl e, s') \<Rightarrow> (Error e, s')
      | (Inr None, s') \<Rightarrow> (NoValue, s')
      | (Inr (Some v), s') \<Rightarrow> (Value v, s'))"

subsection \<open>useCreateRc\<close>

datatype VersioningStrategy = semver | calver

record Project =
  owner :: string
  repo :: string
  versioningStrategy :: VersioningStrategy

record User =
  username :: string
  email :: "string option"

record AlertError =
  title :: "string option"
  subtitle :: string

record NextGitHubInfo =
  rcBranch :: string
  rcReleaseTag :: string
  releaseName :: string

record 'g CreateRC =
  defaultBranch :: string
  latestRelease :: "LatestRelease option"
  nextGitHubInfo :: "AlertError + NextGitHubInfo"
  project :: Project
  successCb :: "(createRc_payload \<Rightarrow> 'g \<Rightarrow> (error + unit) \<times> 'g) option"

text \<open>Calling the caller-supplied callback: it acts on the world, and the call is recorded.\<close>

definition call_createRc_successCb ::
  "(createRc_payload \<Rightarrow> 'g \<Rightarrow> (error + unit) \<times> 'g) \<Rightarrow> createRc_payload \<Rightarrow> ('g, unit) promise" where
  "call_createRc_successCb cb payload s =
     (case cb payload (world s) of
        (res, g') \<Rightarrow> (res, s\<lparr>world := g', trace := trace s @ [CreateRcSuccessCb payload]\<rparr>))"

text \<open>(1) Get the default branch's most recent commit.\<close>

definition run_latestCommit ::
  "'g module_imports \<Rightarrow> 'g PluginApiClient \<Rightarrow> 'g CreateRC \<Rightarrow>
     ('g, GetLatestCommitResult option) promise" where
  "run_latestCommit imp api inp =
     await (promise_catch
              (getLatestCommit imp api (owner (project inp)) (repo (project inp)) (defaultBranch inp))
              asyncCatcher)
       (\<lambda>latestCommit.
     await (addStepToResponseSteps
              \<lparr> message = ''Fetched latest commit from '' @ quote @ defaultBranch inp @ quote,
                secondaryMessage =
                  Some (''with message '' @ quote @ lc_commit_message latestCommit @ quote),
                link = Some (lc_htmlUrl latestCommit),
                icon = None \<rparr>)
       (\<lambda>_. resolve (Some latestCommit)))"

text \<open>(2) Create release branch based on default branch's most recent sha.\<close>

definition releaseBranch_step ::
  "'g module_imports \<Rightarrow> 'g PluginApiClient \<Rightarrow> 'g CreateRC \<Rightarrow> NextGitHubInfo \<Rightarrow>
     GetLatestCommitResult AsyncState \<Rightarrow> ('g, string option) promise" where
  "releaseBranch_step imp api inp info latestCommitRes =
     await (abortIfError (state_error latestCommitRes)) (\<lambda>_.
     case state_value latestCommitRes of
       None \<Rightarrow> resolve None
     | Some latestCommit \<Rightarrow>
         await (promise_catch
                  (promise_catch
                     (createReleaseBranch imp api (owner (project inp)) (repo (project inp))
                        (lc_sha latestCommit) (rcBranch info))
                     (\<lambda>error.
                        if error_body_message error = Some ''Reference already exists'' then
                          reject (GitHubReleaseManagerError
                            (''Branch '' @ quote @ rcBranch info @ quote
                               @ '' already exists: .../tree/'' @ rcBranch info))
                        else reject error))
                  asyncCatcher)
           (\<lambda>createdReleaseBranch.
         await (addStepToResponseSteps
                  \<lparr> message = ''Created Release Branch'',
                    secondaryMessage =
                      Some (''with object sha '' @ quote @ createdReleaseBranch @ quote),
                    link = None,
                    icon = None \<rparr>)
           (\<lambda>_. resolve (Some createdReleaseBranch))))"

text \<open>(3) Create tag object for our soon-to-be-created annotated tag.\<close>

definition tagObject_step ::
  "'g module_imports \<Rightarrow> 'g PluginApiClient \<Rightarrow> User \<Rightarrow> 'g CreateRC \<Rightarrow> NextGitHubInfo \<Rightarrow>
     string AsyncState \<Rightarrow> ('g, CreateTagObjectResult option) promise" where
  "tagObject_step imp api user inp info releaseBranchRes =
     await (abortIfError (state_error releaseBranchRes)) (\<lambda>_.
     case state_value releaseBranchRes of
       None \<Rightarrow> resolve None
     | Some releaseBranchObjectSha \<Rightarrow>
         await (promise_catch
                  (createTagObject imp api (owner (project inp)) (repo (project inp))
                     releaseBranchObjectSha (rcReleaseTag info) (Some (username user)) (email user))
                  asyncCatcher)
           (\<lambda>createdTagObject.
         await (addStepToResponseSteps
                  \<lparr> message = ''Created Tag Object'',
                    secondaryMessage =
                      Some (''with sha '' @ quote @ cto_tagSha createdTagObject @ quote),
                    link = None,
                    icon = None \<rparr>)
           (\<lambda>_. resolve (Some createdTagObject))))"

text \<open>(4) Create reference for tag object.\<close>

definition createRc_step ::
  "'g module_imports \<Rightarrow> 'g PluginApiClient \<Rightarrow> 'g CreateRC \<Rightarrow> NextGitHubInfo \<Rightarrow>
     CreateTagObjectResult AsyncState \<Rightarrow> ('g, string option) promise" where
  "createRc_step imp api inp info tagObjectRes =
     await (abortIfError (state_error tagObjectRes)) (\<lambda>_.
     case state_value tagObjectRes of
       None \<Rightarrow> resolve None
     | Some tagObject \<Rightarrow>
         await (promise_catch
                  (promise_catch
                     (createReference imp api (owner (project inp)) (repo (project inp))
                        (rcReleaseTag info) (cto_tagSha tagObject))
                     (\<lambda>error.
                        if error_body_message error = Some ''Reference already exists'' then
                          reject (GitHubReleaseManagerError
                            (''Tag reference '' @ quote @ rcReleaseTag info @ quote
                               @ '' already exists''))
                        else reject error))
                  asyncCatcher)
           (\<lambda>createdRef.
         await (addStepToResponseSteps
                  \<lparr> message = ''Cut Tag Reference'',
                    secondaryMessage = Some (''with ref '' @ quote @ createdRef @ quote),
                    link = None,
                    icon = None \<rparr>)
           (\<lambda>_. resolve (Some createdRef))))"

text \<open>(5) Compose a body for the release.\<close>

record ComparisonRes = GetComparisonResult +
  releaseBody :: string

definition composeReleaseBody :: "'a GetComparisonResult_scheme \<Rightarrow> string \<Rightarrow> string" where
  "composeReleaseBody comparison createdRef =
     ''**Compare** '' @ cmp_htmlUrl comparison @ newline @ newline
       @ ''**Ahead by** '' @ string_of_nat (cmp_aheadBy comparison) @ '' commits'' @ newline @ newline
       @ ''**Release branch** '' @ createdRef @ newline @ newline
       @ ''---'' @ newline @ newline"

definition previousReleaseBranch :: "'g CreateRC \<Rightarrow> string" where
  "previousReleaseBranch inp =
     (case latestRelease inp of Some r \<Rightarrow> targetCommitish r | None \<Rightarrow> defaultBranch inp)"

definition getComparison_step ::
  "'g module_imports \<Rightarrow> 'g PluginApiClient \<Rightarrow> 'g CreateRC \<Rightarrow> NextGitHubInfo \<Rightarrow>
     string AsyncState \<Rightarrow> ('g, ComparisonRes option) promise" where
  "getComparison_step imp api inp info createRcRes =
     await (abortIfError (state_error createRcRes)) (\<lambda>_.
     case state_value createRcRes of
       None \<Rightarrow> resolve None
     | Some createdRef \<Rightarrow>
         await (promise_catch
                  (getComparison imp api (owner (project inp)) (repo (project inp))
                     (previousReleaseBranch inp) (rcBranch info))
                  asyncCatcher)
           (\<lambda>comparison.
         await (addStepToResponseSteps
                  \<lparr> message = ''Fetched commit comparison'',
                    secondaryMessage = Some (previousReleaseBranch inp @ ''...'' @ rcBranch info),
                    link = Some (cmp_htmlUrl comparison),
                    icon = None \<rparr>)
           (\<lambda>_. resolve (Some (GetComparisonResult.extend comparison
                                  (ComparisonRes.fields (composeReleaseBody comparison createdRef)))))))"

text \<open>(6) Creates the release itself in GitHub.\<close>

definition createRelease_step ::
  "'g module_imports \<Rightarrow> 'g PluginApiClient \<Rightarrow> 'g CreateRC \<Rightarrow> NextGitHubInfo \<Rightarrow>
     ComparisonRes AsyncState \<Rightarrow> ('g, ReleaseResult option) promise" where
  "createRelease_step imp api inp info getComparisonRes =
     await (abortIfError (state_error getComparisonRes)) (\<lambda>_.
     case state_value getComparisonRes of
       None \<Rightarrow> resolve None
     | Some comparison \<Rightarrow>
         await (promise_catch
                  (createRelease imp api (owner (project inp)) (repo (project inp))
                     (rcReleaseTag info) (releaseName info) (rcBranch info) (releaseBody comparison))
                  asyncCatcher)
           (\<lambda>createReleaseResult.
         await (addStepToResponseSteps
                  \<lparr> message = ''Created Release Candidate '' @ quote
                                @ string_of_nullable (r_name createReleaseResult) @ quote,
                    secondaryMessage = Some (''with tag '' @ quote @ rcReleaseTag info @ quote),
                    link = Some (r_htmlUrl createReleaseResult),
                    icon = None \<rparr>)
           (\<lambda>_. resolve (Some createReleaseResult))))"

text \<open>
  (7) Run successCb if defined. The message ends with the bytes that the literal has in
  the source file.
\<close>

definition rocket :: string where
  "rocket = [CHR 0xC3, CHR 0xB0, CHR 0xC5, CHR 0xB8, CHR 0xC5, CHR 0xA1, CHR 0xE2, CHR 0x82, CHR 0xAC]"

definition successCb_payload ::
  "'g CreateRC \<Rightarrow> ReleaseResult \<Rightarrow> ComparisonRes \<Rightarrow> createRc_payload" where
  "successCb_payload inp createdRelease comparison =
     \<lparr> comparisonUrl = cmp_htmlUrl comparison,
       createdTag = r_tagName createdRelease,
       gitHubReleaseName = r_name createdRelease,
       gitHubReleaseUrl = r_htmlUrl createdRelease,
       previousTag = map_option tagName (latestRelease inp) \<rparr>"

definition successCb_step ::
  "'g CreateRC \<Rightarrow> ReleaseResult AsyncState \<Rightarrow> ComparisonRes AsyncState \<Rightarrow> ('g, unit option) promise" where
  "successCb_step inp createReleaseRes getComparisonRes =
     (case (successCb inp, state_value createReleaseRes, state_value getComparisonRes) of
        (Some cb, Some createdRelease, Some comparison) \<Rightarrow>
          await (abortIfError (state_error createReleaseRes)) (\<lambda>_.
          await (promise_catch
                   (call_createRc_successCb cb (successCb_payload inp createdRelease comparison))
                   asyncCatcher)
            (\<lambda>_.
          await (addStepToResponseSteps
                   \<lparr> message = ''Success callback successfully called '' @ rocket,
                     secondaryMessage = None,
                     link = None,
                     icon = Some ''success'' \<rparr>)
            (\<lambda>_. resolve (Some ()))))
      | _ \<Rightarrow> resolve None)"

text \<open>
  One run of the chain. React re-runs the callback of each \<^verbatim>\<open>useAsync\<close> when the
  state of the step before it changes; after \<^verbatim>\<open>run\<close> was invoked once, that is each
  step once, in the order of the dependencies, each reading the settled state of the step
  before it.
\<close>

record CreateRcStates =
  latestCommitRes :: "GetLatestCommitResult AsyncState"
  releaseBranchRes :: "string AsyncState"
  tagObjectRes :: "CreateTagObjectResult AsyncState"
  createRcRes :: "string AsyncState"
  getComparisonRes :: "ComparisonRes AsyncState"
  createReleaseRes :: "ReleaseResult AsyncState"
  successCbRes :: "unit AsyncState"

definition run ::
  "'g module_imports \<Rightarrow> 'g PluginApiClient \<Rightarrow> User \<Rightarrow> 'g CreateRC \<Rightarrow> NextGitHubInfo \<Rightarrow>
     'g state \<Rightarrow> CreateRcStates \<times> 'g state" where
  "run imp api user inp info s0 =
     (case useAsync (run_latestCommit imp api inp) s0 of (r1, s1) \<Rightarrow>
      case useAsync (releaseBranch_step imp api inp info r1) s1 of (r2, s2) \<Rightarrow>
      case useAsync (tagObject_step imp api user inp info r2) s2 of (r3, s3) \<Rightarrow>
      case useAsync (createRc_step imp api inp info r3) s3 of (r4, s4) \<Rightarrow>
      case useAsync (getComparison_step imp api inp info r4) s4 of (r5, s5) \<Rightarrow>
      case useAsync (createRelease_step imp api inp info r5) s5 of (r6, s6) \<Rightarrow>
      case useAsync (successCb_step inp r6 r5) s6 of (r7, s7) \<Rightarrow>
        (\<lparr> latestCommitRes = r1, releaseBranchRes = r2, tagObjectRes = r3, createRcRes = r4,
            getComparisonRes = r5, createReleaseRes = r6, successCbRes = r7 \<rparr>, s7))"

definition TOTAL_STEPS :: "'g CreateRC \<Rightarrow> nat" where
  "TOTAL_STEPS inp = 6 + (case successCb inp of Some _ \<Rightarrow> 1 | None \<Rightarrow> 0)"

text \<open>
  \<^verbatim>\<open>(responseSteps.length / TOTAL_STEPS) * 100\<close>, over the reals: the rounding of the
  quotient to a double is not modelled.
\<close>

definition progress :: "'g CreateRC \<Rightarrow> 'g state \<Rightarrow> real" where
  "progress inp s = (real (length (responseSteps s)) / real (TOTAL_STEPS inp)) * 100"

text \<open>
  The hook throws while rendering when \<^verbatim>\<open>nextGitHubInfo\<close> carries an error; otherwise
  it hands out \<^verbatim>\<open>run\<close>.
\<close>

definition useCreateRc ::
  "'g module_imports \<Rightarrow> 'g PluginApiClient \<Rightarrow> User \<Rightarrow> 'g CreateRC \<Rightarrow>
     error + ('g state \<Rightarrow> CreateRcStates \<times> 'g state)" where
  "useCreateRc imp api user inp =
     (case nextGitHubInfo inp of
        Inl err \<Rightarrow>
          Inl (GitHubReleaseManagerError
                 (''Unexpected error: '' @
                    (case title err of
                       Some t \<Rightarrow> if t \<noteq> [] then t @ '' ('' @ subtitle err @ '')'' else subtitle err
                     | None \<Rightarrow> subtitle err)))
      | Inr info \<Rightarrow> Inr (run imp api user inp info))"

subsection \<open>promoteRc\<close>





subsection \<open>getTagDate\<close>

text \<open>
  The result \<^verbatim>\<open>{tagDate}\<close> is the optional string itself (\<open>None\<close> is
  \<^verbatim>\<open>undefined\<close>). The \<^verbatim>\<open>catch\<close> block has no condition on the error.
\<close>

definition getTagDate ::
  "'g module_imports \<Rightarrow> 'g PluginApiClient \<Rightarrow> Project \<Rightarrow> string \<Rightarrow> ('g, string option) promise" where
  "getTagDate imp api proj tagSha =
     promise_catch
       (await (getSingleTag imp api (owner proj) (repo proj) tagSha)
          (\<lambda>singleTag. resolve (Some (st_date singleTag))))
       (\<lambda>error.
          await (stats_getCommit imp api (owner proj) (repo proj) tagSha)
            (\<lambda>commitRes. resolve commitRes))"

subsection \<open>The patch sequence\<close>

record ReleaseBranch =
  branch_name :: string
  branch_commit_sha :: string
  branch_commit_tree_sha :: string

text \<open>
  Modelled from the spec: the helper that bumps a tag, which is not among the sources.
  The spec (4.2, 8): the new tag has a bumped patch component, exactly one greater than
  the previous one. The other components of the tag stay as they are.
\<close>

definition bumpTagParts :: "'t TagParts_scheme \<Rightarrow> 't TagParts_scheme" where
  "bumpTagParts tagParts = tagParts\<lparr>patch := patch tagParts + 1\<rparr>"

text \<open>
  Modelled from the spec: the caller of \<^verbatim>\<open>pluginApiClient.patch\<close> (the patch hook),
  which is not among the sources. The spec (4.2) gives the order of the calls; each call
  gets the arguments the signature of the client's method asks for, taken from the results
  of the calls before it. The tag parts are those of the tag of the existing release;
  \<open>tagName_of\<close>, which writes tag parts as a tag name, is a parameter. The bumped parts
  and the bumped tag name are what the calls get. The merge has the release branch, whose
  head is the temporary commit by then, as its base and the selected commit as its head;
  the parent of the cherry-pick commit is the head the release branch had before the
  sequence.
\<close>

definition patch_sequence ::
  "'g module_imports \<Rightarrow> 'g PluginApiClient \<Rightarrow> User \<Rightarrow> Project \<Rightarrow> LatestRelease \<Rightarrow> ReleaseBranch \<Rightarrow>
     RecentCommit \<Rightarrow> ('t TagParts_scheme \<Rightarrow> string) \<Rightarrow> 't TagParts_scheme \<Rightarrow> string \<Rightarrow>
     ('g, ReleaseResult) promise" where
  "patch_sequence imp api user proj latest releaseBranch selectedPatchCommit tagName_of tagParts
       messageSuffix =
     (let bumpedParts = bumpTagParts tagParts;
          bumpedTag = tagName_of bumpedParts
      in
     await (createTempCommit imp api (owner proj) (repo proj) bumpedParts
              (branch_commit_tree_sha releaseBranch) selectedPatchCommit)
       (\<lambda>tempCommit.
     await (forceBranchHeadToTempCommit imp api (owner proj) (repo proj)
              (branch_name releaseBranch) tempCommit)
       (\<lambda>_.
     await (merge imp api (owner proj) (repo proj)
              (branch_name releaseBranch) (commit_sha selectedPatchCommit))
       (\<lambda>merged.
     await (createCherryPickCommit imp api (owner proj) (repo proj) bumpedTag selectedPatchCommit
              (m_commit_tree_sha merged) (branch_commit_sha releaseBranch) messageSuffix)
       (\<lambda>cherryPickCommit.
     await (replaceTempCommit imp api (owner proj) (repo proj)
              (branch_name releaseBranch) cherryPickCommit)
       (\<lambda>updatedReference.
     await (createTagObject imp api (owner proj) (repo proj)
              (u_object_sha updatedReference) bumpedTag (Some (username user)) (email user))
       (\<lambda>createdTagObject.
     await (createReference imp api (owner proj) (repo proj)
              bumpedTag (cto_tagSha createdTagObject))
       (\<lambda>reference.
     await (updateRelease imp api (owner proj) (repo proj) bumpedTag latest bumpedParts
              selectedPatchCommit)
       (\<lambda>updatedRelease. resolve updatedRelease)))))))))"

subsection \<open>Which cards are rendered\<close>

text \<open>
  What a component renders is the list of its elements, top to bottom: an alert (with
  its severity, its optional title and its text), the spinner, or one of the cards.
\<close>

datatype severity = SevError | SevWarning | SevInfo

datatype element =
    Alert severity "string option" string
  | CenteredCircularProgress
  | InfoCard
  | CreateRcCard
  | PromoteRcCard
  | PatchCard

fun string_of_strategy :: "VersioningStrategy \<Rightarrow> string" where
  "string_of_strategy semver = ''semver''"
| "string_of_strategy calver = ''calver''"

record BatchInfo =
  bi_latestRelease :: "LatestRelease option"
  bi_releaseBranch :: "ReleaseBranch option"
  bi_pushPermissions :: "bool option"
  bi_defaultBranch :: string
  bi_repositoryName :: string

record BatchInfoState =
  bi_error :: "error option"
  bi_loading :: bool
  bi_value :: "BatchInfo option"

record Omits =
  omit_info :: "bool option"
  omit_createRc :: "bool option"
  omit_promoteRc :: "bool option"
  omit_patch :: "bool option"

text \<open>
  \<^verbatim>\<open>Cards\<close> of the GitHub release manager. The flag \<open>versioningStrategyMatches\<close>
  is the result of the hook \<^verbatim>\<open>useVersioningStrategyMatchesRepoTags\<close>, which is not
  among the sources.
\<close>

definition Cards :: "Omits \<Rightarrow> Project \<Rightarrow> BatchInfoState \<Rightarrow> bool \<Rightarrow> element list" where
  "Cards components proj gitHubBatchInfo versioningStrategyMatches =
     (case bi_error gitHubBatchInfo of
        Some e \<Rightarrow> [Alert SevError None (error_message e)]
      | None \<Rightarrow>
          if bi_loading gitHubBatchInfo then [CenteredCircularProgress]
          else
            (case bi_value gitHubBatchInfo of
               None \<Rightarrow> [Alert SevError None ''Failed to fetch latest GitHub release'']
             | Some v \<Rightarrow>
                 if bi_pushPermissions v \<noteq> Some True then
                   [Alert SevError None
                      (''You lack push permissions for repository '' @ quote @ owner proj @ ''/''
                         @ repo proj @ quote)]
                 else if \<not> versioningStrategyMatches then
                   [Alert SevError None
                      (''Versioning mismatch, expected '' @ string_of_strategy (versioningStrategy proj)
                         @ '' version, got '' @
                         (case bi_latestRelease v of Some r \<Rightarrow> tagName r | None \<Rightarrow> []))]
                 else
                   [InfoCard]
                   @ (if omit_createRc components \<noteq> Some True then [CreateRcCard] else [])
                   @ (if omit_promoteRc components \<noteq> Some True then [PromoteRcCard] else [])
                   @ (if omit_patch components \<noteq> Some True then [PatchCard] else [])))"

text \<open>
  \<^verbatim>\<open>Features\<close> of the Git release manager. \<open>validateTagName\<close> (of
  \<^verbatim>\<open>helpers/tagParts/validateTagName\<close>) and the flag \<open>versioningStrategyMatches\<close>
  come from files that are not among the sources and are parameters.
\<close>

definition Features ::
  "(Project \<Rightarrow> string option \<Rightarrow> AlertError option) \<Rightarrow> Omits \<Rightarrow> Project \<Rightarrow> BatchInfoState \<Rightarrow> bool \<Rightarrow>
     element list" where
  "Features validateTagName features proj gitBatchInfo versioningStrategyMatches =
     (case bi_error gitBatchInfo of
        Some e \<Rightarrow>
          [Alert SevError None
             (''Error occured while fetching information for '' @ quote @ owner proj @ ''/''
                @ repo proj @ quote @ '' ('' @ error_message e @ '')'')]
      | None \<Rightarrow>
          if bi_loading gitBatchInfo then [CenteredCircularProgress]
          else
            (case bi_value gitBatchInfo of
               None \<Rightarrow> [Alert SevError None ''Failed to fetch latest Git release'']
             | Some v \<Rightarrow>
                 if bi_pushPermissions v \<noteq> Some True then
                   [Alert SevError None
                      (''You lack push permissions for repository '' @ quote @ owner proj @ ''/''
                         @ repo proj @ quote)]
                 else
                   (case validateTagName proj (map_option tagName (bi_latestRelease v)) of
                      Some tagNameError \<Rightarrow>
                        [Alert SevError
                           (case title tagNameError of
                              Some t \<Rightarrow> if t \<noteq> [] then Some t else None
                            | None \<Rightarrow> None)
                           (subtitle tagNameError)]
                    | None \<Rightarrow>
                        (case bi_latestRelease v of
                           Some r \<Rightarrow>
                             if \<not> versioningStrategyMatches then
                               [Alert SevWarning None
                                  (''Versioning mismatch, expected ''
                                     @ string_of_strategy (versioningStrategy proj)
                                     @ '' version, got '' @ quote @ tagName r @ quote)]
                             else []
                         | None \<Rightarrow> [])
                        @ (if bi_latestRelease v = None then
                             [Alert SevInfo None
                                (''This repository doesn'' @ [CHR 0x27] @ ''t have any releases yet'')]
                           else [])
                        @ (if bi_releaseBranch v = None then
                             [Alert SevInfo None
                                (''This repository doesn'' @ [CHR 0x27] @ ''t have any release branches'')]
                           else [])
                        @ (if omit_info features \<noteq> Some True then [InfoCard] else [])
                        @ (if omit_createRc features \<noteq> Some True then [CreateRcCard] else [])
                        @ (if omit_promoteRc features \<noteq> Some True then [PromoteRcCard] else [])
                        @ (if omit_patch features \<noteq> Some True then [PatchCard] else []))))"

text \<open>The three action cards, and the alerts that report a versioning mismatch.\<close>

fun is_action_card :: "element \<Rightarrow> bool" where
  "is_action_card CreateRcCard = True"
| "is_action_card PromoteRcCard = True"
| "is_action_card PatchCard = True"
| "is_action_card _ = False"

fun is_mismatch_alert :: "element \<Rightarrow> bool" where
  "is_mismatch_alert (Alert sev t txt) = prefix ''Versioning mismatch'' txt"
| "is_mismatch_alert _ = False"

section \<open>Notions used in the statements\<close>

text \<open>
  \<open>advance s g evs st\<close> is the state \<open>s\<close> after the world became \<open>g\<close>, the events
  \<open>evs\<close> were recorded and the entries \<open>st\<close> were appended to the log.
\<close>

definition advance :: "'g state \<Rightarrow> 'g \<Rightarrow> event list \<Rightarrow> ResponseStep list \<Rightarrow> 'g state" where
  "advance s g evs st =
     s\<lparr>world := g, trace := trace s @ evs, responseSteps := responseSteps s @ st\<rparr>"

text \<open>
  \<open>sends_one m Q\<close>: the promise \<open>m\<close> either rejects before it sends anything (no
  token), or sends exactly one request, which satisfies \<open>Q\<close>; it never touches the log.
\<close>

definition sends_one :: "('g, 'a) promise \<Rightarrow> (request \<Rightarrow> bool) \<Rightarrow> bool" where
  "sends_one m Q =
     (\<forall>s. (\<exists>e g'. m s = (Inl e, advance s g' [] [])) \<or>
          (\<exists>res g' req. Q req \<and> m s = (res, advance s g' [Req req] [])))"

text \<open>
  \<open>follows m Qs\<close>: the requests that \<open>m\<close> sends match, one by one and in order, an
  initial segment of the patterns \<open>Qs\<close>; when \<open>m\<close> resolves they match all of them.
\<close>

definition follows :: "('g, 'a) promise \<Rightarrow> (request \<Rightarrow> bool) list \<Rightarrow> bool" where
  "follows m Qs =
     (\<forall>s. \<exists>res g' reqs.
        m s = (res, advance s g' (map Req reqs) []) \<and>
        length reqs \<le> length Qs \<and>
        list_all2 (\<lambda>Q r. Q r) (take (length reqs) Qs) reqs \<and>
        (case res of Inr _ \<Rightarrow> length reqs = length Qs | Inl _ \<Rightarrow> True))"

text \<open>
  \<open>oblivious f\<close>: the computation \<open>f\<close> depends on the world only, not on the trace
  or the log, and all it does to them is append.
\<close>

definition oblivious :: "('g state \<Rightarrow> 'r \<times> 'g state) \<Rightarrow> bool" where
  "oblivious f =
     (\<exists>F. \<forall>s. f s = (case F (world s) of (r, g', evs, st) \<Rightarrow> (r, advance s g' evs st)))"

text \<open>
  \<open>answers imp api ep r g x g'\<close>: in the world \<open>g\<close> the client is granted a token,
  and the server answers the request \<open>r\<close> to the endpoint \<open>ep\<close> with the payload
  \<open>x\<close>, which leaves the world \<open>g'\<close>.
\<close>

definition answers ::
  "'g module_imports \<Rightarrow> 'g PluginApiClient \<Rightarrow> ('g octokit \<Rightarrow> ('g, 'a) endpoint) \<Rightarrow> request \<Rightarrow>
     'g \<Rightarrow> 'a \<Rightarrow> 'g \<Rightarrow> bool" where
  "answers imp api ep r g x g' =
     (\<exists>token g1. githubAuthApi api [''repo''] g = (Inr token, g1) \<and>
                 ep (Octokit imp token (baseUrl api)) r g1 = (Inr x, g'))"


fun is_Value :: "'a AsyncState \<Rightarrow> bool" where
  "is_Value (Value v) = True"
| "is_Value _ = False"

text \<open>The number of steps of a run that completed.\<close>

definition completed :: "CreateRcStates \<Rightarrow> nat" where
  "completed rs =
     (if is_Value (latestCommitRes rs) then 1 else 0)
     + (if is_Value (releaseBranchRes rs) then 1 else 0)
     + (if is_Value (tagObjectRes rs) then 1 else 0)
     + (if is_Value (createRcRes rs) then 1 else 0)
     + (if is_Value (getComparisonRes rs) then 1 else 0)
     + (if is_Value (createReleaseRes rs) then 1 else 0)
     + (if is_Value (successCbRes rs) then 1 else 0)"

section \<open>A concrete world\<close>

text \<open>
  A server that answers every request with a fixed payload, except that a created or
  updated reference is answered with the reference and the sha of the request, and a
  created commit with a sha that depends on its tree; single endpoints are replaced to
  make a request fail.
\<close>

definition ex_auth :: "string list \<Rightarrow> unit \<Rightarrow> (error + string) \<times> unit" where
  "ex_auth scopes g = (Inr ''token'', g)"

definition ex_release :: release_data where
  "ex_release =
     \<lparr> rel_id = 42, rel_name = Some ''Version 1.3.0'', rel_tag_name = ''rc-1.3.0'',
       rel_html_url = ''https://github.com/o/r/releases/tag/rc-1.3.0'',
       rel_target_commitish = ''rc/1.3.0'', rel_prerelease = True, rel_body = Str ''notes'',
       rel_published_at = Some ''2021-04-01T12:00:00Z'' \<rparr>"

definition ex_commit :: repo_commit_data where
  "ex_commit =
     \<lparr> rc_sha = ''c0ffee'', rc_html_url = ''https://github.com/o/r/commit/c0ffee'',
       rc_commit_message = ''fix typo'',
       rc_commit_author_date = Some ''2021-03-01T10:00:00Z'',
       rc_commit_committer_date = Some ''2021-03-02T11:00:00Z'' \<rparr>"

definition ex_tag :: git_tag_data where
  "ex_tag =
     \<lparr> tag_tag = ''rc-1.3.0'', tag_sha = ''7a6'', tag_tagger_date = ''2021-04-01T12:00:00Z'',
       tag_tagger_name = ''erik'', tag_tagger_email = ''erik@example.com'' \<rparr>"

definition ex_octokit :: "unit octokit" where
  "ex_octokit =
     \<lparr> paginate_repos_listForOrg = (\<lambda>r g. (Inr [\<lparr>repo_name = ''backstage''\<rparr>], g)),
       paginate_repos_listForUser = (\<lambda>r g. (Inr [\<lparr>repo_name = ''dotfiles''\<rparr>], g)),
       repos_listReleases = (\<lambda>r g. (Inr [ex_release], g)),
       repos_getCommit = (\<lambda>r g. (Inr ex_commit, g)),
       git_createRef =
         (\<lambda>r g. (case r of
                    GitCreateRef ow rp rf sha \<Rightarrow> Inr \<lparr>ref_ref = rf, ref_object_sha = sha\<rparr>
                  | _ \<Rightarrow> Inl (RequestError (Some 400) None ''Bad Request''), g)),
       git_createTag = (\<lambda>r g. (Inr ex_tag, g)),
       git_updateRef =
         (\<lambda>r g. (case r of
                    GitUpdateRef ow rp rf sha force \<Rightarrow>
                      Inr \<lparr>ref_ref = ''refs/'' @ rf, ref_object_sha = sha\<rparr>
                  | _ \<Rightarrow> Inl (RequestError (Some 400) None ''Bad Request''), g)),
       git_createCommit =
         (\<lambda>r g. (case r of
                    GitCreateCommit ow rp msg tree parents \<Rightarrow>
                      Inr \<lparr>gc_message = msg, gc_sha = (if tree = ''73e'' then ''c4e'' else ''5a1'')\<rparr>
                  | _ \<Rightarrow> Inl (RequestError (Some 400) None ''Bad Request''), g)),
       repos_merge = (\<lambda>r g. (Inr \<lparr>merge_html_url = ''https://github.com/o/r/commit/3e6'',
                                   merge_commit_message = ''Merge'',
                                   merge_commit_tree_sha = ''73e''\<rparr>, g)),
       repos_compareCommits = (\<lambda>r g. (Inr \<lparr>cmp_html_url = ''https://github.com/o/r/compare/a...b'',
                                            cmp_ahead_by = 12\<rparr>, g)),
       repos_createRelease = (\<lambda>r g. (Inr ex_release, g)),
       repos_updateRelease = (\<lambda>r g. (Inr ex_release, g)),
       git_getTag = (\<lambda>r g. (Inr ex_tag, g)) \<rparr>"

definition ex_imports :: "unit octokit \<Rightarrow> unit module_imports" where
  "ex_imports oct =
     \<lparr> Octokit = (\<lambda>token url. oct),
       DISABLE_CACHE = [(''If-None-Match'', [])],
       Date_toISOString = (\<lambda>g. ''2021-04-01T12:00:00.000Z'') \<rparr>"

definition ex_configs :: "GitHubIntegrationConfig list" where
  "ex_configs =
     [\<lparr>cfg_host = ''github.com'', cfg_apiBaseUrl = Some ''https://api.github.com''\<rparr>,
      \<lparr>cfg_host = ''ghe.example.net'', cfg_apiBaseUrl = Some ''https://ghe.example.net/api/v3''\<rparr>]"

definition ex_api :: "unit PluginApiClient" where
  "ex_api = new_PluginApiClient [] ex_auth"

definition ex_state :: "unit state" where
  "ex_state = \<lparr> world = (), trace = [], responseSteps = [] \<rparr>"

definition ex_project :: Project where
  "ex_project = \<lparr> owner = ''o'', repo = ''r'', versioningStrategy = semver \<rparr>"

definition ex_user :: User where
  "ex_user = \<lparr> username = ''erik'', email = Some ''erik@example.com'' \<rparr>"

definition ex_info :: NextGitHubInfo where
  "ex_info = \<lparr> rcBranch = ''rc/1.3.0'', rcReleaseTag = ''rc-1.3.0'', releaseName = ''Version 1.3.0'' \<rparr>"

definition ex_latest :: LatestRelease where
  "ex_latest =
     \<lparr> targetCommitish = ''rc/1.2.0'', tagName = ''rc-1.2.0'', prerelease = True, id' = 41,
       htmlUrl = ''https://github.com/o/r/releases/tag/rc-1.2.0'', body = Str ''notes'' \<rparr>"

definition ex_cb :: "createRc_payload \<Rightarrow> unit \<Rightarrow> (error + unit) \<times> unit" where
  "ex_cb payload g = (Inr (), g)"

definition ex_inp ::
  "(createRc_payload \<Rightarrow> unit \<Rightarrow> (error + unit) \<times> unit) option \<Rightarrow> unit CreateRC" where
  "ex_inp cb =
     \<lparr> defaultBranch = ''master'', latestRelease = Some ex_latest, nextGitHubInfo = Inr ex_info,
       project = ex_project, successCb = cb \<rparr>"

definition ex_conflict :: error where
  "ex_conflict = RequestError (Some 422) (Some ''Reference already exists'') ''Validation Failed''"

definition ex_not_found :: error where
  "ex_not_found = RequestError (Some 404) None ''Not Found''"

definition ex_server_error :: error where
  "ex_server_error = RequestError (Some 500) None ''Internal Server Error''"


definition ex_omits :: Omits where
  "ex_omits = \<lparr> omit_info = None, omit_createRc = None, omit_promoteRc = None, omit_patch = None \<rparr>"

definition ex_batch :: BatchInfoState where
  "ex_batch =
     \<lparr> bi_error = None, bi_loading = False,
       bi_value = Some \<lparr> bi_latestRelease = Some ex_latest, bi_releaseBranch = None,
                        bi_pushPermissions = Some True, bi_defaultBranch = ''master'',
                        bi_repositoryName = ''r'' \<rparr> \<rparr>"

definition ex_branch :: ReleaseBranch where
  "ex_branch =
     \<lparr> branch_name = ''rc/1.3.0'', branch_commit_sha = ''b4a'', branch_commit_tree_sha = ''7e0'' \<rparr>"

definition ex_selected :: RecentCommit where
  "ex_selected =
     \<lparr> commit_htmlUrl = ''https://github.com/o/r/commit/c0ffee'', commit_sha = ''c0ffee'',
       commit_message = ''fix typo'', firstParentSha = Some ''9a7'' \<rparr>"

section \<open>Basic facts\<close>

lemma advance_advance [simp]:
  "advance (advance s g1 e1 st1) g2 e2 st2 = advance s g2 (e1 @ e2) (st1 @ st2)"
  by (simp add: advance_def)

lemma advance_id [simp]: "advance s (world s) [] [] = s"
  by (simp add: advance_def)

lemma advance_sel [simp]:
  "world (advance s g evs st) = g"
  "trace (advance s g evs st) = trace s @ evs"
  "responseSteps (advance s g evs st) = responseSteps s @ st"
  by (simp_all add: advance_def)

text \<open>With a token granted, a method sends its request and projects the answer.\<close>

lemma method_granted:
  assumes tok: "githubAuthApi api [''repo''] (world s) = (Inr token, g1)"
    and ans: "ep (Octokit imp token (baseUrl api)) r g1 = (res, g2)"
  shows "await (getOctokit imp api) (\<lambda>octokit. await (send (ep octokit) r) (\<lambda>x. resolve (k x))) s
           = (map_sum (\<lambda>e. e) k res, advance s g2 [Req r] [])"
  using tok ans
  by (cases res) (simp_all add: await_def getOctokit_def send_def resolve_def advance_def)

lemma method_denied:
  assumes tok: "githubAuthApi api [''repo''] (world s) = (Inl e, g1)"
  shows "await (getOctokit imp api) f s = (Inl e, advance s g1 [] [])"
  using tok by (simp add: await_def getOctokit_def advance_def)

lemma ex_token [simp]: "githubAuthApi ex_api [''repo''] g = (Inr ''token'', ())"
  by (simp add: ex_api_def new_PluginApiClient_def ex_auth_def Let_def)

lemma ex_Octokit [simp]: "Octokit (ex_imports oct) token url = oct"
  by (simp add: ex_imports_def)

section \<open>The client\<close>

subsection \<open>The integration configuration\<close>


lemma find_enterprise:
  assumes "c \<in> set configs" "prefix ''ghe.'' (cfg_host c)"
  obtains e where "find (\<lambda>v. prefix ''ghe.'' (cfg_host v)) configs = Some e"
    "e \<in> set configs" "prefix ''ghe.'' (cfg_host e)"
proof -
  from assms have "find (\<lambda>v. prefix ''ghe.'' (cfg_host v)) configs \<noteq> None"
    by (auto simp: find_None_iff)
  then obtain e where e: "find (\<lambda>v. prefix ''ghe.'' (cfg_host v)) configs = Some e" by auto
  then have "e \<in> set configs" "prefix ''ghe.'' (cfg_host e)"
    by (auto simp: find_Some_iff)
  with e that show thesis by blast
qed

text \<open>
  Claim C10. When the list of integration configurations holds both a configuration
  whose host starts with \<^verbatim>\<open>ghe.\<close> and one whose host is \<^verbatim>\<open>github.com\<close>, the
  enterprise one is chosen, and its host becomes the client's host. When the list holds
  neither, no configuration is chosen, the client's host is \<^verbatim>\<open>github.com\<close> and its
  API base URL is \<^verbatim>\<open>https://api.github.com\<close>.
\<close>

theorem integration_config_priority:
  "(\<forall>e g. e \<in> set configs \<and> prefix ''ghe.'' (cfg_host e) \<and>
          g \<in> set configs \<and> cfg_host g = ''github.com'' \<longrightarrow>
      (\<exists>c. getGithubIntegrationConfig configs = Some c \<and> c \<in> set configs \<and>
           prefix ''ghe.'' (cfg_host c) \<and> cfg_host c \<noteq> ''github.com'' \<and>
           host (new_PluginApiClient configs auth) = cfg_host c)) \<and>
   ((\<forall>c \<in> set configs. \<not> prefix ''ghe.'' (cfg_host c) \<and> cfg_host c \<noteq> ''github.com'') \<longrightarrow>
      getGithubIntegrationConfig configs = None \<and>
      host (new_PluginApiClient configs auth) = ''github.com'' \<and>
      baseUrl (new_PluginApiClient configs auth) = ''https://api.github.com'')"
proof (intro conjI allI impI)
  fix e g
  assume h: "e \<in> set configs \<and> prefix ''ghe.'' (cfg_host e) \<and>
          g \<in> set configs \<and> cfg_host g = ''github.com''"
  then obtain c where c: "find (\<lambda>v. prefix ''ghe.'' (cfg_host v)) configs = Some c"
    "c \<in> set configs" "prefix ''ghe.'' (cfg_host c)"
    using find_enterprise by blast
  have ne: "cfg_host c \<noteq> ''github.com''" using c(3) by auto
  have "getGithubIntegrationConfig configs = Some c"
    using c(1) by (simp add: getGithubIntegrationConfig_def)
  then show "\<exists>c. getGithubIntegrationConfig configs = Some c \<and> c \<in> set configs \<and>
           prefix ''ghe.'' (cfg_host c) \<and> cfg_host c \<noteq> ''github.com'' \<and>
           host (new_PluginApiClient configs auth) = cfg_host c"
    using c ne by (simp add: new_PluginApiClient_def)
next
  assume n: "\<forall>c \<in> set configs. \<not> prefix ''ghe.'' (cfg_host c) \<and> cfg_host c \<noteq> ''github.com''"
  then have "find (\<lambda>v. prefix ''ghe.'' (cfg_host v)) configs = None"
    "find (\<lambda>v. cfg_host v = ''github.com'') configs = None"
    by (auto simp: find_None_iff)
  then show g: "getGithubIntegrationConfig configs = None"
    by (simp add: getGithubIntegrationConfig_def)
  show "host (new_PluginApiClient configs auth) = ''github.com''"
    using g by (simp add: new_PluginApiClient_def)
  show "baseUrl (new_PluginApiClient configs auth) = ''https://api.github.com''"
    using g by (simp add: new_PluginApiClient_def)
qed

theorem integration_config_priority_witness:
  "getGithubIntegrationConfig ex_configs =
     Some \<lparr>cfg_host = ''ghe.example.net'', cfg_apiBaseUrl = Some ''https://ghe.example.net/api/v3''\<rparr> \<and>
   host (new_PluginApiClient ex_configs ex_auth) = ''ghe.example.net'' \<and>
   getGithubIntegrationConfig [] = None \<and>
   host (new_PluginApiClient [] ex_auth) = ''github.com'' \<and>
   baseUrl (new_PluginApiClient [] ex_auth) = ''https://api.github.com''"
proof -
  let ?e = "\<lparr>cfg_host = ''ghe.example.net'', cfg_apiBaseUrl = Some ''https://ghe.example.net/api/v3''\<rparr>"
  let ?g = "\<lparr>cfg_host = ''github.com'', cfg_apiBaseUrl = Some ''https://api.github.com''\<rparr>"
  have both: "?e \<in> set ex_configs \<and> prefix ''ghe.'' (cfg_host ?e) \<and>
              ?g \<in> set ex_configs \<and> cfg_host ?g = ''github.com''"
    by (simp add: ex_configs_def)
  have neither: "\<forall>c \<in> set ([] :: GitHubIntegrationConfig list).
      \<not> prefix ''ghe.'' (cfg_host c) \<and> cfg_host c \<noteq> ''github.com''"
    by simp
  from integration_config_priority [of ex_configs ex_auth] both
  obtain c where c: "getGithubIntegrationConfig ex_configs = Some c"
    "prefix ''ghe.'' (cfg_host c)" "c \<in> set ex_configs"
    "host (new_PluginApiClient ex_configs ex_auth) = cfg_host c"
    by blast
  from c(2,3) have "c = ?e" by (auto simp: ex_configs_def)
  with c integration_config_priority [of "[]" ex_auth] neither show ?thesis
    by simp
qed

subsection \<open>The latest release\<close>


text \<open>
  Claim C8. \<^verbatim>\<open>getLatestRelease\<close> asks for the releases with one release per page
  (and the cache-disabling parameters). When the request is answered with a list, it
  resolves with \<^verbatim>\<open>null\<close> exactly when the list is empty, and otherwise with the
  first release of the list reduced to \<^verbatim>\<open>targetCommitish\<close>, \<^verbatim>\<open>tagName\<close>,
  \<^verbatim>\<open>prerelease\<close>, \<^verbatim>\<open>id\<close>, \<^verbatim>\<open>htmlUrl\<close> and \<^verbatim>\<open>body\<close>.
\<close>

theorem getLatestRelease_null_iff_empty:
  assumes tok: "githubAuthApi api [''repo''] (world s) = (Inr token, g1)"
    and ans: "repos_listReleases (Octokit imp token (baseUrl api))
                (ReposListReleases ow rp 1 (DISABLE_CACHE imp)) g1 = (Inr releases, g2)"
  shows "getLatestRelease imp api ow rp s =
           (Inr (case releases of
                   [] \<Rightarrow> None
                 | r # _ \<Rightarrow> Some \<lparr> targetCommitish = rel_target_commitish r,
                                   tagName = rel_tag_name r,
                                   prerelease = rel_prerelease r,
                                   id' = rel_id r,
                                   htmlUrl = rel_html_url r,
                                   body = rel_body r \<rparr>),
            advance s g2 [Req (ReposListReleases ow rp 1 (DISABLE_CACHE imp))] []) \<and>
         ((fst (getLatestRelease imp api ow rp s) = Inr None) = (releases = []))"
  using tok ans
  by (cases releases)
     (simp_all add: getLatestRelease_def await_def getOctokit_def send_def resolve_def advance_def)

theorem getLatestRelease_null_iff_empty_witness:
  "fst (getLatestRelease (ex_imports ex_octokit) ex_api ''o'' ''r'' ex_state) =
     Inr (Some \<lparr> targetCommitish = ''rc/1.3.0'', tagName = ''rc-1.3.0'', prerelease = True,
                 id' = 42, htmlUrl = ''https://github.com/o/r/releases/tag/rc-1.3.0'',
                 body = Str ''notes'' \<rparr>) \<and>
   getLatestRelease (ex_imports (ex_octokit\<lparr>repos_listReleases := (\<lambda>r g. (Inr [], g))\<rparr>))
       ex_api ''o'' ''r'' ex_state =
     (Inr None, advance ex_state () [Req (ReposListReleases ''o'' ''r'' 1 [(''If-None-Match'', [])])] [])"
proof -
  have a1: "repos_listReleases (Octokit (ex_imports ex_octokit) ''token'' (baseUrl ex_api))
              (ReposListReleases ''o'' ''r'' 1 (DISABLE_CACHE (ex_imports ex_octokit))) ()
            = (Inr [ex_release], ())"
    by (simp add: ex_octokit_def)
  have a2: "repos_listReleases
              (Octokit (ex_imports (ex_octokit\<lparr>repos_listReleases := (\<lambda>r g. (Inr [], g))\<rparr>))
                 ''token'' (baseUrl ex_api))
              (ReposListReleases ''o'' ''r'' 1
                 (DISABLE_CACHE (ex_imports (ex_octokit\<lparr>repos_listReleases := (\<lambda>r g. (Inr [], g))\<rparr>)))) ()
            = (Inr [], ())"
    by simp
  show ?thesis
    using getLatestRelease_null_iff_empty [OF ex_token a1, of ex_state]
      getLatestRelease_null_iff_empty [OF ex_token a2, of ex_state]
    by (simp add: ex_release_def ex_imports_def)
qed

subsection \<open>The repositories of an owner\<close>


text \<open>
  Claim C9. \<^verbatim>\<open>getRepositories\<close> first lists the repositories of the owner as an
  organization. When that succeeds it resolves with their names and sends nothing else.
  When it fails with a status other than 404, the error propagates unchanged and nothing
  else is sent. When it fails with status 404, the repositories of the owner as a user
  are listed, and the outcome of that second request is the outcome of the method. So the
  second request is sent if and only if the first failed with status 404.
\<close>

theorem getRepositories_fallback_iff_404:
  assumes tok: "githubAuthApi api [''repo''] (world s) = (Inr token, g1)"
    and org: "paginate_repos_listForOrg (Octokit imp token (baseUrl api))
                (ReposListForOrg ow 100) g1 = (res, g2)"
    and usr: "paginate_repos_listForUser (Octokit imp token (baseUrl api))
                (ReposListForUser ow 100) g2 = (res', g3)"
  shows "(\<forall>repos. res = Inr repos \<longrightarrow>
            getRepositories imp api ow s =
              (Inr (map repo_name repos), advance s g2 [Req (ReposListForOrg ow 100)] [])) \<and>
         (\<forall>e. res = Inl e \<and> error_status e \<noteq> Some 404 \<longrightarrow>
            getRepositories imp api ow s =
              (Inl e, advance s g2 [Req (ReposListForOrg ow 100)] [])) \<and>
         (\<forall>e. res = Inl e \<and> error_status e = Some 404 \<longrightarrow>
            getRepositories imp api ow s =
              (map_sum (\<lambda>e. e) (map repo_name) res',
               advance s g3 [Req (ReposListForOrg ow 100), Req (ReposListForUser ow 100)] [])) \<and>
         ((Req (ReposListForUser ow 100)
             \<in> set (drop (length (trace s)) (trace (snd (getRepositories imp api ow s)))))
          = (\<exists>e. res = Inl e \<and> error_status e = Some 404))"
proof -
  have ok: "getRepositories imp api ow s =
              (Inr (map repo_name repos), advance s g2 [Req (ReposListForOrg ow 100)] [])"
    if "res = Inr repos" for repos
    using tok org that
    by (simp add: getRepositories_def await_def promise_catch_def getOctokit_def send_def
          resolve_def advance_def)
  have other: "getRepositories imp api ow s =
              (Inl e, advance s g2 [Req (ReposListForOrg ow 100)] [])"
    if "res = Inl e" "error_status e \<noteq> Some 404" for e
    using tok org that
    by (simp add: getRepositories_def await_def promise_catch_def getOctokit_def send_def
          reject_def advance_def)
  have fallback: "getRepositories imp api ow s =
              (map_sum (\<lambda>e. e) (map repo_name) res',
               advance s g3 [Req (ReposListForOrg ow 100), Req (ReposListForUser ow 100)] [])"
    if "res = Inl e" "error_status e = Some 404" for e
    using tok org usr that
    by (cases res')
       (simp_all add: getRepositories_def await_def promise_catch_def getOctokit_def send_def
          resolve_def advance_def)
  have iff: "(Req (ReposListForUser ow 100)
             \<in> set (drop (length (trace s)) (trace (snd (getRepositories imp api ow s)))))
          = (\<exists>e. res = Inl e \<and> error_status e = Some 404)"
  proof (cases res)
    case (Inr repos)
    then show ?thesis using ok [OF Inr] by simp
  next
    case (Inl e)
    show ?thesis
    proof (cases "error_status e = Some 404")
      case True
      then show ?thesis using fallback [OF Inl True] Inl by simp
    next
      case False
      then show ?thesis using other [OF Inl False] Inl by simp
    qed
  qed
  from ok other fallback iff show ?thesis by blast
qed

theorem getRepositories_fallback_iff_404_witness:
  "getRepositories (ex_imports ex_octokit) ex_api ''spotify'' ex_state =
     (Inr [''backstage''], advance ex_state () [Req (ReposListForOrg ''spotify'' 100)] []) \<and>
   getRepositories
       (ex_imports (ex_octokit\<lparr>paginate_repos_listForOrg := (\<lambda>r g. (Inl ex_not_found, g))\<rparr>))
       ex_api ''erik'' ex_state =
     (Inr [''dotfiles''],
      advance ex_state () [Req (ReposListForOrg ''erik'' 100), Req (ReposListForUser ''erik'' 100)] []) \<and>
   getRepositories
       (ex_imports (ex_octokit\<lparr>paginate_repos_listForOrg := (\<lambda>r g. (Inl ex_server_error, g))\<rparr>))
       ex_api ''erik'' ex_state =
     (Inl ex_server_error, advance ex_state () [Req (ReposListForOrg ''erik'' 100)] [])"
proof -
  let ?nf = "ex_octokit\<lparr>paginate_repos_listForOrg := (\<lambda>r g. (Inl ex_not_found, g))\<rparr>"
  let ?se = "ex_octokit\<lparr>paginate_repos_listForOrg := (\<lambda>r g. (Inl ex_server_error, g))\<rparr>"
  have o1: "paginate_repos_listForOrg (Octokit (ex_imports ex_octokit) ''token'' (baseUrl ex_api))
              (ReposListForOrg ''spotify'' 100) () = (Inr [\<lparr>repo_name = ''backstage''\<rparr>], ())"
    and u1: "paginate_repos_listForUser (Octokit (ex_imports ex_octokit) ''token'' (baseUrl ex_api))
              (ReposListForUser ''spotify'' 100) () = (Inr [\<lparr>repo_name = ''dotfiles''\<rparr>], ())"
    by (simp_all add: ex_octokit_def)
  have o2: "paginate_repos_listForOrg (Octokit (ex_imports ?nf) ''token'' (baseUrl ex_api))
              (ReposListForOrg ''erik'' 100) () = (Inl ex_not_found, ())"
    and u2: "paginate_repos_listForUser (Octokit (ex_imports ?nf) ''token'' (baseUrl ex_api))
              (ReposListForUser ''erik'' 100) () = (Inr [\<lparr>repo_name = ''dotfiles''\<rparr>], ())"
    by (simp_all add: ex_octokit_def)
  have o3: "paginate_repos_listForOrg (Octokit (ex_imports ?se) ''token'' (baseUrl ex_api))
              (ReposListForOrg ''erik'' 100) () = (Inl ex_server_error, ())"
    and u3: "paginate_repos_listForUser (Octokit (ex_imports ?se) ''token'' (baseUrl ex_api))
              (ReposListForUser ''erik'' 100) () = (Inr [\<lparr>repo_name = ''dotfiles''\<rparr>], ())"
    by (simp_all add: ex_octokit_def)
  show ?thesis
    using getRepositories_fallback_iff_404 [OF ex_token o1 u1, of ex_state]
      getRepositories_fallback_iff_404 [OF ex_token o2 u2, of ex_state]
      getRepositories_fallback_iff_404 [OF ex_token o3 u3, of ex_state]
    by (simp add: ex_not_found_def ex_server_error_def)
qed

subsection \<open>Promotion\<close>



subsection \<open>The date of a tag\<close>

text \<open>
  Claim C5, as amended. With tokens granted, \<^verbatim>\<open>getTagDate\<close> first asks for the
  annotated tag. When that request succeeds, the result is the tagger date of the tag and
  nothing else is sent. When it fails with status 404, as it does for a sha that is not
  an annotated tag, the commit at the same sha is asked for, and the outcome of that
  second request is the outcome of \<^verbatim>\<open>getTagDate\<close>: the committer date of the commit
  (which may be undefined) when it succeeds, its error when it fails.
\<close>

theorem getTagDate_tagger_date_or_committer_date:
  assumes tok: "githubAuthApi api [''repo''] (world s) = (Inr token, g1)"
    and tag: "git_getTag (Octokit imp token (baseUrl api))
                (GitGetTag (owner proj) (repo proj) sha) g1 = (res, g2)"
    and tok': "githubAuthApi api [''repo''] g2 = (Inr token', g3)"
    and com: "repos_getCommit (Octokit imp token' (baseUrl api))
                (ReposGetCommit (owner proj) (repo proj) sha []) g3 = (res', g4)"
  shows "(\<forall>t. res = Inr t \<longrightarrow>
            getTagDate imp api proj sha s =
              (Inr (Some (tag_tagger_date t)),
               advance s g2 [Req (GitGetTag (owner proj) (repo proj) sha)] [])) \<and>
         (\<forall>e. res = Inl e \<and> error_status e = Some 404 \<longrightarrow>
            getTagDate imp api proj sha s =
              (map_sum (\<lambda>e. e) rc_commit_committer_date res',
               advance s g4 [Req (GitGetTag (owner proj) (repo proj) sha),
                             Req (ReposGetCommit (owner proj) (repo proj) sha [])] []))"
proof -
  have single: "getSingleTag imp api (owner proj) (repo proj) sha s
      = (map_sum (\<lambda>e. e)
           (\<lambda>singleTag. \<lparr> st_date = tag_tagger_date singleTag,
                           st_username = tag_tagger_name singleTag,
                           st_userEmail = tag_tagger_email singleTag \<rparr>) res,
         advance s g2 [Req (GitGetTag (owner proj) (repo proj) sha)] [])"
    unfolding getSingleTag_def by (rule method_granted [where ep = git_getTag, OF tok tag])
  have tok2: "githubAuthApi api [''repo'']
                (world (advance s g2 [Req (GitGetTag (owner proj) (repo proj) sha)] []))
              = (Inr token', g3)"
    using tok' by simp
  have commit: "stats_getCommit imp api (owner proj) (repo proj) sha
                  (advance s g2 [Req (GitGetTag (owner proj) (repo proj) sha)] [])
      = (map_sum (\<lambda>e. e) rc_commit_committer_date res',
         advance s g4 [Req (GitGetTag (owner proj) (repo proj) sha),
                       Req (ReposGetCommit (owner proj) (repo proj) sha [])] [])"
    unfolding stats_getCommit_def
    using method_granted [where ep = repos_getCommit and k = rc_commit_committer_date, OF tok2 com]
    by simp
  show ?thesis
  proof (intro conjI allI impI)
    fix t assume "res = Inr t"
    with single show "getTagDate imp api proj sha s =
              (Inr (Some (tag_tagger_date t)),
               advance s g2 [Req (GitGetTag (owner proj) (repo proj) sha)] [])"
      by (simp add: getTagDate_def promise_catch_def await_def resolve_def)
  next
    fix e assume "res = Inl e \<and> error_status e = Some 404"
    then have "res = Inl e" by simp
    with single commit show "getTagDate imp api proj sha s =
              (map_sum (\<lambda>e. e) rc_commit_committer_date res',
               advance s g4 [Req (GitGetTag (owner proj) (repo proj) sha),
                             Req (ReposGetCommit (owner proj) (repo proj) sha [])] [])"
      by (cases res') (simp_all add: getTagDate_def promise_catch_def await_def resolve_def)
  qed
qed

theorem getTagDate_tagger_date_or_committer_date_witness:
  "getTagDate (ex_imports ex_octokit) ex_api ex_project ''7a6'' ex_state =
     (Inr (Some ''2021-04-01T12:00:00Z''), advance ex_state () [Req (GitGetTag ''o'' ''r'' ''7a6'')] []) \<and>
   getTagDate (ex_imports (ex_octokit\<lparr>git_getTag := (\<lambda>r g. (Inl ex_not_found, g))\<rparr>))
       ex_api ex_project ''c0ffee'' ex_state =
     (Inr (Some ''2021-03-02T11:00:00Z''),
      advance ex_state () [Req (GitGetTag ''o'' ''r'' ''c0ffee''),
                           Req (ReposGetCommit ''o'' ''r'' ''c0ffee'' [])] [])"
proof -
  let ?lw = "ex_octokit\<lparr>git_getTag := (\<lambda>r g. (Inl ex_not_found, g))\<rparr>"
  have t1: "git_getTag (Octokit (ex_imports ex_octokit) ''token'' (baseUrl ex_api))
              (GitGetTag (owner ex_project) (repo ex_project) ''7a6'') () = (Inr ex_tag, ())"
    and c1: "repos_getCommit (Octokit (ex_imports ex_octokit) ''token'' (baseUrl ex_api))
              (ReposGetCommit (owner ex_project) (repo ex_project) ''7a6'' []) () = (Inr ex_commit, ())"
    by (simp_all add: ex_octokit_def)
  have t2: "git_getTag (Octokit (ex_imports ?lw) ''token'' (baseUrl ex_api))
              (GitGetTag (owner ex_project) (repo ex_project) ''c0ffee'') () = (Inl ex_not_found, ())"
    and c2: "repos_getCommit (Octokit (ex_imports ?lw) ''token'' (baseUrl ex_api))
              (ReposGetCommit (owner ex_project) (repo ex_project) ''c0ffee'' []) () = (Inr ex_commit, ())"
    by (simp_all add: ex_octokit_def)
  show ?thesis
    using getTagDate_tagger_date_or_committer_date [OF ex_token t1 ex_token c1, of ex_state]
      getTagDate_tagger_date_or_committer_date [OF ex_token t2 ex_token c2, of ex_state]
    by (simp add: ex_tag_def ex_commit_def ex_project_def ex_not_found_def)
qed

text \<open>
  Claim C5 as stated fails. The tag is lightweight: the request for the annotated tag
  fails with status 404, and the commit is fetched. Its author date is 1 March, its
  committer date 2 March; the result is the committer date, not the author date.
\<close>

theorem getTagDate_counterexample:
  "git_getTag (ex_octokit\<lparr>git_getTag := (\<lambda>r g. (Inl ex_not_found, g))\<rparr>)
       (GitGetTag ''o'' ''r'' ''c0ffee'') () = (Inl ex_not_found, ()) \<and>
   error_status ex_not_found = Some 404 \<and>
   rc_commit_author_date ex_commit = Some ''2021-03-01T10:00:00Z'' \<and>
   fst (getTagDate (ex_imports (ex_octokit\<lparr>git_getTag := (\<lambda>r g. (Inl ex_not_found, g))\<rparr>))
          ex_api ex_project ''c0ffee'' ex_state) = Inr (Some ''2021-03-02T11:00:00Z'') \<and>
   fst (getTagDate (ex_imports (ex_octokit\<lparr>git_getTag := (\<lambda>r g. (Inl ex_not_found, g))\<rparr>))
          ex_api ex_project ''c0ffee'' ex_state) \<noteq> Inr (rc_commit_author_date ex_commit)"
  by (simp add: getTagDate_def getSingleTag_def stats_getCommit_def promise_catch_def await_def
        getOctokit_def send_def resolve_def ex_octokit_def ex_commit_def ex_not_found_def)

text \<open>
  The \<^verbatim>\<open>catch\<close> block of \<^verbatim>\<open>getTagDate\<close> does not look at the error: a request for
  the annotated tag that fails with status 500 leads to the commit as well.
\<close>

lemma getTagDate_server_error:
  "error_status ex_server_error = Some 500 \<and>
   getTagDate (ex_imports (ex_octokit\<lparr>git_getTag := (\<lambda>r g. (Inl ex_server_error, g))\<rparr>))
       ex_api ex_project ''7a6'' ex_state =
     (Inr (Some ''2021-03-02T11:00:00Z''),
      advance ex_state () [Req (GitGetTag ''o'' ''r'' ''7a6''),
                           Req (ReposGetCommit ''o'' ''r'' ''7a6'' [])] [])"
  by (simp add: getTagDate_def getSingleTag_def stats_getCommit_def promise_catch_def await_def
        getOctokit_def send_def resolve_def ex_octokit_def ex_commit_def ex_server_error_def
        ex_project_def advance_def ex_state_def)

section \<open>The cards and the versioning strategy\<close>

text \<open>
  The verdicts \<open>validateTagName\<close> and \<open>versioningStrategyMatches\<close> are computed by
  helpers that are not among the sources; the two components take them as inputs, and the
  facts below say what is rendered for each verdict. They say nothing on which tag names
  get which verdict, nor on whether the two verdicts can differ.

  In \<^verbatim>\<open>Cards\<close>, no action card is rendered when the strategy does not match; when
  moreover the batch information is loaded and the user may push, the mismatch alert is the
  only element.
\<close>

lemma Cards_mismatch:
  "\<not> m \<Longrightarrow> filter is_action_card (Cards c p b m) = []"
  "bi_error b = None \<Longrightarrow> \<not> bi_loading b \<Longrightarrow> bi_value b = Some v \<Longrightarrow>
     bi_pushPermissions v = Some True \<Longrightarrow> \<not> m \<Longrightarrow>
   Cards c p b m =
     [Alert SevError None
        (''Versioning mismatch, expected '' @ string_of_strategy (versioningStrategy p)
           @ '' version, got '' @ (case bi_latestRelease v of Some r \<Rightarrow> tagName r | None \<Rightarrow> []))]"
  by (simp_all add: Cards_def split: option.splits)

text \<open>
  In \<^verbatim>\<open>Features\<close>, with the batch information loaded and the user allowed to push, an
  error of \<open>validateTagName\<close> renders one alert and no action card.
\<close>

lemma Features_tag_name_error:
  assumes "bi_error b = None" and "\<not> bi_loading b" and "bi_value b = Some v"
    and "bi_pushPermissions v = Some True"
    and "validate p (map_option tagName (bi_latestRelease v)) = Some err"
  shows "length (Features validate c p b m) = 1"
    and "filter is_action_card (Features validate c p b m) = []"
  using assms by (simp_all add: Features_def)

text \<open>
  In \<^verbatim>\<open>Features\<close>, in the same state, when \<open>validateTagName\<close> reports no error,
  a release exists and the verdict on the strategy is a mismatch, the mismatch warning is
  rendered once, above the cards that are not omitted.
\<close>

lemma Features_mismatch_warning:
  assumes "bi_error b = None" and "\<not> bi_loading b" and "bi_value b = Some v"
    and "bi_pushPermissions v = Some True"
    and "bi_latestRelease v = Some r"
    and "validate p (Some (tagName r)) = None"
    and "\<not> m"
  shows "length (filter is_mismatch_alert (Features validate c p b m)) = 1"
    and "filter is_action_card (Features validate c p b m) =
           (if omit_createRc c \<noteq> Some True then [CreateRcCard] else [])
           @ (if omit_promoteRc c \<noteq> Some True then [PromoteRcCard] else [])
           @ (if omit_patch c \<noteq> Some True then [PatchCard] else [])"
  using assms by (simp_all add: Features_def)

section \<open>One request per method\<close>

lemma string_of_nat_1: "string_of_nat 1 = ''1''"
  by code_simp

lemma string_of_nat_Suc_0: "string_of_nat (Suc 0) = ''1''"
  using string_of_nat_1 by (simp del: string_of_nat.simps)

lemma string_of_nat_12: "string_of_nat 12 = ''12''"
  by code_simp

lemma sends_one_api:
  assumes m: "\<And>s. m s = await (getOctokit imp api) (\<lambda>octokit.
                         await (send (ep octokit) r) (\<lambda>x. resolve (k x))) s"
  shows "sends_one m (\<lambda>req. req = r)"
  unfolding sends_one_def m
  by (auto simp: await_def getOctokit_def send_def resolve_def advance_def
           split: prod.splits sum.splits)

lemma sends_one_weaken:
  assumes "sends_one m Q" and "\<And>r. Q r \<Longrightarrow> Q' r"
  shows "sends_one m Q'"
  using assms unfolding sends_one_def by blast

lemma sends_one_Inr:
  assumes "sends_one m Q" and "m s = (Inr x, s')"
  shows "\<exists>g' req. Q req \<and> s' = advance s g' [Req req] []"
  using assms unfolding sends_one_def by (metis Inl_Inr_False prod.inject)

lemma sends_one_createReleaseBranch:
  "sends_one (createReleaseBranch imp api ow rp sha b)
     (\<lambda>req. req = GitCreateRef ow rp (''refs/heads/'' @ b) sha)"
  by (rule sends_one_api [where k = ref_object_sha and ep = git_createRef])
     (simp add: createReleaseBranch_def)

lemma sends_one_createTagObject:
  "sends_one (createTagObject imp api ow rp obj tg nm em)
     (\<lambda>req. \<exists>date. req = GitCreateTag ow rp tg tag_message obj ''commit'' date nm em)"
  unfolding sends_one_def createTagObject_def
  by (auto simp: await_def getOctokit_def send_def resolve_def advance_def
           split: prod.splits sum.splits)

lemma sends_one_createReference:
  "sends_one (createReference imp api ow rp tg sha)
     (\<lambda>req. req = GitCreateRef ow rp (''refs/tags/'' @ tg) sha)"
  by (rule sends_one_api [where k = ref_ref and ep = git_createRef])
     (simp add: createReference_def)

lemma sends_one_getLatestCommit:
  "sends_one (getLatestCommit imp api ow rp b)
     (\<lambda>req. req = ReposGetCommit ow rp b (DISABLE_CACHE imp))"
  by (rule sends_one_api [where ep = repos_getCommit
        and k = "\<lambda>c. \<lparr> lc_sha = rc_sha c, lc_htmlUrl = rc_html_url c,
                       lc_commit_message = rc_commit_message c \<rparr>"])
     (simp add: getLatestCommit_def)

lemma sends_one_getComparison:
  "sends_one (getComparison imp api ow rp prev nxt)
     (\<lambda>req. req = ReposCompareCommits ow rp prev nxt)"
  by (rule sends_one_api [where ep = repos_compareCommits
        and k = "\<lambda>c. \<lparr> cmp_htmlUrl = cmp_html_url c, cmp_aheadBy = cmp_ahead_by c \<rparr>"])
     (simp add: getComparison_def)

lemma sends_one_createRelease:
  "sends_one (createRelease imp api ow rp tg nm br bd)
     (\<lambda>req. req = ReposCreateRelease ow rp tg nm br bd True)"
  by (rule sends_one_api [where ep = repos_createRelease and k = release_result])
     (simp add: createRelease_def)

lemma sends_one_createTempCommit:
  "sends_one (createTempCommit imp api ow rp parts tree sel)
     (\<lambda>req. req = GitCreateCommit ow rp
                 (''Temporary commit for patch '' @ string_of_nat (patch parts)) tree
                 [case firstParentSha sel of Some p \<Rightarrow> p | None \<Rightarrow> []])"
  by (rule sends_one_api [where ep = git_createCommit
        and k = "\<lambda>c. \<lparr> c_message = gc_message c, c_sha = gc_sha c \<rparr>"])
     (simp add: createTempCommit_def)

lemma sends_one_forceBranchHeadToTempCommit:
  "sends_one (forceBranchHeadToTempCommit imp api ow rp b tmp)
     (\<lambda>req. req = GitUpdateRef ow rp (''heads/'' @ b) (c_sha tmp) True)"
  by (rule sends_one_api [where ep = git_updateRef and k = "\<lambda>_. ()"])
     (simp add: forceBranchHeadToTempCommit_def)

lemma sends_one_merge:
  "sends_one (merge imp api ow rp b h) (\<lambda>req. req = ReposMerge ow rp b h)"
  by (rule sends_one_api [where ep = repos_merge
        and k = "\<lambda>m. \<lparr> m_htmlUrl = merge_html_url m,
                       m_commit_message = merge_commit_message m,
                       m_commit_tree_sha = merge_commit_tree_sha m \<rparr>"])
     (simp add: merge_def)

lemma sends_one_createCherryPickCommit:
  "sends_one (createCherryPickCommit imp api ow rp tg sel tree parent sfx)
     (\<lambda>req. req = GitCreateCommit ow rp (cherryPickMessage tg sel sfx) tree [parent])"
  by (rule sends_one_api [where ep = git_createCommit
        and k = "\<lambda>c. \<lparr> c_message = gc_message c, c_sha = gc_sha c \<rparr>"])
     (simp add: createCherryPickCommit_def)

lemma sends_one_replaceTempCommit:
  "sends_one (replaceTempCommit imp api ow rp b cp)
     (\<lambda>req. req = GitUpdateRef ow rp (''heads/'' @ b) (c_sha cp) True)"
  by (rule sends_one_api [where ep = git_updateRef
        and k = "\<lambda>u. \<lparr> u_ref = ref_ref u, u_object_sha = ref_object_sha u \<rparr>"])
     (simp add: replaceTempCommit_def)

lemma sends_one_updateRelease:
  "sends_one (updateRelease imp api ow rp tg latest parts sel)
     (\<lambda>req. req = ReposUpdateRelease ow rp (id' latest) tg
                 (Some (patchReleaseBody latest parts sel)) None)"
  by (rule sends_one_api [where ep = repos_updateRelease and k = release_result])
     (simp add: updateRelease_def)

section \<open>Sequences of requests\<close>

lemma follows_resolve: "follows (resolve x) []"
  unfolding follows_def
proof
  fix s :: "'a state"
  have "resolve x s = (Inr x, advance s (world s) (map Req []) [])"
    by (simp add: resolve_def)
  then show "\<exists>res g' reqs. resolve x s = (res, advance s g' (map Req reqs) []) \<and>
        length reqs \<le> length [] \<and>
        list_all2 (\<lambda>Q r. Q r) (take (length reqs) []) reqs \<and>
        (case res of Inr _ \<Rightarrow> length reqs = length [] | Inl _ \<Rightarrow> True)"
    by (intro exI [of _ "Inr x"] exI [of _ "world s"] exI [of _ "[]"]) simp
qed

lemma follows_await:
  assumes m: "sends_one m Q" and f: "\<And>x. follows (f x) Qs"
  shows "follows (await m f) (Q # Qs)"
  unfolding follows_def
proof
  fix s
  let ?goal = "\<exists>res g' reqs. await m f s = (res, advance s g' (map Req reqs) []) \<and>
        length reqs \<le> length (Q # Qs) \<and>
        list_all2 (\<lambda>Q r. Q r) (take (length reqs) (Q # Qs)) reqs \<and>
        (case res of Inr _ \<Rightarrow> length reqs = length (Q # Qs) | Inl _ \<Rightarrow> True)"
  from m consider (denied) e g' where "m s = (Inl e, advance s g' [] [])"
    | (sent) r g' req where "Q req" "m s = (r, advance s g' [Req req] [])"
    unfolding sends_one_def by blast
  then show ?goal
  proof cases
    case denied
    then have "await m f s = (Inl e, advance s g' (map Req []) [])"
      by (simp add: await_def)
    then show ?thesis
      by (intro exI [of _ "Inl e"] exI [of _ g'] exI [of _ "[]"]) simp
  next
    case sent
    show ?thesis
    proof (cases r)
      case (Inl e)
      with sent have "await m f s = (Inl e, advance s g' (map Req [req]) [])"
        by (simp add: await_def)
      with sent(1) show ?thesis
        by (intro exI [of _ "Inl e"] exI [of _ g'] exI [of _ "[req]"]) simp
    next
      case (Inr x)
      from f [of x] obtain res g'' reqs where
        fx: "f x (advance s g' [Req req] []) =
               (res, advance (advance s g' [Req req] []) g'' (map Req reqs) [])"
        and len: "length reqs \<le> length Qs"
        and all: "list_all2 (\<lambda>Q r. Q r) (take (length reqs) Qs) reqs"
        and fin: "case res of Inr _ \<Rightarrow> length reqs = length Qs | Inl _ \<Rightarrow> True"
        unfolding follows_def by blast
      from sent Inr fx have "await m f s = (res, advance s g'' (map Req (req # reqs)) [])"
        by (simp add: await_def)
      with sent(1) len all fin show ?thesis
        by (intro exI [of _ res] exI [of _ g''] exI [of _ "req # reqs"])
           (auto split: sum.splits)
    qed
  qed
qed

lemma await_Inr:
  assumes "await m f s = (Inr y, s')"
  obtains x s1 where "m s = (Inr x, s1)" "f x s1 = (Inr y, s')"
  using assms by (auto simp: await_def split: prod.splits sum.splits)

lemma sent_Inr:
  assumes "sends_one m (\<lambda>req. req = r)" and "m s = (Inr x, s1)"
  shows "\<exists>g'. s1 = advance s g' [Req r] []"
  using sends_one_Inr [OF assms] by blast

section \<open>The patch sequence\<close>

lemma method_answers:
  assumes ans: "answers imp api ep r g x g'" and g: "world s = g"
  shows "await (getOctokit imp api) (\<lambda>octokit. await (send (ep octokit) r) (\<lambda>y. resolve (k y))) s
           = (Inr (k x), advance s g' [Req r] [])"
proof -
  from ans g obtain token g1 where
    tok: "githubAuthApi api [''repo''] (world s) = (Inr token, g1)"
    and ep: "ep (Octokit imp token (baseUrl api)) r g1 = (Inr x, g')"
    unfolding answers_def by blast
  from method_granted [where ep = ep, OF tok ep] show ?thesis by simp
qed

lemma await_step:
  assumes "m s = (Inr x, s1)" and "f x s1 = r"
  shows "await m f s = r"
  using assms by (simp add: await_def)

lemma createTagObject_granted:
  assumes tok: "githubAuthApi api [''repo''] g = (Inr token, g1)"
    and ans: "git_createTag (Octokit imp token (baseUrl api))
                (GitCreateTag ow rp tg tag_message obj ''commit'' (Date_toISOString imp g1) nm em) g1
              = (Inr x, g')"
    and g: "world s = g"
  shows "createTagObject imp api ow rp obj tg nm em s
           = (Inr \<lparr> cto_tagName = tag_tag x, cto_tagSha = tag_sha x \<rparr>,
              advance s g'
                [Req (GitCreateTag ow rp tg tag_message obj ''commit'' (Date_toISOString imp g1)
                        nm em)] [])"
  using tok ans g
  by (simp add: createTagObject_def await_def getOctokit_def send_def resolve_def advance_def)

text \<open>
  Claim C6. The patch sequence, for a selected commit and the release branch. When every
  request is answered, the sequence resolves with the updated release, and it has sent
  exactly these eight requests, in this order: (1) create the temporary commit, on the tree
  of the release branch and named after the bumped patch component; (2) force the head of
  the release branch to the temporary commit, the one the first request was answered with;
  (3) merge the selected commit into the release branch, whose head is the temporary
  commit by then; (4) create the cherry-pick commit, with the tree of the merge commit the
  third request was answered with, the head the branch had before the sequence as its
  parent, and as its message the prefix naming the bumped tag, the message of the selected
  commit, a blank line and the suffix; (5) force the head of the release branch to that
  cherry-pick commit; (6) create the annotated tag object for the bumped tag, on the commit
  the head was set to; (7) create the reference \<^verbatim>\<open>refs/tags/\<close> of the bumped tag, to the
  tag object just created; (8) update the existing release, the one with the id of the
  latest release, with the bumped tag as its tag name and its body extended by the patch.
  The bumped tag is the tag of the latest release with the patch component one greater.
  Whatever the answers, the requests of a run follow this order, each sent only once the
  one before it was answered without an error, and a run that resolves has sent all eight.
\<close>

theorem patch_sequence_order:
  assumes temp: "answers imp api git_createCommit
                   (GitCreateCommit (owner proj) (repo proj)
                      (''Temporary commit for patch '' @ string_of_nat (patch parts + 1))
                      (branch_commit_tree_sha rb)
                      [case firstParentSha sel of Some p \<Rightarrow> p | None \<Rightarrow> []])
                   (world s) tempCommit gA"
    and force1: "answers imp api git_updateRef
                   (GitUpdateRef (owner proj) (repo proj) (''heads/'' @ branch_name rb)
                      (gc_sha tempCommit) True)
                   gA tempRef gB"
    and merged: "answers imp api repos_merge
                   (ReposMerge (owner proj) (repo proj) (branch_name rb) (commit_sha sel))
                   gB mergeCommit gC"
    and cherry: "answers imp api git_createCommit
                   (GitCreateCommit (owner proj) (repo proj)
                      (''[patch '' @ tagName_of (parts\<lparr>patch := patch parts + 1\<rparr>) @ ''] ''
                         @ commit_message sel @ newline @ newline @ sfx)
                      (merge_commit_tree_sha mergeCommit) [branch_commit_sha rb])
                   gC cherryCommit gD"
    and force2: "answers imp api git_updateRef
                   (GitUpdateRef (owner proj) (repo proj) (''heads/'' @ branch_name rb)
                      (gc_sha cherryCommit) True)
                   gD headRef gE"
    and tok: "githubAuthApi api [''repo''] gE = (Inr token, gE')"
    and tagged: "git_createTag (Octokit imp token (baseUrl api))
                   (GitCreateTag (owner proj) (repo proj)
                      (tagName_of (parts\<lparr>patch := patch parts + 1\<rparr>)) tag_message
                      (ref_object_sha headRef) ''commit'' (Date_toISOString imp gE')
                      (Some (username user)) (email user))
                   gE' = (Inr tagObject, gF)"
    and refd: "answers imp api git_createRef
                   (GitCreateRef (owner proj) (repo proj)
                      (''refs/tags/'' @ tagName_of (parts\<lparr>patch := patch parts + 1\<rparr>))
                      (tag_sha tagObject))
                   gF tagRef gG"
    and updated: "answers imp api repos_updateRelease
                   (ReposUpdateRelease (owner proj) (repo proj) (id' latest)
                      (tagName_of (parts\<lparr>patch := patch parts + 1\<rparr>))
                      (Some (patchReleaseBody latest (parts\<lparr>patch := patch parts + 1\<rparr>) sel))
                      None)
                   gG release gH"
  shows "patch_sequence imp api user proj latest rb sel tagName_of parts sfx s =
           (Inr (release_result release),
            advance s gH
              [Req (GitCreateCommit (owner proj) (repo proj)
                      (''Temporary commit for patch '' @ string_of_nat (patch parts + 1))
                      (branch_commit_tree_sha rb)
                      [case firstParentSha sel of Some p \<Rightarrow> p | None \<Rightarrow> []]),
               Req (GitUpdateRef (owner proj) (repo proj) (''heads/'' @ branch_name rb)
                      (gc_sha tempCommit) True),
               Req (ReposMerge (owner proj) (repo proj) (branch_name rb) (commit_sha sel)),
               Req (GitCreateCommit (owner proj) (repo proj)
                      (''[patch '' @ tagName_of (parts\<lparr>patch := patch parts + 1\<rparr>) @ ''] ''
                         @ commit_message sel @ newline @ newline @ sfx)
                      (merge_commit_tree_sha mergeCommit) [branch_commit_sha rb]),
               Req (GitUpdateRef (owner proj) (repo proj) (''heads/'' @ branch_name rb)
                      (gc_sha cherryCommit) True),
               Req (GitCreateTag (owner proj) (repo proj)
                      (tagName_of (parts\<lparr>patch := patch parts + 1\<rparr>)) tag_message
                      (ref_object_sha headRef) ''commit'' (Date_toISOString imp gE')
                      (Some (username user)) (email user)),
               Req (GitCreateRef (owner proj) (repo proj)
                      (''refs/tags/'' @ tagName_of (parts\<lparr>patch := patch parts + 1\<rparr>))
                      (tag_sha tagObject)),
               Req (ReposUpdateRelease (owner proj) (repo proj) (id' latest)
                      (tagName_of (parts\<lparr>patch := patch parts + 1\<rparr>))
                      (Some (patchReleaseBody latest (parts\<lparr>patch := patch parts + 1\<rparr>) sel))
                      None)] []) \<and>
         follows (patch_sequence imp api user proj latest rb sel tagName_of parts sfx)
           [\<lambda>r. r = GitCreateCommit (owner proj) (repo proj)
                     (''Temporary commit for patch '' @ string_of_nat (patch parts + 1))
                     (branch_commit_tree_sha rb)
                     [case firstParentSha sel of Some p \<Rightarrow> p | None \<Rightarrow> []],
            \<lambda>r. \<exists>sha. r = GitUpdateRef (owner proj) (repo proj) (''heads/'' @ branch_name rb)
                            sha True,
            \<lambda>r. r = ReposMerge (owner proj) (repo proj) (branch_name rb) (commit_sha sel),
            \<lambda>r. \<exists>tree. r = GitCreateCommit (owner proj) (repo proj)
                     (''[patch '' @ tagName_of (parts\<lparr>patch := patch parts + 1\<rparr>) @ ''] ''
                        @ commit_message sel @ newline @ newline @ sfx)
                     tree [branch_commit_sha rb],
            \<lambda>r. \<exists>sha. r = GitUpdateRef (owner proj) (repo proj) (''heads/'' @ branch_name rb)
                            sha True,
            \<lambda>r. \<exists>obj date. r = GitCreateTag (owner proj) (repo proj)
                     (tagName_of (parts\<lparr>patch := patch parts + 1\<rparr>)) tag_message obj
                     ''commit'' date (Some (username user)) (email user),
            \<lambda>r. \<exists>sha. r = GitCreateRef (owner proj) (repo proj)
                     (''refs/tags/'' @ tagName_of (parts\<lparr>patch := patch parts + 1\<rparr>)) sha,
            \<lambda>r. r = ReposUpdateRelease (owner proj) (repo proj) (id' latest)
                     (tagName_of (parts\<lparr>patch := patch parts + 1\<rparr>))
                     (Some (patchReleaseBody latest (parts\<lparr>patch := patch parts + 1\<rparr>) sel))
                     None]"
proof (rule conjI)
  let ?bumped = "parts\<lparr>patch := patch parts + 1\<rparr>"
  let ?tag = "tagName_of ?bumped"
  let ?r1 = "GitCreateCommit (owner proj) (repo proj)
               (''Temporary commit for patch '' @ string_of_nat (patch parts + 1))
               (branch_commit_tree_sha rb)
               [case firstParentSha sel of Some p \<Rightarrow> p | None \<Rightarrow> []]"
  let ?r2 = "GitUpdateRef (owner proj) (repo proj) (''heads/'' @ branch_name rb)
               (gc_sha tempCommit) True"
  let ?r3 = "ReposMerge (owner proj) (repo proj) (branch_name rb) (commit_sha sel)"
  let ?r4 = "GitCreateCommit (owner proj) (repo proj)
               (''[patch '' @ ?tag @ ''] '' @ commit_message sel @ newline @ newline @ sfx)
               (merge_commit_tree_sha mergeCommit) [branch_commit_sha rb]"
  let ?r5 = "GitUpdateRef (owner proj) (repo proj) (''heads/'' @ branch_name rb)
               (gc_sha cherryCommit) True"
  let ?r6 = "GitCreateTag (owner proj) (repo proj) ?tag tag_message (ref_object_sha headRef)
               ''commit'' (Date_toISOString imp gE') (Some (username user)) (email user)"
  let ?r7 = "GitCreateRef (owner proj) (repo proj) (''refs/tags/'' @ ?tag) (tag_sha tagObject)"
  let ?r8 = "ReposUpdateRelease (owner proj) (repo proj) (id' latest) ?tag
               (Some (patchReleaseBody latest ?bumped sel)) None"
  let ?temp = "\<lparr> c_message = gc_message tempCommit, c_sha = gc_sha tempCommit \<rparr>"
  let ?merged = "\<lparr> m_htmlUrl = merge_html_url mergeCommit,
                   m_commit_message = merge_commit_message mergeCommit,
                   m_commit_tree_sha = merge_commit_tree_sha mergeCommit \<rparr>"
  let ?cherry = "\<lparr> c_message = gc_message cherryCommit, c_sha = gc_sha cherryCommit \<rparr>"
  let ?upd = "\<lparr> u_ref = ref_ref headRef, u_object_sha = ref_object_sha headRef \<rparr>"
  let ?obj = "\<lparr> cto_tagName = tag_tag tagObject, cto_tagSha = tag_sha tagObject \<rparr>"
  let ?s1 = "advance s gA [Req ?r1] []"
  let ?s2 = "advance ?s1 gB [Req ?r2] []"
  let ?s3 = "advance ?s2 gC [Req ?r3] []"
  let ?s4 = "advance ?s3 gD [Req ?r4] []"
  let ?s5 = "advance ?s4 gE [Req ?r5] []"
  let ?s6 = "advance ?s5 gF [Req ?r6] []"
  let ?s7 = "advance ?s6 gG [Req ?r7] []"
  let ?s8 = "advance ?s7 gH [Req ?r8] []"
  have m1: "createTempCommit imp api (owner proj) (repo proj) ?bumped
              (branch_commit_tree_sha rb) sel s = (Inr ?temp, ?s1)"
    unfolding createTempCommit_def
    using method_answers [where ep = git_createCommit
        and k = "\<lambda>c. \<lparr> c_message = gc_message c, c_sha = gc_sha c \<rparr>", OF temp refl]
    by simp
  have m2: "forceBranchHeadToTempCommit imp api (owner proj) (repo proj) (branch_name rb) ?temp ?s1
              = (Inr (), ?s2)"
    unfolding forceBranchHeadToTempCommit_def
    using method_answers [where ep = git_updateRef and k = "\<lambda>_. ()" and s = ?s1, OF force1]
    by simp
  have m3: "merge imp api (owner proj) (repo proj) (branch_name rb) (commit_sha sel) ?s2
              = (Inr ?merged, ?s3)"
    unfolding merge_def
    using method_answers [where ep = repos_merge and s = ?s2
        and k = "\<lambda>m. \<lparr> m_htmlUrl = merge_html_url m,
                       m_commit_message = merge_commit_message m,
                       m_commit_tree_sha = merge_commit_tree_sha m \<rparr>", OF merged]
    by simp
  have m4: "createCherryPickCommit imp api (owner proj) (repo proj) ?tag sel
              (m_commit_tree_sha ?merged) (branch_commit_sha rb) sfx ?s3 = (Inr ?cherry, ?s4)"
    unfolding createCherryPickCommit_def cherryPickMessage_def
    using method_answers [where ep = git_createCommit and s = ?s3
        and k = "\<lambda>c. \<lparr> c_message = gc_message c, c_sha = gc_sha c \<rparr>", OF cherry]
    by simp
  have m5: "replaceTempCommit imp api (owner proj) (repo proj) (branch_name rb) ?cherry ?s4
              = (Inr ?upd, ?s5)"
    unfolding replaceTempCommit_def
    using method_answers [where ep = git_updateRef and s = ?s4
        and k = "\<lambda>u. \<lparr> u_ref = ref_ref u, u_object_sha = ref_object_sha u \<rparr>", OF force2]
    by simp
  have m6: "createTagObject imp api (owner proj) (repo proj) (u_object_sha ?upd) ?tag
              (Some (username user)) (email user) ?s5 = (Inr ?obj, ?s6)"
    using createTagObject_granted [where s = ?s5, OF tok] tagged by simp
  have m7: "createReference imp api (owner proj) (repo proj) ?tag (cto_tagSha ?obj) ?s6
              = (Inr (ref_ref tagRef), ?s7)"
    unfolding createReference_def
    using method_answers [where ep = git_createRef and k = ref_ref and s = ?s6, OF refd]
    by simp
  have m8: "updateRelease imp api (owner proj) (repo proj) ?tag latest ?bumped sel ?s7
              = (Inr (release_result release), ?s8)"
    unfolding updateRelease_def
    using method_answers [where ep = repos_updateRelease and k = release_result and s = ?s7,
        OF updated]
    by simp
  have "patch_sequence imp api user proj latest rb sel tagName_of parts sfx s
          = (Inr (release_result release), ?s8)"
    unfolding patch_sequence_def Let_def bumpTagParts_def
    apply (rule await_step, rule m1)
    apply (rule await_step, rule m2)
    apply (rule await_step, rule m3)
    apply (rule await_step, rule m4)
    apply (rule await_step, rule m5)
    apply (rule await_step, rule m6)
    apply (rule await_step, rule m7)
    apply (rule await_step, rule m8)
    apply (simp add: resolve_def)
    done
  then show "patch_sequence imp api user proj latest rb sel tagName_of parts sfx s =
           (Inr (release_result release),
            advance s gH [Req ?r1, Req ?r2, Req ?r3, Req ?r4, Req ?r5, Req ?r6, Req ?r7, Req ?r8] [])"
    by simp
  show "follows (patch_sequence imp api user proj latest rb sel tagName_of parts sfx)
           [\<lambda>r. r = ?r1,
            \<lambda>r. \<exists>sha. r = GitUpdateRef (owner proj) (repo proj) (''heads/'' @ branch_name rb)
                            sha True,
            \<lambda>r. r = ?r3,
            \<lambda>r. \<exists>tree. r = GitCreateCommit (owner proj) (repo proj)
                     (''[patch '' @ ?tag @ ''] '' @ commit_message sel @ newline @ newline @ sfx)
                     tree [branch_commit_sha rb],
            \<lambda>r. \<exists>sha. r = GitUpdateRef (owner proj) (repo proj) (''heads/'' @ branch_name rb)
                            sha True,
            \<lambda>r. \<exists>obj date. r = GitCreateTag (owner proj) (repo proj) ?tag tag_message obj
                     ''commit'' date (Some (username user)) (email user),
            \<lambda>r. \<exists>sha. r = GitCreateRef (owner proj) (repo proj) (''refs/tags/'' @ ?tag) sha,
            \<lambda>r. r = ?r8]"
    unfolding patch_sequence_def Let_def bumpTagParts_def
    apply (rule follows_await)
     apply (rule sends_one_weaken [OF sends_one_createTempCommit], simp)
    apply (rule follows_await)
     apply (rule sends_one_weaken [OF sends_one_forceBranchHeadToTempCommit], blast)
    apply (rule follows_await [OF sends_one_merge])
    apply (rule follows_await)
     apply (rule sends_one_weaken [OF sends_one_createCherryPickCommit])
     apply (simp add: cherryPickMessage_def)
    apply (rule follows_await)
     apply (rule sends_one_weaken [OF sends_one_replaceTempCommit], blast)
    apply (rule follows_await)
     apply (rule sends_one_weaken [OF sends_one_createTagObject], blast)
    apply (rule follows_await)
     apply (rule sends_one_weaken [OF sends_one_createReference], blast)
    apply (rule follows_await [OF sends_one_updateRelease])
    apply (rule follows_resolve)
    done
qed

theorem patch_sequence_order_witness:
  "patch_sequence (ex_imports ex_octokit) ex_api ex_user ex_project ex_latest ex_branch
       ex_selected (\<lambda>p. ''rc-1.2.'' @ string_of_nat (patch p)) \<lparr>patch = 0\<rparr>
       ''(cherry picked from commit c0ffee)'' ex_state
   = (Inr \<lparr> r_name = Some ''Version 1.3.0'',
             r_htmlUrl = ''https://github.com/o/r/releases/tag/rc-1.3.0'',
             r_tagName = ''rc-1.3.0'' \<rparr>,
      advance ex_state ()
        [Req (GitCreateCommit ''o'' ''r'' ''Temporary commit for patch 1'' ''7e0'' [''9a7'']),
         Req (GitUpdateRef ''o'' ''r'' ''heads/rc/1.3.0'' ''5a1'' True),
         Req (ReposMerge ''o'' ''r'' ''rc/1.3.0'' ''c0ffee''),
         Req (GitCreateCommit ''o'' ''r''
                (''[patch rc-1.2.1] fix typo'' @ newline @ newline
                   @ ''(cherry picked from commit c0ffee)'')
                ''73e'' [''b4a'']),
         Req (GitUpdateRef ''o'' ''r'' ''heads/rc/1.3.0'' ''c4e'' True),
         Req (GitCreateTag ''o'' ''r'' ''rc-1.2.1'' tag_message ''c4e'' ''commit''
                ''2021-04-01T12:00:00.000Z'' (Some ''erik'') (Some ''erik@example.com'')),
         Req (GitCreateRef ''o'' ''r'' ''refs/tags/rc-1.2.1'' ''7a6''),
         Req (ReposUpdateRelease ''o'' ''r'' 41 ''rc-1.2.1''
                (Some (''notes'' @ newline @ newline
                         @ ''#### [Patch 1](https://github.com/o/r/commit/c0ffee)''
                         @ newline @ ''  '' @ newline @ ''fix typo''))
                None)] [])"
proof -
  let ?imp = "ex_imports ex_octokit"
  let ?tagName_of = "\<lambda>p :: TagParts. ''rc-1.2.'' @ string_of_nat (patch p)"
  let ?parts = "\<lparr>patch = 0\<rparr>"
  let ?bumped = "?parts\<lparr>patch := patch ?parts + 1\<rparr>"
  let ?sfx = "''(cherry picked from commit c0ffee)''"
  let ?tempCommit = "\<lparr>gc_message = ''Temporary commit for patch 1'', gc_sha = ''5a1''\<rparr>"
  let ?tempRef = "\<lparr>ref_ref = ''refs/heads/rc/1.3.0'', ref_object_sha = ''5a1''\<rparr>"
  let ?mergeCommit = "\<lparr>merge_html_url = ''https://github.com/o/r/commit/3e6'',
                        merge_commit_message = ''Merge'', merge_commit_tree_sha = ''73e''\<rparr>"
  let ?cherryCommit = "\<lparr>gc_message = ''[patch rc-1.2.1] fix typo'' @ newline @ newline @ ?sfx,
                         gc_sha = ''c4e''\<rparr>"
  let ?headRef = "\<lparr>ref_ref = ''refs/heads/rc/1.3.0'', ref_object_sha = ''c4e''\<rparr>"
  let ?tagRef = "\<lparr>ref_ref = ''refs/tags/rc-1.2.1'', ref_object_sha = ''7a6''\<rparr>"
  have temp: "answers ?imp ex_api git_createCommit
                (GitCreateCommit (owner ex_project) (repo ex_project)
                   (''Temporary commit for patch '' @ string_of_nat (patch ?parts + 1))
                   (branch_commit_tree_sha ex_branch)
                   [case firstParentSha ex_selected of Some p \<Rightarrow> p | None \<Rightarrow> []])
                (world ex_state) ?tempCommit ()"
    by (simp add: answers_def ex_octokit_def ex_branch_def ex_state_def string_of_nat_Suc_0
          del: string_of_nat.simps)
  have force1: "answers ?imp ex_api git_updateRef
                (GitUpdateRef (owner ex_project) (repo ex_project)
                   (''heads/'' @ branch_name ex_branch) (gc_sha ?tempCommit) True)
                () ?tempRef ()"
    by (simp add: answers_def ex_octokit_def ex_branch_def)
  have merged: "answers ?imp ex_api repos_merge
                (ReposMerge (owner ex_project) (repo ex_project) (branch_name ex_branch)
                   (commit_sha ex_selected))
                () ?mergeCommit ()"
    by (simp add: answers_def ex_octokit_def)
  have cherry: "answers ?imp ex_api git_createCommit
                (GitCreateCommit (owner ex_project) (repo ex_project)
                   (''[patch '' @ ?tagName_of ?bumped @ ''] ''
                      @ commit_message ex_selected @ newline @ newline @ ?sfx)
                   (merge_commit_tree_sha ?mergeCommit) [branch_commit_sha ex_branch])
                () ?cherryCommit ()"
    by (simp add: answers_def ex_octokit_def ex_selected_def string_of_nat_Suc_0
          del: string_of_nat.simps)
  have force2: "answers ?imp ex_api git_updateRef
                (GitUpdateRef (owner ex_project) (repo ex_project)
                   (''heads/'' @ branch_name ex_branch) (gc_sha ?cherryCommit) True)
                () ?headRef ()"
    by (simp add: answers_def ex_octokit_def ex_branch_def)
  have tok: "githubAuthApi ex_api [''repo''] () = (Inr ''token'', ())"
    by simp
  have tagged: "git_createTag (Octokit ?imp ''token'' (baseUrl ex_api))
                (GitCreateTag (owner ex_project) (repo ex_project)
                   (?tagName_of ?bumped) tag_message
                   (ref_object_sha ?headRef) ''commit'' (Date_toISOString ?imp ())
                   (Some (username ex_user)) (email ex_user))
                () = (Inr ex_tag, ())"
    by (simp add: ex_octokit_def del: string_of_nat.simps)
  have refd: "answers ?imp ex_api git_createRef
                (GitCreateRef (owner ex_project) (repo ex_project)
                   (''refs/tags/'' @ ?tagName_of ?bumped) (tag_sha ex_tag))
                () ?tagRef ()"
    by (simp add: answers_def ex_octokit_def ex_tag_def string_of_nat_Suc_0
          del: string_of_nat.simps)
  have updated: "answers ?imp ex_api repos_updateRelease
                (ReposUpdateRelease (owner ex_project) (repo ex_project) (id' ex_latest)
                   (?tagName_of ?bumped)
                   (Some (patchReleaseBody ex_latest ?bumped ex_selected))
                   None)
                () ex_release ()"
    by (simp add: answers_def ex_octokit_def del: string_of_nat.simps)
  note run = patch_sequence_order [where imp = ?imp and api = ex_api and proj = ex_project
      and parts = ?parts and rb = ex_branch and sel = ex_selected and s = ex_state
      and tempCommit = ?tempCommit and gA = "()" and tempRef = ?tempRef and gB = "()"
      and mergeCommit = ?mergeCommit and gC = "()" and tagName_of = ?tagName_of and sfx = ?sfx
      and cherryCommit = ?cherryCommit and gD = "()" and headRef = ?headRef and gE = "()"
      and token = "''token''" and gE' = "()" and user = ex_user and tagObject = ex_tag
      and gF = "()" and tagRef = ?tagRef and gG = "()" and latest = ex_latest
      and release = ex_release and gH = "()",
      OF temp force1 merged cherry force2 tok tagged refd updated, THEN conjunct1]
  show ?thesis
    using run
    by (simp add: ex_project_def ex_branch_def ex_selected_def ex_user_def ex_latest_def
          ex_release_def release_result_def ex_tag_def ex_imports_def patchReleaseBody_def
          string_of_nat_Suc_0 del: string_of_nat.simps)
qed

section \<open>Computations that only append\<close>

lemma obliviousI:
  assumes "\<And>s. f s = (case F (world s) of (r, g', evs, st) \<Rightarrow> (r, advance s g' evs st))"
  shows "oblivious f"
  unfolding oblivious_def using assms by blast

lemma oblivious_return: "oblivious (\<lambda>s. (r, s))"
  by (rule obliviousI [where F = "\<lambda>g. (r, g, [], [])"]) simp

lemma oblivious_bind:
  assumes m: "oblivious m" and f: "\<And>a. oblivious (f a)"
  shows "oblivious (\<lambda>s. case m s of (a, s') \<Rightarrow> f a s')"
proof -
  from m obtain Fm where
    Fm: "\<And>s. m s = (case Fm (world s) of (r, g', evs, st) \<Rightarrow> (r, advance s g' evs st))"
    unfolding oblivious_def by blast
  from f have "\<forall>a. \<exists>F. \<forall>s. f a s =
      (case F (world s) of (r, g', evs, st) \<Rightarrow> (r, advance s g' evs st))"
    unfolding oblivious_def by blast
  then obtain G where
    G: "\<And>a s. f a s = (case G a (world s) of (r, g', evs, st) \<Rightarrow> (r, advance s g' evs st))"
    by metis
  show ?thesis
  proof (rule obliviousI [where F = "\<lambda>g. case Fm g of (a, g1, e1, st1) \<Rightarrow>
            (case G a g1 of (r, g2, e2, st2) \<Rightarrow> (r, g2, e1 @ e2, st1 @ st2))"])
    fix s
    show "(case m s of (a, s') \<Rightarrow> f a s') =
          (case (case Fm (world s) of (a, g1, e1, st1) \<Rightarrow>
                  (case G a g1 of (r, g2, e2, st2) \<Rightarrow> (r, g2, e1 @ e2, st1 @ st2))) of
             (r, g', evs, st) \<Rightarrow> (r, advance s g' evs st))"
      by (simp add: Fm G split: prod.splits)
  qed
qed

lemma oblivious_resolve: "oblivious (resolve a)"
  using oblivious_return [of "Inr a"] by (simp add: resolve_def [abs_def])

lemma oblivious_reject: "oblivious (reject e)"
  using oblivious_return [of "Inl e"] by (simp add: reject_def [abs_def])

lemma oblivious_await:
  assumes "oblivious m" and "\<And>a. oblivious (f a)"
  shows "oblivious (await m f)"
proof -
  have eq: "await m f = (\<lambda>s. case m s of (r, s') \<Rightarrow>
                       (case r of Inl e \<Rightarrow> (\<lambda>s. (Inl e, s)) | Inr a \<Rightarrow> f a) s')"
    by (rule ext) (simp add: await_def split: prod.splits sum.splits)
  have k: "oblivious (case r of Inl e \<Rightarrow> (\<lambda>s. (Inl e, s)) | Inr a \<Rightarrow> f a)" for r
    by (cases r) (simp_all add: oblivious_return assms(2))
  show ?thesis
    unfolding eq by (rule oblivious_bind [OF assms(1) k])
qed

lemma oblivious_catch:
  assumes "oblivious m" and "\<And>e. oblivious (h e)"
  shows "oblivious (promise_catch m h)"
proof -
  have eq: "promise_catch m h = (\<lambda>s. case m s of (r, s') \<Rightarrow>
                       (case r of Inl e \<Rightarrow> h e | Inr a \<Rightarrow> (\<lambda>s. (Inr a, s))) s')"
    by (rule ext) (simp add: promise_catch_def split: prod.splits sum.splits)
  have k: "oblivious (case r of Inl e \<Rightarrow> h e | Inr a \<Rightarrow> (\<lambda>s. (Inr a, s)))" for r
    by (cases r) (simp_all add: oblivious_return assms(2))
  show ?thesis
    unfolding eq by (rule oblivious_bind [OF assms(1) k])
qed

lemma oblivious_useAsync:
  assumes "oblivious c"
  shows "oblivious (useAsync c)"
proof -
  have eq: "useAsync c = (\<lambda>s. case c s of (r, s') \<Rightarrow>
          (\<lambda>s. (case r of Inl e \<Rightarrow> Error e | Inr None \<Rightarrow> NoValue | Inr (Some v) \<Rightarrow> Value v, s)) s')"
    by (rule ext) (simp add: useAsync_def split: prod.splits sum.splits option.splits)
  show ?thesis
    unfolding eq by (rule oblivious_bind [OF assms oblivious_return])
qed

lemma oblivious_world:
  assumes "\<And>g. oblivious (f g)"
  shows "oblivious (\<lambda>s. f (world s) s)"
proof -
  from assms have "\<forall>g. \<exists>F. \<forall>s. f g s =
      (case F (world s) of (r, g', evs, st) \<Rightarrow> (r, advance s g' evs st))"
    unfolding oblivious_def by blast
  then obtain G where
    G: "\<And>g s. f g s = (case G g (world s) of (r, g', evs, st) \<Rightarrow> (r, advance s g' evs st))"
    by metis
  show ?thesis
    by (rule obliviousI [where F = "\<lambda>g. G g g"]) (simp add: G)
qed

lemma oblivious_send: "oblivious (send ep r)"
  by (rule obliviousI [where F = "\<lambda>g. case ep r g of (res, g') \<Rightarrow> (res, g', [Req r], [])"])
     (simp add: send_def advance_def split: prod.splits)

lemma oblivious_getOctokit: "oblivious (getOctokit imp api)"
  by (rule obliviousI [where F = "\<lambda>g. case githubAuthApi api [''repo''] g of
            (Inl e, g') \<Rightarrow> (Inl e, g', [], [])
          | (Inr token, g') \<Rightarrow> (Inr (Octokit imp token (baseUrl api)), g', [], [])"])
     (simp add: getOctokit_def advance_def split: prod.splits sum.splits)

lemma oblivious_addStep: "oblivious (addStepToResponseSteps x)"
  by (rule obliviousI [where F = "\<lambda>g. (Inr (), g, [], [x])"])
     (simp add: addStepToResponseSteps_def advance_def)

lemma oblivious_callback: "oblivious (call_createRc_successCb cb payload)"
  by (rule obliviousI [where F = "\<lambda>g. case cb payload g of
            (res, g') \<Rightarrow> (res, g', [CreateRcSuccessCb payload], [])"])
     (simp add: call_createRc_successCb_def advance_def split: prod.splits)

lemma oblivious_asyncCatcher: "oblivious (asyncCatcher e)"
  by (simp add: asyncCatcher_def oblivious_reject)

lemma oblivious_abortIfError: "oblivious (abortIfError e)"
  by (cases e) (simp_all add: abortIfError_def oblivious_reject oblivious_resolve)

lemma oblivious_api:
  "oblivious (await (getOctokit imp api) (\<lambda>octokit. await (send (ep octokit) r) (\<lambda>x. resolve (k x))))"
  by (intro oblivious_await oblivious_getOctokit oblivious_send oblivious_resolve)

lemma oblivious_option:
  assumes "oblivious a" and "\<And>v. oblivious (b v)"
  shows "oblivious (case x of None \<Rightarrow> a | Some v \<Rightarrow> b v)"
  using assms by (cases x) simp_all

lemma oblivious_if:
  assumes "oblivious a" and "oblivious b"
  shows "oblivious (if c then a else b)"
  using assms by simp

lemmas oblivious_intros =
  oblivious_await oblivious_catch oblivious_getOctokit oblivious_send oblivious_resolve
  oblivious_reject oblivious_addStep oblivious_callback oblivious_asyncCatcher
  oblivious_abortIfError oblivious_option oblivious_if

lemma oblivious_run_latestCommit: "oblivious (run_latestCommit imp api inp)"
  unfolding run_latestCommit_def getLatestCommit_def
  by (intro oblivious_intros)

lemma oblivious_releaseBranch_step: "oblivious (releaseBranch_step imp api inp info r)"
  unfolding releaseBranch_step_def createReleaseBranch_def
  by (intro oblivious_intros)

lemma oblivious_tagObject_step: "oblivious (tagObject_step imp api user inp info r)"
  unfolding tagObject_step_def createTagObject_def
  by (intro oblivious_intros oblivious_world)

lemma oblivious_createRc_step: "oblivious (createRc_step imp api inp info r)"
  unfolding createRc_step_def createReference_def
  by (intro oblivious_intros)

lemma oblivious_getComparison_step: "oblivious (getComparison_step imp api inp info r)"
  unfolding getComparison_step_def getComparison_def
  by (intro oblivious_intros)

lemma oblivious_createRelease_step: "oblivious (createRelease_step imp api inp info r)"
  unfolding createRelease_step_def createRelease_def
  by (intro oblivious_intros)

lemma oblivious_successCb_step: "oblivious (successCb_step inp r6 r5)"
  unfolding successCb_step_def
  by (cases "successCb inp"; cases "state_value r6"; cases "state_value r5")
     (simp_all add: oblivious_intros)

lemma oblivious_run: "oblivious (run imp api user inp info)"
  unfolding run_def [abs_def]
  by (intro oblivious_bind oblivious_useAsync oblivious_return oblivious_run_latestCommit
        oblivious_releaseBranch_step oblivious_tagObject_step oblivious_createRc_step
        oblivious_getComparison_step oblivious_createRelease_step oblivious_successCb_step)

lemma oblivious_log:
  assumes f: "oblivious f" and run: "f s = (r, s')"
  shows "\<exists>g' evs st. s' = advance s g' evs st \<and>
           (\<forall>l. f (s\<lparr>responseSteps := l\<rparr>) = (r, s'\<lparr>responseSteps := l @ st\<rparr>))"
proof -
  from f obtain F where
    F: "\<And>s. f s = (case F (world s) of (r, g', evs, st) \<Rightarrow> (r, advance s g' evs st))"
    unfolding oblivious_def by blast
  obtain g' evs st where Fw: "F (world s) = (r, g', evs, st)" and s': "s' = advance s g' evs st"
    using run F [of s] by (cases "F (world s)") auto
  have "f (s\<lparr>responseSteps := l\<rparr>) = (r, s'\<lparr>responseSteps := l @ st\<rparr>)" for l
    using F [of "s\<lparr>responseSteps := l\<rparr>"] Fw s' by (simp add: advance_def)
  with s' show ?thesis by blast
qed

section \<open>The steps of the chain\<close>

lemma addStep_advance:
  "addStepToResponseSteps x (advance s g ev st) = (Inr (), advance s g ev (st @ [x]))"
  by (simp add: addStepToResponseSteps_def advance_def)

lemma sends_one_rewrite:
  assumes "sends_one m Q" and "\<And>e. \<exists>e'. h e = reject e'"
  shows "sends_one (promise_catch m h) Q"
  unfolding sends_one_def
proof
  fix s
  from assms(1) consider (denied) e g' where "m s = (Inl e, advance s g' [] [])"
    | (sent) res g' req where "Q req" "m s = (res, advance s g' [Req req] [])"
    unfolding sends_one_def by blast
  then show "(\<exists>e g'. promise_catch m h s = (Inl e, advance s g' [] [])) \<or>
          (\<exists>res g' req. Q req \<and> promise_catch m h s = (res, advance s g' [Req req] []))"
  proof cases
    case denied
    obtain e' where "h e = reject e'" using assms(2) by blast
    with denied show ?thesis by (auto simp: promise_catch_def reject_def)
  next
    case sent
    show ?thesis
    proof (cases res)
      case (Inl e)
      obtain e' where "h e = reject e'" using assms(2) by blast
      with sent Inl show ?thesis by (auto simp: promise_catch_def reject_def)
    next
      case (Inr a)
      with sent show ?thesis by (auto simp: promise_catch_def)
    qed
  qed
qed

lemma chain_step:
  assumes M: "\<And>v. sends_one (M v) (Q v)"
  assumes run: "useAsync
     (await (abortIfError (state_error prev)) (\<lambda>_.
        case state_value prev of
          None \<Rightarrow> resolve None
        | Some v \<Rightarrow>
            await (promise_catch (M v) asyncCatcher) (\<lambda>x.
            await (addStepToResponseSteps (E v x)) (\<lambda>_. resolve (Some (R v x)))))) s = (res, s')"
  shows "\<exists>g' ev st. s' = advance s g' ev st \<and>
           (ev = [] \<or> (\<exists>v req. prev = Value v \<and> Q v req \<and> ev = [Req req])) \<and>
           (case res of
              Value y \<Rightarrow> (\<exists>v x. prev = Value v \<and> y = R v x \<and> st = [E v x]) \<and> ev \<noteq> []
            | _ \<Rightarrow> st = [])"
proof (cases prev)
  case NoValue
  with run have "res = NoValue" "s' = s"
    by (auto simp: useAsync_def await_def abortIfError_def resolve_def)
  with NoValue show ?thesis
    by (intro exI [of _ "world s"] exI [of _ "[]"]) simp
next
  case (Error e)
  with run have "res = Error e" "s' = s"
    by (auto simp: useAsync_def await_def abortIfError_def reject_def)
  with Error show ?thesis
    by (intro exI [of _ "world s"] exI [of _ "[]"]) simp
next
  case (Value v)
  from M [of v] consider (denied) e g' where "M v s = (Inl e, advance s g' [] [])"
    | (sent) r g' req where "Q v req" "M v s = (r, advance s g' [Req req] [])"
    unfolding sends_one_def by blast
  then show ?thesis
  proof cases
    case denied
    with run Value have "res = Error e" "s' = advance s g' [] []"
      by (auto simp: useAsync_def await_def abortIfError_def resolve_def reject_def
            promise_catch_def asyncCatcher_def)
    with Value show ?thesis
      by (intro exI [of _ g'] exI [of _ "[]"]) simp
  next
    case sent
    show ?thesis
    proof (cases r)
      case (Inl e)
      with sent run Value have "res = Error e" "s' = advance s g' [Req req] []"
        by (auto simp: useAsync_def await_def abortIfError_def resolve_def reject_def
              promise_catch_def asyncCatcher_def)
      with Value sent(1) show ?thesis
        by (intro exI [of _ g'] exI [of _ "[Req req]"] exI [of _ "[]"]) simp
    next
      case (Inr x)
      with sent run Value have "res = Value (R v x)" "s' = advance s g' [Req req] [E v x]"
        by (auto simp: useAsync_def await_def abortIfError_def resolve_def reject_def
              promise_catch_def asyncCatcher_def addStep_advance)
      with Value sent(1) show ?thesis
        by (intro exI [of _ g'] exI [of _ "[Req req]"] exI [of _ "[E v x]"]) auto
    qed
  qed
qed

text \<open>A step that finds an error or no value before it does nothing.\<close>

lemma chain_step_skip:
  "useAsync
     (await (abortIfError (state_error (Error e))) (\<lambda>_.
        case state_value (Error e) of None \<Rightarrow> resolve None | Some v \<Rightarrow> k v)) s = (Error e, s)"
  "useAsync
     (await (abortIfError (state_error NoValue)) (\<lambda>_.
        case state_value NoValue of None \<Rightarrow> resolve None | Some v \<Rightarrow> k v)) s = (NoValue, s)"
  by (simp_all add: useAsync_def await_def abortIfError_def reject_def resolve_def)

lemma latestCommit_delta:
  assumes "useAsync (run_latestCommit imp api inp) s = (r1, s')"
  shows "\<exists>g' ev st. s' = advance s g' ev st \<and>
           (ev = [] \<or>
            ev = [Req (ReposGetCommit (owner (project inp)) (repo (project inp))
                         (defaultBranch inp) (DISABLE_CACHE imp))]) \<and>
           (case r1 of Value y \<Rightarrow> length st = 1 \<and> ev \<noteq> [] | _ \<Rightarrow> st = [])"
proof -
  let ?m = "getLatestCommit imp api (owner (project inp)) (repo (project inp)) (defaultBranch inp)"
  let ?req = "ReposGetCommit (owner (project inp)) (repo (project inp))
                (defaultBranch inp) (DISABLE_CACHE imp)"
  from sends_one_getLatestCommit [of imp api "owner (project inp)" "repo (project inp)"
      "defaultBranch inp"]
  consider (denied) e g' where "?m s = (Inl e, advance s g' [] [])"
    | (sent) r g' where "?m s = (r, advance s g' [Req ?req] [])"
    unfolding sends_one_def by blast
  then show ?thesis
  proof cases
    case denied
    with assms have "r1 = Error e" "s' = advance s g' [] []"
      by (auto simp: run_latestCommit_def useAsync_def await_def promise_catch_def
            asyncCatcher_def reject_def)
    then show ?thesis
      by (intro exI [of _ g'] exI [of _ "[]"]) simp
  next
    case sent
    show ?thesis
    proof (cases r)
      case (Inl e)
      with sent assms have "r1 = Error e" "s' = advance s g' [Req ?req] []"
        by (auto simp: run_latestCommit_def useAsync_def await_def promise_catch_def
              asyncCatcher_def reject_def)
      then show ?thesis
        by (intro exI [of _ g'] exI [of _ "[Req ?req]"] exI [of _ "[]"]) simp
    next
      case (Inr x)
      with sent assms have "r1 = Value x \<and> (\<exists>e. s' = advance s g' [Req ?req] [e])"
        by (auto simp: run_latestCommit_def useAsync_def await_def promise_catch_def
              resolve_def addStep_advance)
      then obtain e where "r1 = Value x" "s' = advance s g' [Req ?req] [e]" by blast
      then show ?thesis
        by (intro exI [of _ g'] exI [of _ "[Req ?req]"] exI [of _ "[e]"]) simp
    qed
  qed
qed

lemma releaseBranch_delta:
  assumes "useAsync (releaseBranch_step imp api inp info r1) s = (r2, s')"
  shows "\<exists>g' ev st. s' = advance s g' ev st \<and>
           (ev = [] \<or> (\<exists>c. r1 = Value c \<and>
              ev = [Req (GitCreateRef (owner (project inp)) (repo (project inp))
                           (''refs/heads/'' @ rcBranch info) (lc_sha c))])) \<and>
           (case r2 of Value y \<Rightarrow> length st = 1 \<and> ev \<noteq> [] | _ \<Rightarrow> st = [])"
proof -
  have M: "\<And>v. sends_one
      (promise_catch
         (createReleaseBranch imp api (owner (project inp)) (repo (project inp))
            (lc_sha v) (rcBranch info))
         (\<lambda>error.
            if error_body_message error = Some ''Reference already exists'' then
              reject (GitHubReleaseManagerError
                (''Branch '' @ quote @ rcBranch info @ quote
                   @ '' already exists: .../tree/'' @ rcBranch info))
            else reject error))
      (\<lambda>req. req = GitCreateRef (owner (project inp)) (repo (project inp))
                           (''refs/heads/'' @ rcBranch info) (lc_sha v))"
    by (rule sends_one_rewrite [OF sends_one_createReleaseBranch]) auto
  from chain_step [OF M, where R = "\<lambda>v x. x", OF assms [unfolded releaseBranch_step_def]]
  show ?thesis
    by (fastforce split: AsyncState.splits)
qed

lemma tagObject_delta:
  assumes "useAsync (tagObject_step imp api user inp info r2) s = (r3, s')"
  shows "\<exists>g' ev st. s' = advance s g' ev st \<and>
           (ev = [] \<or> (\<exists>sha date. r2 = Value sha \<and>
              ev = [Req (GitCreateTag (owner (project inp)) (repo (project inp))
                           (rcReleaseTag info) tag_message sha ''commit'' date
                           (Some (username user)) (email user))])) \<and>
           (case r3 of Value y \<Rightarrow> length st = 1 \<and> ev \<noteq> [] | _ \<Rightarrow> st = [])"
proof -
  have M: "\<And>v. sends_one
      (createTagObject imp api (owner (project inp)) (repo (project inp))
         v (rcReleaseTag info) (Some (username user)) (email user))
      (\<lambda>req. \<exists>date. req = GitCreateTag (owner (project inp)) (repo (project inp))
                           (rcReleaseTag info) tag_message v ''commit'' date
                           (Some (username user)) (email user))"
    by (rule sends_one_createTagObject)
  from chain_step [OF M, where R = "\<lambda>v x. x", OF assms [unfolded tagObject_step_def]]
  show ?thesis
    by (fastforce split: AsyncState.splits)
qed

lemma createRc_delta:
  assumes "useAsync (createRc_step imp api inp info r3) s = (r4, s')"
  shows "\<exists>g' ev st. s' = advance s g' ev st \<and>
           (ev = [] \<or> (\<exists>t. r3 = Value t \<and>
              ev = [Req (GitCreateRef (owner (project inp)) (repo (project inp))
                           (''refs/tags/'' @ rcReleaseTag info) (cto_tagSha t))])) \<and>
           (case r4 of Value y \<Rightarrow> length st = 1 \<and> ev \<noteq> [] | _ \<Rightarrow> st = [])"
proof -
  have M: "\<And>v. sends_one
      (promise_catch
         (createReference imp api (owner (project inp)) (repo (project inp))
            (rcReleaseTag info) (cto_tagSha v))
         (\<lambda>error.
            if error_body_message error = Some ''Reference already exists'' then
              reject (GitHubReleaseManagerError
                (''Tag reference '' @ quote @ rcReleaseTag info @ quote
                   @ '' already exists''))
            else reject error))
      (\<lambda>req. req = GitCreateRef (owner (project inp)) (repo (project inp))
                           (''refs/tags/'' @ rcReleaseTag info) (cto_tagSha v))"
    by (rule sends_one_rewrite [OF sends_one_createReference]) auto
  from chain_step [OF M, where R = "\<lambda>v x. x", OF assms [unfolded createRc_step_def]]
  show ?thesis
    by (fastforce split: AsyncState.splits)
qed

lemma composeReleaseBody_extend:
  "composeReleaseBody (GetComparisonResult.extend c (ComparisonRes.fields b)) rf
     = composeReleaseBody c rf"
  "releaseBody (GetComparisonResult.extend c (ComparisonRes.fields b)) = b"
  by (simp_all add: composeReleaseBody_def GetComparisonResult.defs ComparisonRes.defs)

lemma getComparison_delta:
  assumes "useAsync (getComparison_step imp api inp info r4) s = (r5, s')"
  shows "\<exists>g' ev st. s' = advance s g' ev st \<and>
           (ev = [] \<or> (\<exists>rf. r4 = Value rf \<and>
              ev = [Req (ReposCompareCommits (owner (project inp)) (repo (project inp))
                           (previousReleaseBranch inp) (rcBranch info))])) \<and>
           (case r5 of
              Value y \<Rightarrow> length st = 1 \<and> ev \<noteq> [] \<and>
                (\<exists>rf. r4 = Value rf \<and> releaseBody y = composeReleaseBody y rf)
            | _ \<Rightarrow> st = [])"
proof -
  have M: "\<And>v. sends_one
      (getComparison imp api (owner (project inp)) (repo (project inp))
         (previousReleaseBranch inp) (rcBranch info))
      (\<lambda>req. req = ReposCompareCommits (owner (project inp)) (repo (project inp))
                           (previousReleaseBranch inp) (rcBranch info))"
    by (rule sends_one_getComparison)
  from chain_step [OF M, where
      R = "\<lambda>v x. GetComparisonResult.extend x (ComparisonRes.fields (composeReleaseBody x v))",
      OF assms [unfolded getComparison_step_def]]
  show ?thesis
    by (fastforce split: AsyncState.splits simp: composeReleaseBody_extend)
qed

lemma createRelease_delta:
  assumes "useAsync (createRelease_step imp api inp info r5) s = (r6, s')"
  shows "\<exists>g' ev st. s' = advance s g' ev st \<and>
           (ev = [] \<or> (\<exists>cmp. r5 = Value cmp \<and>
              ev = [Req (ReposCreateRelease (owner (project inp)) (repo (project inp))
                           (rcReleaseTag info) (releaseName info) (rcBranch info)
                           (releaseBody cmp) True)])) \<and>
           (case r6 of Value y \<Rightarrow> length st = 1 \<and> ev \<noteq> [] | _ \<Rightarrow> st = [])"
proof -
  have M: "\<And>v. sends_one
      (createRelease imp api (owner (project inp)) (repo (project inp))
         (rcReleaseTag info) (releaseName info) (rcBranch info) (releaseBody v))
      (\<lambda>req. req = ReposCreateRelease (owner (project inp)) (repo (project inp))
                           (rcReleaseTag info) (releaseName info) (rcBranch info)
                           (releaseBody v) True)"
    by (rule sends_one_createRelease)
  from chain_step [OF M, where R = "\<lambda>v x. x", OF assms [unfolded createRelease_step_def]]
  show ?thesis
    by (fastforce split: AsyncState.splits)
qed

lemma successCb_delta:
  assumes "useAsync (successCb_step inp r6 r5) s = (r7, s')"
  shows "\<exists>g' ev st. s' = advance s g' ev st \<and>
           (ev = [] \<or> (\<exists>cb rel cmp. successCb inp = Some cb \<and> r6 = Value rel \<and> r5 = Value cmp \<and>
              ev = [CreateRcSuccessCb (successCb_payload inp rel cmp)])) \<and>
           (case r7 of Value y \<Rightarrow> length st = 1 \<and> ev \<noteq> [] | _ \<Rightarrow> st = []) \<and>
           (successCb inp \<noteq> None \<and> is_Value r6 \<and> is_Value r5 \<longrightarrow> ev \<noteq> [])"
proof (cases "successCb inp")
  case None
  with assms have "r7 = NoValue" "s' = s"
    by (auto simp: successCb_step_def useAsync_def resolve_def)
  with None show ?thesis
    by (intro exI [of _ "world s"] exI [of _ "[]"]) simp
next
  case (Some cb)
  show ?thesis
  proof (cases "\<exists>rel cmp. r6 = Value rel \<and> r5 = Value cmp")
    case False
    then have "state_value r6 = None \<or> state_value r5 = None"
      by (cases r6; cases r5) auto
    with assms Some have "r7 = NoValue" "s' = s"
      by (auto simp: successCb_step_def useAsync_def resolve_def split: option.splits)
    with False show ?thesis
      by (intro exI [of _ "world s"] exI [of _ "[]"]) (cases r6; cases r5; simp)
  next
    case True
    then obtain rel cmp where v: "r6 = Value rel" "r5 = Value cmp" by blast
    let ?p = "successCb_payload inp rel cmp"
    obtain res g' where cb: "cb ?p (world s) = (res, g')" by (cases "cb ?p (world s)")
    then have call: "call_createRc_successCb cb ?p s = (res, advance s g' [CreateRcSuccessCb ?p] [])"
      by (simp add: call_createRc_successCb_def advance_def)
    show ?thesis
    proof (cases res)
      case (Inl e)
      with assms Some v call have "r7 = Error e" "s' = advance s g' [CreateRcSuccessCb ?p] []"
        by (auto simp: successCb_step_def useAsync_def await_def abortIfError_def resolve_def
              promise_catch_def asyncCatcher_def reject_def)
      with Some v show ?thesis
        by (intro exI [of _ g'] exI [of _ "[CreateRcSuccessCb ?p]"] exI [of _ "[]"]) simp
    next
      case (Inr u)
      with assms Some v call have "r7 = Value () \<and> (\<exists>e. s' = advance s g' [CreateRcSuccessCb ?p] [e])"
        by (auto simp: successCb_step_def useAsync_def await_def abortIfError_def resolve_def
              promise_catch_def addStep_advance)
      then obtain e where "r7 = Value ()" "s' = advance s g' [CreateRcSuccessCb ?p] [e]" by blast
      with Some v show ?thesis
        by (intro exI [of _ g'] exI [of _ "[CreateRcSuccessCb ?p]"] exI [of _ "[e]"]) simp
    qed
  qed
qed

section \<open>A run of the chain\<close>

lemma run_deltas:
  assumes run: "run imp api user inp info s = (rs, s')"
  obtains g e1 e2 e3 e4 e5 e6 e7 t1 t2 t3 t4 t5 t6 t7 where
    "s' = advance s g (e1 @ e2 @ e3 @ e4 @ e5 @ e6 @ e7) (t1 @ t2 @ t3 @ t4 @ t5 @ t6 @ t7)"
    "e1 = [] \<or>
     e1 = [Req (ReposGetCommit (owner (project inp)) (repo (project inp))
                  (defaultBranch inp) (DISABLE_CACHE imp))]"
    "case latestCommitRes rs of Value y \<Rightarrow> length t1 = 1 \<and> e1 \<noteq> [] | _ \<Rightarrow> t1 = []"
    "e2 = [] \<or> (\<exists>c. latestCommitRes rs = Value c \<and>
        e2 = [Req (GitCreateRef (owner (project inp)) (repo (project inp))
                     (''refs/heads/'' @ rcBranch info) (lc_sha c))])"
    "case releaseBranchRes rs of Value y \<Rightarrow> length t2 = 1 \<and> e2 \<noteq> [] | _ \<Rightarrow> t2 = []"
    "e3 = [] \<or> (\<exists>sha date. releaseBranchRes rs = Value sha \<and>
        e3 = [Req (GitCreateTag (owner (project inp)) (repo (project inp))
                     (rcReleaseTag info) tag_message sha ''commit'' date
                     (Some (username user)) (email user))])"
    "case tagObjectRes rs of Value y \<Rightarrow> length t3 = 1 \<and> e3 \<noteq> [] | _ \<Rightarrow> t3 = []"
    "e4 = [] \<or> (\<exists>t. tagObjectRes rs = Value t \<and>
        e4 = [Req (GitCreateRef (owner (project inp)) (repo (project inp))
                     (''refs/tags/'' @ rcReleaseTag info) (cto_tagSha t))])"
    "case createRcRes rs of Value y \<Rightarrow> length t4 = 1 \<and> e4 \<noteq> [] | _ \<Rightarrow> t4 = []"
    "e5 = [] \<or> (\<exists>rf. createRcRes rs = Value rf \<and>
        e5 = [Req (ReposCompareCommits (owner (project inp)) (repo (project inp))
                     (previousReleaseBranch inp) (rcBranch info))])"
    "case getComparisonRes rs of
       Value y \<Rightarrow> length t5 = 1 \<and> e5 \<noteq> [] \<and>
         (\<exists>rf. createRcRes rs = Value rf \<and> releaseBody y = composeReleaseBody y rf)
     | _ \<Rightarrow> t5 = []"
    "e6 = [] \<or> (\<exists>cmp. getComparisonRes rs = Value cmp \<and>
        e6 = [Req (ReposCreateRelease (owner (project inp)) (repo (project inp))
                     (rcReleaseTag info) (releaseName info) (rcBranch info)
                     (releaseBody cmp) True)])"
    "case createReleaseRes rs of Value y \<Rightarrow> length t6 = 1 \<and> e6 \<noteq> [] | _ \<Rightarrow> t6 = []"
    "e7 = [] \<or> (\<exists>cb rel cmp. successCb inp = Some cb \<and> createReleaseRes rs = Value rel \<and>
        getComparisonRes rs = Value cmp \<and>
        e7 = [CreateRcSuccessCb (successCb_payload inp rel cmp)])"
    "case successCbRes rs of Value y \<Rightarrow> length t7 = 1 \<and> e7 \<noteq> [] | _ \<Rightarrow> t7 = []"
    "successCb inp \<noteq> None \<and> is_Value (createReleaseRes rs) \<and> is_Value (getComparisonRes rs)
       \<longrightarrow> e7 \<noteq> []"
proof -
  obtain r1 s1 where a1: "useAsync (run_latestCommit imp api inp) s = (r1, s1)"
    by (cases "useAsync (run_latestCommit imp api inp) s")
  obtain r2 s2 where a2: "useAsync (releaseBranch_step imp api inp info r1) s1 = (r2, s2)"
    by (cases "useAsync (releaseBranch_step imp api inp info r1) s1")
  obtain r3 s3 where a3: "useAsync (tagObject_step imp api user inp info r2) s2 = (r3, s3)"
    by (cases "useAsync (tagObject_step imp api user inp info r2) s2")
  obtain r4 s4 where a4: "useAsync (createRc_step imp api inp info r3) s3 = (r4, s4)"
    by (cases "useAsync (createRc_step imp api inp info r3) s3")
  obtain r5 s5 where a5: "useAsync (getComparison_step imp api inp info r4) s4 = (r5, s5)"
    by (cases "useAsync (getComparison_step imp api inp info r4) s4")
  obtain r6 s6 where a6: "useAsync (createRelease_step imp api inp info r5) s5 = (r6, s6)"
    by (cases "useAsync (createRelease_step imp api inp info r5) s5")
  obtain r7 s7 where a7: "useAsync (successCb_step inp r6 r5) s6 = (r7, s7)"
    by (cases "useAsync (successCb_step inp r6 r5) s6")
  from run a1 a2 a3 a4 a5 a6 a7
  have rs: "rs = \<lparr> latestCommitRes = r1, releaseBranchRes = r2, tagObjectRes = r3,
                   createRcRes = r4, getComparisonRes = r5, createReleaseRes = r6,
                   successCbRes = r7 \<rparr>"
    and s': "s' = s7"
    by (simp_all add: run_def)
  have sel: "latestCommitRes rs = r1" "releaseBranchRes rs = r2" "tagObjectRes rs = r3"
    "createRcRes rs = r4" "getComparisonRes rs = r5" "createReleaseRes rs = r6"
    "successCbRes rs = r7"
    by (simp_all add: rs)
  from latestCommit_delta [OF a1] obtain g1 e1 t1 where
    d1: "s1 = advance s g1 e1 t1"
    and k1: "e1 = [] \<or>
       e1 = [Req (ReposGetCommit (owner (project inp)) (repo (project inp))
                    (defaultBranch inp) (DISABLE_CACHE imp))]"
    and v1: "case r1 of Value y \<Rightarrow> length t1 = 1 \<and> e1 \<noteq> [] | _ \<Rightarrow> t1 = []"
    by blast
  from releaseBranch_delta [OF a2] obtain g2 e2 t2 where
    d2: "s2 = advance s1 g2 e2 t2"
    and k2: "e2 = [] \<or> (\<exists>c. r1 = Value c \<and>
        e2 = [Req (GitCreateRef (owner (project inp)) (repo (project inp))
                     (''refs/heads/'' @ rcBranch info) (lc_sha c))])"
    and v2: "case r2 of Value y \<Rightarrow> length t2 = 1 \<and> e2 \<noteq> [] | _ \<Rightarrow> t2 = []"
    by blast
  from tagObject_delta [OF a3] obtain g3 e3 t3 where
    d3: "s3 = advance s2 g3 e3 t3"
    and k3: "e3 = [] \<or> (\<exists>sha date. r2 = Value sha \<and>
        e3 = [Req (GitCreateTag (owner (project inp)) (repo (project inp))
                     (rcReleaseTag info) tag_message sha ''commit'' date
                     (Some (username user)) (email user))])"
    and v3: "case r3 of Value y \<Rightarrow> length t3 = 1 \<and> e3 \<noteq> [] | _ \<Rightarrow> t3 = []"
    by blast
  from createRc_delta [OF a4] obtain g4 e4 t4 where
    d4: "s4 = advance s3 g4 e4 t4"
    and k4: "e4 = [] \<or> (\<exists>t. r3 = Value t \<and>
        e4 = [Req (GitCreateRef (owner (project inp)) (repo (project inp))
                     (''refs/tags/'' @ rcReleaseTag info) (cto_tagSha t))])"
    and v4: "case r4 of Value y \<Rightarrow> length t4 = 1 \<and> e4 \<noteq> [] | _ \<Rightarrow> t4 = []"
    by blast
  from getComparison_delta [OF a5] obtain g5 e5 t5 where
    d5: "s5 = advance s4 g5 e5 t5"
    and k5: "e5 = [] \<or> (\<exists>rf. r4 = Value rf \<and>
        e5 = [Req (ReposCompareCommits (owner (project inp)) (repo (project inp))
                     (previousReleaseBranch inp) (rcBranch info))])"
    and v5: "case r5 of
       Value y \<Rightarrow> length t5 = 1 \<and> e5 \<noteq> [] \<and>
         (\<exists>rf. r4 = Value rf \<and> releaseBody y = composeReleaseBody y rf)
     | _ \<Rightarrow> t5 = []"
    by blast
  from createRelease_delta [OF a6] obtain g6 e6 t6 where
    d6: "s6 = advance s5 g6 e6 t6"
    and k6: "e6 = [] \<or> (\<exists>cmp. r5 = Value cmp \<and>
        e6 = [Req (ReposCreateRelease (owner (project inp)) (repo (project inp))
                     (rcReleaseTag info) (releaseName info) (rcBranch info)
                     (releaseBody cmp) True)])"
    and v6: "case r6 of Value y \<Rightarrow> length t6 = 1 \<and> e6 \<noteq> [] | _ \<Rightarrow> t6 = []"
    by blast
  from successCb_delta [OF a7] obtain g7 e7 t7 where
    d7: "s7 = advance s6 g7 e7 t7"
    and k7: "e7 = [] \<or> (\<exists>cb rel cmp. successCb inp = Some cb \<and> r6 = Value rel \<and>
        r5 = Value cmp \<and> e7 = [CreateRcSuccessCb (successCb_payload inp rel cmp)])"
    and v7: "case r7 of Value y \<Rightarrow> length t7 = 1 \<and> e7 \<noteq> [] | _ \<Rightarrow> t7 = []"
    and c7: "successCb inp \<noteq> None \<and> is_Value r6 \<and> is_Value r5 \<longrightarrow> e7 \<noteq> []"
    by blast
  have final: "s' = advance s g7 (e1 @ e2 @ e3 @ e4 @ e5 @ e6 @ e7)
                      (t1 @ t2 @ t3 @ t4 @ t5 @ t6 @ t7)"
    unfolding s' d7 d6 d5 d4 d3 d2 d1 by simp
  from final k1 v1 k2 v2 k3 v3 k4 v4 k5 v5 k6 v6 k7 v7 c7 show thesis
    unfolding sel [symmetric] by (rule that)
qed

section \<open>The example run\<close>

lemma useCreateRc_run:
  "nextGitHubInfo inp = Inr info \<Longrightarrow> useCreateRc imp api user inp = Inr (run imp api user inp info)"
  by (simp add: useCreateRc_def)

lemmas ex_run_defs =
  run_def run_latestCommit_def releaseBranch_step_def tagObject_step_def createRc_step_def
  getComparison_step_def createRelease_step_def successCb_step_def useAsync_def
  getLatestCommit_def createReleaseBranch_def createTagObject_def createReference_def
  getComparison_def createRelease_def
  await_def promise_catch_def resolve_def reject_def send_def getOctokit_def
  asyncCatcher_def abortIfError_def addStepToResponseSteps_def call_createRc_successCb_def
  ex_octokit_def ex_inp_def ex_project_def ex_info_def ex_user_def ex_latest_def ex_state_def
  ex_cb_def ex_commit_def ex_tag_def ex_release_def release_result_def ex_conflict_def
  previousReleaseBranch_def composeReleaseBody_def successCb_payload_def
  GetComparisonResult.defs ComparisonRes.defs string_of_nat_12

lemma ex_success_trace:
  "trace (snd (run (ex_imports ex_octokit) ex_api ex_user (ex_inp (Some ex_cb)) ex_info ex_state))
   = [Req (ReposGetCommit ''o'' ''r'' ''master'' [(''If-None-Match'', [])]),
      Req (GitCreateRef ''o'' ''r'' ''refs/heads/rc/1.3.0'' ''c0ffee''),
      Req (GitCreateTag ''o'' ''r'' ''rc-1.3.0'' tag_message ''c0ffee'' ''commit''
             ''2021-04-01T12:00:00.000Z'' (Some ''erik'') (Some ''erik@example.com'')),
      Req (GitCreateRef ''o'' ''r'' ''refs/tags/rc-1.3.0'' ''7a6''),
      Req (ReposCompareCommits ''o'' ''r'' ''rc/1.2.0'' ''rc/1.3.0''),
      Req (ReposCreateRelease ''o'' ''r'' ''rc-1.3.0'' ''Version 1.3.0'' ''rc/1.3.0''
             (''**Compare** https://github.com/o/r/compare/a...b'' @ newline @ newline
                @ ''**Ahead by** 12 commits'' @ newline @ newline
                @ ''**Release branch** refs/tags/rc-1.3.0'' @ newline @ newline
                @ ''---'' @ newline @ newline)
             True),
      CreateRcSuccessCb
        \<lparr> comparisonUrl = ''https://github.com/o/r/compare/a...b'',
          createdTag = ''rc-1.3.0'',
          gitHubReleaseName = Some ''Version 1.3.0'',
          gitHubReleaseUrl = ''https://github.com/o/r/releases/tag/rc-1.3.0'',
          previousTag = Some ''rc-1.2.0'' \<rparr>]"
  by (simp add: ex_run_defs ex_imports_def del: string_of_nat.simps)

lemma ex_success_log:
  "length (responseSteps (snd (run (ex_imports ex_octokit) ex_api ex_user (ex_inp (Some ex_cb))
      ex_info ex_state))) = 7 \<and>
   completed (fst (run (ex_imports ex_octokit) ex_api ex_user (ex_inp (Some ex_cb))
      ex_info ex_state)) = 7"
  by (simp add: ex_run_defs completed_def del: string_of_nat.simps)

lemma ex_conflict_first:
  "useAsync (run_latestCommit (ex_imports (ex_octokit\<lparr>git_createRef := (\<lambda>r g. (Inl ex_conflict, g))\<rparr>))
      ex_api (ex_inp (Some ex_cb))) ex_state
   = (Value \<lparr> lc_sha = ''c0ffee'', lc_htmlUrl = ''https://github.com/o/r/commit/c0ffee'',
              lc_commit_message = ''fix typo'' \<rparr>,
      advance ex_state ()
        [Req (ReposGetCommit ''o'' ''r'' ''master'' [(''If-None-Match'', [])])]
        [\<lparr> message = ''Fetched latest commit from '' @ quote @ ''master'' @ quote,
           secondaryMessage = Some (''with message '' @ quote @ ''fix typo'' @ quote),
           link = Some ''https://github.com/o/r/commit/c0ffee'',
           icon = None \<rparr>])"
  by (simp add: ex_run_defs ex_imports_def advance_def del: string_of_nat.simps)

section \<open>The order of the chain\<close>

text \<open>
  Claim C1. In every run of the release-candidate chain the recorded events are the
  events of the seven steps in this order, each step contributing its one event or none:
  fetch the latest commit of the default branch; create the release branch reference at
  the sha of that commit; create the annotated tag object, pointing at the sha that the
  creation of the branch answered; create the tag reference, with the sha of the tag
  object; compare the previous release branch and the new one; create the release, as a
  prerelease, with the body composed from the comparison and the created reference; call
  the success callback. The event of a step is there only when the step before it left a
  value, that is, when it succeeded, and then the event of that step is there too. When
  the creation of the release succeeded, all six requests were sent, and the callback,
  when one is supplied, was called.
\<close>

theorem createRc_order:
  assumes run: "run imp api user inp info s = (rs, s')"
  shows "\<exists>e1 e2 e3 e4 e5 e6 e7.
     trace s' = trace s @ e1 @ e2 @ e3 @ e4 @ e5 @ e6 @ e7 \<and>
     (e1 = [] \<or>
      e1 = [Req (ReposGetCommit (owner (project inp)) (repo (project inp))
                   (defaultBranch inp) (DISABLE_CACHE imp))]) \<and>
     (e2 = [] \<or> (\<exists>c. latestCommitRes rs = Value c \<and> e1 \<noteq> [] \<and>
        e2 = [Req (GitCreateRef (owner (project inp)) (repo (project inp))
                     (''refs/heads/'' @ rcBranch info) (lc_sha c))])) \<and>
     (e3 = [] \<or> (\<exists>sha date. releaseBranchRes rs = Value sha \<and> e2 \<noteq> [] \<and>
        e3 = [Req (GitCreateTag (owner (project inp)) (repo (project inp))
                     (rcReleaseTag info) tag_message sha ''commit'' date
                     (Some (username user)) (email user))])) \<and>
     (e4 = [] \<or> (\<exists>t. tagObjectRes rs = Value t \<and> e3 \<noteq> [] \<and>
        e4 = [Req (GitCreateRef (owner (project inp)) (repo (project inp))
                     (''refs/tags/'' @ rcReleaseTag info) (cto_tagSha t))])) \<and>
     (e5 = [] \<or> (\<exists>rf. createRcRes rs = Value rf \<and> e4 \<noteq> [] \<and>
        e5 = [Req (ReposCompareCommits (owner (project inp)) (repo (project inp))
                     (previousReleaseBranch inp) (rcBranch info))])) \<and>
     (e6 = [] \<or> (\<exists>cmp rf. getComparisonRes rs = Value cmp \<and> createRcRes rs = Value rf \<and>
        releaseBody cmp = composeReleaseBody cmp rf \<and> e5 \<noteq> [] \<and>
        e6 = [Req (ReposCreateRelease (owner (project inp)) (repo (project inp))
                     (rcReleaseTag info) (releaseName info) (rcBranch info)
                     (releaseBody cmp) True)])) \<and>
     (e7 = [] \<or> (\<exists>cb rel cmp. successCb inp = Some cb \<and> createReleaseRes rs = Value rel \<and>
        getComparisonRes rs = Value cmp \<and> e6 \<noteq> [] \<and>
        e7 = [CreateRcSuccessCb (successCb_payload inp rel cmp)])) \<and>
     (is_Value (createReleaseRes rs) \<longrightarrow>
        e1 \<noteq> [] \<and> e2 \<noteq> [] \<and> e3 \<noteq> [] \<and> e4 \<noteq> [] \<and> e5 \<noteq> [] \<and> e6 \<noteq> [] \<and>
        (successCb inp \<noteq> None \<longrightarrow> e7 \<noteq> []))"
proof -
  from run obtain g e1 e2 e3 e4 e5 e6 e7 t1 t2 t3 t4 t5 t6 t7 where
    final: "s' = advance s g (e1 @ e2 @ e3 @ e4 @ e5 @ e6 @ e7) (t1 @ t2 @ t3 @ t4 @ t5 @ t6 @ t7)"
    and k1: "e1 = [] \<or>
     e1 = [Req (ReposGetCommit (owner (project inp)) (repo (project inp))
                  (defaultBranch inp) (DISABLE_CACHE imp))]"
    and v1: "case latestCommitRes rs of Value y \<Rightarrow> length t1 = 1 \<and> e1 \<noteq> [] | _ \<Rightarrow> t1 = []"
    and k2: "e2 = [] \<or> (\<exists>c. latestCommitRes rs = Value c \<and>
        e2 = [Req (GitCreateRef (owner (project inp)) (repo (project inp))
                     (''refs/heads/'' @ rcBranch info) (lc_sha c))])"
    and v2: "case releaseBranchRes rs of Value y \<Rightarrow> length t2 = 1 \<and> e2 \<noteq> [] | _ \<Rightarrow> t2 = []"
    and k3: "e3 = [] \<or> (\<exists>sha date. releaseBranchRes rs = Value sha \<and>
        e3 = [Req (GitCreateTag (owner (project inp)) (repo (project inp))
                     (rcReleaseTag info) tag_message sha ''commit'' date
                     (Some (username user)) (email user))])"
    and v3: "case tagObjectRes rs of Value y \<Rightarrow> length t3 = 1 \<and> e3 \<noteq> [] | _ \<Rightarrow> t3 = []"
    and k4: "e4 = [] \<or> (\<exists>t. tagObjectRes rs = Value t \<and>
        e4 = [Req (GitCreateRef (owner (project inp)) (repo (project inp))
                     (''refs/tags/'' @ rcReleaseTag info) (cto_tagSha t))])"
    and v4: "case createRcRes rs of Value y \<Rightarrow> length t4 = 1 \<and> e4 \<noteq> [] | _ \<Rightarrow> t4 = []"
    and k5: "e5 = [] \<or> (\<exists>rf. createRcRes rs = Value rf \<and>
        e5 = [Req (ReposCompareCommits (owner (project inp)) (repo (project inp))
                     (previousReleaseBranch inp) (rcBranch info))])"
    and v5: "case getComparisonRes rs of
       Value y \<Rightarrow> length t5 = 1 \<and> e5 \<noteq> [] \<and>
         (\<exists>rf. createRcRes rs = Value rf \<and> releaseBody y = composeReleaseBody y rf)
     | _ \<Rightarrow> t5 = []"
    and k6: "e6 = [] \<or> (\<exists>cmp. getComparisonRes rs = Value cmp \<and>
        e6 = [Req (ReposCreateRelease (owner (project inp)) (repo (project inp))
                     (rcReleaseTag info) (releaseName info) (rcBranch info)
                     (releaseBody cmp) True)])"
    and v6: "case createReleaseRes rs of Value y \<Rightarrow> length t6 = 1 \<and> e6 \<noteq> [] | _ \<Rightarrow> t6 = []"
    and k7: "e7 = [] \<or> (\<exists>cb rel cmp. successCb inp = Some cb \<and> createReleaseRes rs = Value rel \<and>
        getComparisonRes rs = Value cmp \<and>
        e7 = [CreateRcSuccessCb (successCb_payload inp rel cmp)])"
    and v7: "case successCbRes rs of Value y \<Rightarrow> length t7 = 1 \<and> e7 \<noteq> [] | _ \<Rightarrow> t7 = []"
    and c7: "successCb inp \<noteq> None \<and> is_Value (createReleaseRes rs) \<and>
             is_Value (getComparisonRes rs) \<longrightarrow> e7 \<noteq> []"
    by (rule run_deltas)
  have tr: "trace s' = trace s @ e1 @ e2 @ e3 @ e4 @ e5 @ e6 @ e7"
    unfolding final by simp
  have n1: "e1 \<noteq> []" if "latestCommitRes rs = Value c" for c using v1 that by simp
  have n2: "e2 \<noteq> []" if "releaseBranchRes rs = Value c" for c using v2 that by simp
  have n3: "e3 \<noteq> []" if "tagObjectRes rs = Value c" for c using v3 that by simp
  have n4: "e4 \<noteq> []" if "createRcRes rs = Value c" for c using v4 that by simp
  have n5: "e5 \<noteq> []" if "getComparisonRes rs = Value c" for c using v5 that by simp
  have n6: "e6 \<noteq> []" if "createReleaseRes rs = Value c" for c using v6 that by simp
  have b5: "\<exists>rf. createRcRes rs = Value rf \<and> releaseBody c = composeReleaseBody c rf"
    if "getComparisonRes rs = Value c" for c using v5 that by simp
  have c2: "e2 = [] \<or> (\<exists>c. latestCommitRes rs = Value c \<and> e1 \<noteq> [] \<and>
        e2 = [Req (GitCreateRef (owner (project inp)) (repo (project inp))
                     (''refs/heads/'' @ rcBranch info) (lc_sha c))])"
    using k2 n1 by blast
  have c3: "e3 = [] \<or> (\<exists>sha date. releaseBranchRes rs = Value sha \<and> e2 \<noteq> [] \<and>
        e3 = [Req (GitCreateTag (owner (project inp)) (repo (project inp))
                     (rcReleaseTag info) tag_message sha ''commit'' date
                     (Some (username user)) (email user))])"
    using k3 n2 by blast
  have c4: "e4 = [] \<or> (\<exists>t. tagObjectRes rs = Value t \<and> e3 \<noteq> [] \<and>
        e4 = [Req (GitCreateRef (owner (project inp)) (repo (project inp))
                     (''refs/tags/'' @ rcReleaseTag info) (cto_tagSha t))])"
    using k4 n3 by blast
  have c5: "e5 = [] \<or> (\<exists>rf. createRcRes rs = Value rf \<and> e4 \<noteq> [] \<and>
        e5 = [Req (ReposCompareCommits (owner (project inp)) (repo (project inp))
                     (previousReleaseBranch inp) (rcBranch info))])"
    using k5 n4 by blast
  have c6: "e6 = [] \<or> (\<exists>cmp rf. getComparisonRes rs = Value cmp \<and> createRcRes rs = Value rf \<and>
        releaseBody cmp = composeReleaseBody cmp rf \<and> e5 \<noteq> [] \<and>
        e6 = [Req (ReposCreateRelease (owner (project inp)) (repo (project inp))
                     (rcReleaseTag info) (releaseName info) (rcBranch info)
                     (releaseBody cmp) True)])"
    using k6 n5 b5 by blast
  have c7': "e7 = [] \<or> (\<exists>cb rel cmp. successCb inp = Some cb \<and> createReleaseRes rs = Value rel \<and>
        getComparisonRes rs = Value cmp \<and> e6 \<noteq> [] \<and>
        e7 = [CreateRcSuccessCb (successCb_payload inp rel cmp)])"
    using k7 n6 by blast
  have all: "is_Value (createReleaseRes rs) \<longrightarrow>
        e1 \<noteq> [] \<and> e2 \<noteq> [] \<and> e3 \<noteq> [] \<and> e4 \<noteq> [] \<and> e5 \<noteq> [] \<and> e6 \<noteq> [] \<and>
        (successCb inp \<noteq> None \<longrightarrow> e7 \<noteq> [])"
  proof
    assume "is_Value (createReleaseRes rs)"
    then obtain rel where rel: "createReleaseRes rs = Value rel"
      by (cases "createReleaseRes rs") auto
    from n6 [OF rel] have e6: "e6 \<noteq> []" .
    with c6 have e5: "e5 \<noteq> []" and cmp: "is_Value (getComparisonRes rs)" by auto
    with c5 have e4: "e4 \<noteq> []" by auto
    with c4 have e3: "e3 \<noteq> []" by auto
    with c3 have e2: "e2 \<noteq> []" by auto
    with c2 have e1: "e1 \<noteq> []" by auto
    from c7 rel cmp have "successCb inp \<noteq> None \<longrightarrow> e7 \<noteq> []" by simp
    with e1 e2 e3 e4 e5 e6 show "e1 \<noteq> [] \<and> e2 \<noteq> [] \<and> e3 \<noteq> [] \<and> e4 \<noteq> [] \<and> e5 \<noteq> [] \<and>
        e6 \<noteq> [] \<and> (successCb inp \<noteq> None \<longrightarrow> e7 \<noteq> [])" by blast
  qed
  show ?thesis
    apply (intro exI conjI)
            apply (rule tr)
           apply (rule k1)
          apply (rule c2)
         apply (rule c3)
        apply (rule c4)
       apply (rule c5)
      apply (rule c6)
     apply (rule c7')
    apply (rule all)
    done
qed

theorem createRc_order_witness:
  "trace (snd (run (ex_imports ex_octokit) ex_api ex_user (ex_inp (Some ex_cb)) ex_info ex_state))
   = [Req (ReposGetCommit ''o'' ''r'' ''master'' [(''If-None-Match'', [])]),
      Req (GitCreateRef ''o'' ''r'' ''refs/heads/rc/1.3.0'' ''c0ffee''),
      Req (GitCreateTag ''o'' ''r'' ''rc-1.3.0'' tag_message ''c0ffee'' ''commit''
             ''2021-04-01T12:00:00.000Z'' (Some ''erik'') (Some ''erik@example.com'')),
      Req (GitCreateRef ''o'' ''r'' ''refs/tags/rc-1.3.0'' ''7a6''),
      Req (ReposCompareCommits ''o'' ''r'' ''rc/1.2.0'' ''rc/1.3.0''),
      Req (ReposCreateRelease ''o'' ''r'' ''rc-1.3.0'' ''Version 1.3.0'' ''rc/1.3.0''
             (''**Compare** https://github.com/o/r/compare/a...b'' @ newline @ newline
                @ ''**Ahead by** 12 commits'' @ newline @ newline
                @ ''**Release branch** refs/tags/rc-1.3.0'' @ newline @ newline
                @ ''---'' @ newline @ newline)
             True),
      CreateRcSuccessCb
        \<lparr> comparisonUrl = ''https://github.com/o/r/compare/a...b'',
          createdTag = ''rc-1.3.0'',
          gitHubReleaseName = Some ''Version 1.3.0'',
          gitHubReleaseUrl = ''https://github.com/o/r/releases/tag/rc-1.3.0'',
          previousTag = Some ''rc-1.2.0'' \<rparr>] \<and>
   is_Value (createReleaseRes
     (fst (run (ex_imports ex_octokit) ex_api ex_user (ex_inp (Some ex_cb)) ex_info ex_state)))"
proof -
  let ?R = "run (ex_imports ex_octokit) ex_api ex_user (ex_inp (Some ex_cb)) ex_info ex_state"
  have pair: "?R = (fst ?R, snd ?R)" by simp
  have fin: "is_Value (createReleaseRes (fst ?R))"
    by (simp add: ex_run_defs del: string_of_nat.simps)
  have cb: "successCb (ex_inp (Some ex_cb)) \<noteq> None"
    by (simp add: ex_inp_def)
  from createRc_order [OF pair] fin cb
  have "\<exists>evs. length evs = 7 \<and> trace (snd ?R) = trace ex_state @ evs"
    by (auto simp: neq_Nil_conv)
  with fin ex_success_trace show ?thesis
    by simp
qed

section \<open>The log of response steps\<close>

text \<open>
  Claim C7. A run of the chain only appends to the log of response steps: the log after
  the run is the log before it followed by new entries, one for each step that completed.
  The entries have no influence on the run: started with any other log, the run gives the
  same states of the steps, the same world and the same events, and appends the same
  entries. Started with an empty log, the progress after the run is the number of completed
  steps divided by the total number of steps, times 100, where the total is 6 without a
  success callback and 7 with one, and the number of completed steps never exceeds it.
\<close>

theorem createRc_log:
  assumes run: "run imp api user inp info s = (rs, s')"
  shows "\<exists>new.
     responseSteps s' = responseSteps s @ new \<and>
     length new = completed rs \<and>
     (\<forall>l. run imp api user inp info (s\<lparr>responseSteps := l\<rparr>)
            = (rs, s'\<lparr>responseSteps := l @ new\<rparr>)) \<and>
     (responseSteps s = [] \<longrightarrow>
        progress inp s' = (real (completed rs) / real (TOTAL_STEPS inp)) * 100) \<and>
     TOTAL_STEPS inp = (case successCb inp of None \<Rightarrow> 6 | Some _ \<Rightarrow> 7) \<and>
     completed rs \<le> TOTAL_STEPS inp"
proof -
  from run obtain g e1 e2 e3 e4 e5 e6 e7 t1 t2 t3 t4 t5 t6 t7 where
    final: "s' = advance s g (e1 @ e2 @ e3 @ e4 @ e5 @ e6 @ e7) (t1 @ t2 @ t3 @ t4 @ t5 @ t6 @ t7)"
    and v1: "case latestCommitRes rs of Value y \<Rightarrow> length t1 = 1 \<and> e1 \<noteq> [] | _ \<Rightarrow> t1 = []"
    and v2: "case releaseBranchRes rs of Value y \<Rightarrow> length t2 = 1 \<and> e2 \<noteq> [] | _ \<Rightarrow> t2 = []"
    and v3: "case tagObjectRes rs of Value y \<Rightarrow> length t3 = 1 \<and> e3 \<noteq> [] | _ \<Rightarrow> t3 = []"
    and v4: "case createRcRes rs of Value y \<Rightarrow> length t4 = 1 \<and> e4 \<noteq> [] | _ \<Rightarrow> t4 = []"
    and v5: "case getComparisonRes rs of
       Value y \<Rightarrow> length t5 = 1 \<and> e5 \<noteq> [] \<and>
         (\<exists>rf. createRcRes rs = Value rf \<and> releaseBody y = composeReleaseBody y rf)
     | _ \<Rightarrow> t5 = []"
    and v6: "case createReleaseRes rs of Value y \<Rightarrow> length t6 = 1 \<and> e6 \<noteq> [] | _ \<Rightarrow> t6 = []"
    and k7: "e7 = [] \<or> (\<exists>cb rel cmp. successCb inp = Some cb \<and> createReleaseRes rs = Value rel \<and>
        getComparisonRes rs = Value cmp \<and>
        e7 = [CreateRcSuccessCb (successCb_payload inp rel cmp)])"
    and v7: "case successCbRes rs of Value y \<Rightarrow> length t7 = 1 \<and> e7 \<noteq> [] | _ \<Rightarrow> t7 = []"
    by (rule run_deltas)
  let ?new = "t1 @ t2 @ t3 @ t4 @ t5 @ t6 @ t7"
  have l1: "length t1 = (if is_Value (latestCommitRes rs) then 1 else 0)"
    using v1 by (cases "latestCommitRes rs") simp_all
  have l2: "length t2 = (if is_Value (releaseBranchRes rs) then 1 else 0)"
    using v2 by (cases "releaseBranchRes rs") simp_all
  have l3: "length t3 = (if is_Value (tagObjectRes rs) then 1 else 0)"
    using v3 by (cases "tagObjectRes rs") simp_all
  have l4: "length t4 = (if is_Value (createRcRes rs) then 1 else 0)"
    using v4 by (cases "createRcRes rs") simp_all
  have l5: "length t5 = (if is_Value (getComparisonRes rs) then 1 else 0)"
    using v5 by (cases "getComparisonRes rs") simp_all
  have l6: "length t6 = (if is_Value (createReleaseRes rs) then 1 else 0)"
    using v6 by (cases "createReleaseRes rs") simp_all
  have l7: "length t7 = (if is_Value (successCbRes rs) then 1 else 0)"
    using v7 by (cases "successCbRes rs") simp_all
  have app: "responseSteps s' = responseSteps s @ ?new"
    unfolding final by simp
  have len: "length ?new = completed rs"
    by (simp add: completed_def l1 l2 l3 l4 l5 l6 l7)
  from oblivious_log [OF oblivious_run run] obtain g' evs st where
    adv: "s' = advance s g' evs st"
    and any: "\<And>l. run imp api user inp info (s\<lparr>responseSteps := l\<rparr>)
                  = (rs, s'\<lparr>responseSteps := l @ st\<rparr>)"
    by blast
  from adv app have "st = ?new" by simp
  with any have ind: "\<forall>l. run imp api user inp info (s\<lparr>responseSteps := l\<rparr>)
                  = (rs, s'\<lparr>responseSteps := l @ ?new\<rparr>)"
    by simp
  have prog: "responseSteps s = [] \<longrightarrow>
        progress inp s' = (real (completed rs) / real (TOTAL_STEPS inp)) * 100"
    using app len by (simp add: progress_def)
  have total: "TOTAL_STEPS inp = (case successCb inp of None \<Rightarrow> 6 | Some _ \<Rightarrow> 7)"
    by (simp add: TOTAL_STEPS_def split: option.splits)
  have bound: "completed rs \<le> TOTAL_STEPS inp"
  proof (cases "successCb inp")
    case None
    with k7 have "e7 = []" by auto
    with v7 have "\<not> is_Value (successCbRes rs)"
      by (cases "successCbRes rs") simp_all
    with None show ?thesis
      by (simp add: completed_def TOTAL_STEPS_def)
  next
    case (Some cb)
    then show ?thesis
      by (simp add: completed_def TOTAL_STEPS_def)
  qed
  show ?thesis
    apply (intro exI conjI)
         apply (rule app)
        apply (rule len)
       apply (rule ind)
      apply (rule prog)
     apply (rule total)
    apply (rule bound)
    done
qed

theorem createRc_log_witness:
  "length (responseSteps (snd (run (ex_imports ex_octokit) ex_api ex_user (ex_inp (Some ex_cb))
      ex_info ex_state))) = 7 \<and>
   TOTAL_STEPS (ex_inp (Some ex_cb)) = 7 \<and>
   progress (ex_inp (Some ex_cb))
     (snd (run (ex_imports ex_octokit) ex_api ex_user (ex_inp (Some ex_cb)) ex_info ex_state))
   = 100"
proof -
  let ?R = "run (ex_imports ex_octokit) ex_api ex_user (ex_inp (Some ex_cb)) ex_info ex_state"
  have pair: "?R = (fst ?R, snd ?R)" by simp
  have empty: "responseSteps ex_state = []" by (simp add: ex_state_def)
  have cb: "successCb (ex_inp (Some ex_cb)) = Some ex_cb" by (simp add: ex_inp_def)
  from createRc_log [OF pair] empty cb ex_success_log show ?thesis
    by auto
qed

section \<open>A release branch that already exists\<close>

text \<open>
  Claim C2. Let the first step of the chain succeed with the commit \<open>c\<close>, and let the
  request that creates the release branch be answered with an error whose body message is
  \<^verbatim>\<open>Reference already exists\<close>. Then the error of the second step is the plugin's
  own error whose message names the release branch, every later step of the chain ends
  with that same error without sending anything (the callback step with no value), and
  the run ends in the state the failed request left: no request follows it, and nothing is
  added to the log.
\<close>

theorem createRc_branch_conflict:
  assumes first: "useAsync (run_latestCommit imp api inp) s = (Value c, s1)"
    and tok: "githubAuthApi api [''repo''] (world s1) = (Inr token, g1)"
    and conflict: "git_createRef (Octokit imp token (baseUrl api))
                     (GitCreateRef (owner (project inp)) (repo (project inp))
                        (''refs/heads/'' @ rcBranch info) (lc_sha c)) g1 = (Inl e, g2)"
    and msg: "error_body_message e = Some ''Reference already exists''"
  shows "(let err = GitHubReleaseManagerError
                      (''Branch '' @ quote @ rcBranch info @ quote
                         @ '' already exists: .../tree/'' @ rcBranch info)
          in run imp api user inp info s =
               (\<lparr> latestCommitRes = Value c, releaseBranchRes = Error err,
                   tagObjectRes = Error err, createRcRes = Error err,
                   getComparisonRes = Error err, createReleaseRes = Error err,
                   successCbRes = NoValue \<rparr>,
                advance s1 g2
                  [Req (GitCreateRef (owner (project inp)) (repo (project inp))
                          (''refs/heads/'' @ rcBranch info) (lc_sha c))] []))"
proof -
  let ?err = "GitHubReleaseManagerError
                (''Branch '' @ quote @ rcBranch info @ quote
                   @ '' already exists: .../tree/'' @ rcBranch info)"
  let ?req = "GitCreateRef (owner (project inp)) (repo (project inp))
                (''refs/heads/'' @ rcBranch info) (lc_sha c)"
  have branch: "createReleaseBranch imp api (owner (project inp)) (repo (project inp))
                  (lc_sha c) (rcBranch info) s1 = (Inl e, advance s1 g2 [Req ?req] [])"
    unfolding createReleaseBranch_def
    using method_granted [where ep = git_createRef and k = ref_object_sha, OF tok conflict]
    by simp
  have second: "useAsync (releaseBranch_step imp api inp info (Value c)) s1
                  = (Error ?err, advance s1 g2 [Req ?req] [])"
    using branch msg
    by (simp add: releaseBranch_step_def useAsync_def await_def abortIfError_def resolve_def
          promise_catch_def asyncCatcher_def reject_def)
  have third: "useAsync (tagObject_step imp api user inp info (Error ?err)) t = (Error ?err, t)" for t
    by (simp add: tagObject_step_def useAsync_def await_def abortIfError_def reject_def)
  have fourth: "useAsync (createRc_step imp api inp info (Error ?err)) t = (Error ?err, t)" for t
    by (simp add: createRc_step_def useAsync_def await_def abortIfError_def reject_def)
  have fifth: "useAsync (getComparison_step imp api inp info (Error ?err)) t = (Error ?err, t)" for t
    by (simp add: getComparison_step_def useAsync_def await_def abortIfError_def reject_def)
  have sixth: "useAsync (createRelease_step imp api inp info (Error ?err)) t = (Error ?err, t)" for t
    by (simp add: createRelease_step_def useAsync_def await_def abortIfError_def reject_def)
  have seventh: "useAsync (successCb_step inp (Error ?err) (Error ?err)) t = (NoValue, t)" for t
    by (simp add: successCb_step_def useAsync_def resolve_def split: option.splits)
  show ?thesis
    unfolding Let_def run_def
    by (simp only: first second third fourth fifth sixth seventh prod.case)
qed

theorem createRc_branch_conflict_witness:
  "run (ex_imports (ex_octokit\<lparr>git_createRef := (\<lambda>r g. (Inl ex_conflict, g))\<rparr>))
       ex_api ex_user (ex_inp (Some ex_cb)) ex_info ex_state
   = (\<lparr> latestCommitRes = Value \<lparr> lc_sha = ''c0ffee'',
                                   lc_htmlUrl = ''https://github.com/o/r/commit/c0ffee'',
                                   lc_commit_message = ''fix typo'' \<rparr>,
         releaseBranchRes = Error (GitHubReleaseManagerError
           (''Branch '' @ quote @ ''rc/1.3.0'' @ quote @ '' already exists: .../tree/rc/1.3.0'')),
         tagObjectRes = Error (GitHubReleaseManagerError
           (''Branch '' @ quote @ ''rc/1.3.0'' @ quote @ '' already exists: .../tree/rc/1.3.0'')),
         createRcRes = Error (GitHubReleaseManagerError
           (''Branch '' @ quote @ ''rc/1.3.0'' @ quote @ '' already exists: .../tree/rc/1.3.0'')),
         getComparisonRes = Error (GitHubReleaseManagerError
           (''Branch '' @ quote @ ''rc/1.3.0'' @ quote @ '' already exists: .../tree/rc/1.3.0'')),
         createReleaseRes = Error (GitHubReleaseManagerError
           (''Branch '' @ quote @ ''rc/1.3.0'' @ quote @ '' already exists: .../tree/rc/1.3.0'')),
         successCbRes = NoValue \<rparr>,
      advance ex_state ()
        [Req (ReposGetCommit ''o'' ''r'' ''master'' [(''If-None-Match'', [])]),
         Req (GitCreateRef ''o'' ''r'' ''refs/heads/rc/1.3.0'' ''c0ffee'')]
        [\<lparr> message = ''Fetched latest commit from '' @ quote @ ''master'' @ quote,
           secondaryMessage = Some (''with message '' @ quote @ ''fix typo'' @ quote),
           link = Some ''https://github.com/o/r/commit/c0ffee'',
           icon = None \<rparr>])"
proof -
  let ?oct = "ex_octokit\<lparr>git_createRef := (\<lambda>r g. (Inl ex_conflict, g))\<rparr>"
  let ?s1 = "advance ex_state ()
        [Req (ReposGetCommit ''o'' ''r'' ''master'' [(''If-None-Match'', [])])]
        [\<lparr> message = ''Fetched latest commit from '' @ quote @ ''master'' @ quote,
           secondaryMessage = Some (''with message '' @ quote @ ''fix typo'' @ quote),
           link = Some ''https://github.com/o/r/commit/c0ffee'',
           icon = None \<rparr>]"
  let ?c = "\<lparr> lc_sha = ''c0ffee'', lc_htmlUrl = ''https://github.com/o/r/commit/c0ffee'',
              lc_commit_message = ''fix typo'' \<rparr>"
  have tok: "githubAuthApi ex_api [''repo''] (world ?s1) = (Inr ''token'', ())"
    by simp
  have conflict: "git_createRef (Octokit (ex_imports ?oct) ''token'' (baseUrl ex_api))
                     (GitCreateRef (owner (project (ex_inp (Some ex_cb))))
                        (repo (project (ex_inp (Some ex_cb))))
                        (''refs/heads/'' @ rcBranch ex_info) (lc_sha ?c)) () = (Inl ex_conflict, ())"
    by simp
  have msg: "error_body_message ex_conflict = Some ''Reference already exists''"
    by (simp add: ex_conflict_def)
  from createRc_branch_conflict [OF ex_conflict_first tok conflict msg, of ex_user]
  show ?thesis
    by (simp add: Let_def ex_inp_def ex_project_def ex_info_def)
qed

end
